theory Spec2Isabelle
  imports Main "HOL-Library.Sublist" "HOL-Library.AList"
begin

section \<open>JavaScript strings\<close>

text \<open>
  A JavaScript string is modelled as a \<open>string\<close>: a list of code units, each below 256.
  White space is what \<open>String.prototype.trim\<close> strips and what \<open>\s\<close> matches in that range:
  tab, line feed, vertical tab, form feed, carriage return, space and no-break space.
\<close>

definition is_space :: "char \<Rightarrow> bool" where
  "is_space c = (c \<in> set [CHR 0x09, CHR 0x0A, CHR 0x0B, CHR 0x0C, CHR 0x0D, CHR '' '', CHR 0xA0])"

definition is_digit :: "char \<Rightarrow> bool" where
  "is_digit c = (c \<in> set ''0123456789'')"

definition is_word :: "char \<Rightarrow> bool" where
  "is_word c = (c \<in> set ''abcdefghijklmnopqrstuvwxyzABCDEFGHIJKLMNOPQRSTUVWXYZ0123456789_'')"

definition trim :: "string \<Rightarrow> string" where
  "trim s = rev (dropWhile is_space (rev (dropWhile is_space s)))"

text \<open>\<open>s.includes(t)\<close>, \<open>s.startsWith(t)\<close>.\<close>

fun js_includes :: "string \<Rightarrow> string \<Rightarrow> bool" where
  "js_includes [] t = (t = [])"
| "js_includes (c # cs) t = (prefix t (c # cs) \<or> js_includes cs t)"

definition startsWith :: "string \<Rightarrow> string \<Rightarrow> bool" where
  "startsWith s t = prefix t s"

text \<open>\<open>s.replace(pat, rep)\<close> with a string pattern: only the first occurrence is replaced.\<close>

fun replace_first :: "string \<Rightarrow> string \<Rightarrow> string \<Rightarrow> string" where
  "replace_first [] pat rep = (if pat = [] then rep else [])"
| "replace_first (c # cs) pat rep =
     (if prefix pat (c # cs) then rep @ drop (length pat) (c # cs)
      else c # replace_first cs pat rep)"

text \<open>\<open>s.split(sep)[0]\<close> for a non-empty separator: the text before its first occurrence.\<close>

fun split_head :: "string \<Rightarrow> string \<Rightarrow> string" where
  "split_head [] sep = []"
| "split_head (c # cs) sep = (if prefix sep (c # cs) then [] else c # split_head cs sep)"

text \<open>\<open>xs.join(sep)\<close>.\<close>

fun join :: "string \<Rightarrow> string list \<Rightarrow> string" where
  "join sep [] = []"
| "join sep [x] = x"
| "join sep (x # y # ys) = x @ sep @ join sep (y # ys)"

section \<open>Regular expressions\<close>

text \<open>
  The regular expressions of the source are matched as the language does it: a backtracking
  matcher that returns the candidate end states in priority order (greedy quantifiers try
  the longest repetition first), and a search that takes the leftmost start at which a
  candidate exists. A pattern has at most one capture group here, so one slot holds it.
\<close>

datatype catom = CDigit | CWord | CSpace | CLit char

datatype regex =
    Empty
  | Chars bool "catom list"
  | Seq regex regex
  | Rep nat "nat option" regex
  | Group regex
  | Bol
  | Eol

text \<open>
  With the flag \<open>i\<close> two characters are compared after canonicalisation (upper case).
  Every literal of the source's patterns is ASCII, and no character from 128 on canonicalises
  to an ASCII one, so the table of the ASCII letters decides every comparison.
\<close>

definition canonicalize :: "char \<Rightarrow> char" where
  "canonicalize c =
     (case map_of (zip ''abcdefghijklmnopqrstuvwxyz'' ''ABCDEFGHIJKLMNOPQRSTUVWXYZ'') c of
        Some u \<Rightarrow> u
      | None \<Rightarrow> c)"

fun atom_match :: "bool \<Rightarrow> catom \<Rightarrow> char \<Rightarrow> bool" where
  "atom_match ci CDigit c = is_digit c"
| "atom_match ci CWord c = is_word c"
| "atom_match ci CSpace c = is_space c"
| "atom_match ci (CLit p) c = (if ci then canonicalize p = canonicalize c else p = c)"

record mstate =
  pos :: nat
  rest :: string
  cap :: "string option"

text \<open>
  A quantifier \<open>{lo,hi}\<close> (\<open>hi = None\<close>: unbounded), greedy. An iteration that consumes nothing
  is refused once the minimum is met, as ECMAScript's RepeatMatcher does. The fuel is
  \<open>lo\<close> plus the length of the input left, which no run can exceed.
\<close>

fun rep_iter ::
  "(mstate \<Rightarrow> mstate list) \<Rightarrow> nat \<Rightarrow> nat \<Rightarrow> nat option \<Rightarrow> mstate \<Rightarrow> mstate list" where
  "rep_iter f 0 lo hi s = (if lo = 0 then [s] else [])"
| "rep_iter f (Suc fuel) lo hi s =
     (if hi = Some 0 then [s]
      else
        let more = concat (map (rep_iter f fuel (lo - 1) (map_option (\<lambda>h. h - 1) hi))
                     (filter (\<lambda>s'. 0 < lo \<or> pos s' \<noteq> pos s) (f s)))
        in if 0 < lo then more else more @ [s])"

fun rmatch :: "bool \<Rightarrow> regex \<Rightarrow> mstate \<Rightarrow> mstate list" where
  "rmatch ci Empty s = [s]"
| "rmatch ci (Chars neg as) s =
     (case rest s of
        [] \<Rightarrow> []
      | c # cs \<Rightarrow>
          if list_ex (\<lambda>a. atom_match ci a c) as \<noteq> neg
          then [s\<lparr>pos := Suc (pos s), rest := cs\<rparr>] else [])"
| "rmatch ci (Seq a b) s = concat (map (\<lambda>s'. rmatch ci b s') (rmatch ci a s))"
| "rmatch ci (Rep lo hi r) s =
     rep_iter (\<lambda>s'. rmatch ci r s') (lo + length (rest s)) lo hi s"
| "rmatch ci (Group r) s =
     map (\<lambda>s'. s'\<lparr>cap := Some (take (pos s' - pos s) (rest s))\<rparr>) (rmatch ci r s)"
| "rmatch ci Bol s = (if pos s = 0 then [s] else [])"
| "rmatch ci Eol s = (if rest s = [] then [s] else [])"

text \<open>
  \<open>str.match(re)\<close> without the flag \<open>g\<close>: \<open>None\<close> is \<open>null\<close>, and \<open>Some (m0, m1)\<close> is the
  match array with \<open>m0\<close> the matched text and \<open>m1\<close> the capture group (\<open>None\<close>: undefined).
\<close>

fun rsearch :: "bool \<Rightarrow> regex \<Rightarrow> nat \<Rightarrow> string \<Rightarrow> (string \<times> string option) option" where
  "rsearch ci r p s =
     (case rmatch ci r \<lparr>pos = p, rest = s, cap = None\<rparr> of
        s' # _ \<Rightarrow> Some (take (pos s' - p) s, cap s')
      | [] \<Rightarrow> (case s of [] \<Rightarrow> None | _ # cs \<Rightarrow> rsearch ci r (Suc p) cs))"

declare rsearch.simps [simp del]

definition js_match :: "bool \<Rightarrow> regex \<Rightarrow> string \<Rightarrow> (string \<times> string option) option" where
  "js_match ci r s = rsearch ci r 0 s"

definition seqs :: "regex list \<Rightarrow> regex" where
  "seqs rs = foldr Seq rs Empty"

definition lit :: "string \<Rightarrow> regex" where
  "lit s = seqs (map (\<lambda>c. Chars False [CLit c]) s)"

definition star :: "regex \<Rightarrow> regex" where
  "star r = Rep 0 None r"

definition plus1 :: "regex \<Rightarrow> regex" where
  "plus1 r = Rep 1 None r"

definition opt :: "regex \<Rightarrow> regex" where
  "opt r = Rep 0 (Some 1) r"

definition digit :: regex where
  "digit = Chars False [CDigit]"

text \<open>\<open>/^\d(\.\d)?$/\<close>\<close>

definition rating_re :: regex where
  "rating_re = seqs [Bol, digit, opt (Group (seqs [lit ''.'', digit])), Eol]"

text \<open>\<open>\d{1,3}(?:,\d{3})*\<close>, the grouped integer both review patterns capture.\<close>

definition grouped_int :: regex where
  "grouped_int = seqs [Rep 1 (Some 3) digit, star (seqs [lit '','', Rep 3 (Some 3) digit])]"

text \<open>\<open>/(\d{1,3}(?:,\d{3})*)\s*reviews?/i\<close>\<close>

definition reviews_before_re :: regex where
  "reviews_before_re =
     seqs [Group grouped_int, star (Chars False [CSpace]), lit ''review'', opt (lit ''s'')]"

text \<open>\<open>/reviews?[^0-9]*(\d{1,3}(?:,\d{3})*)/i\<close>\<close>

definition reviews_after_re :: regex where
  "reviews_after_re =
     seqs [lit ''review'', opt (lit ''s''), star (Chars True [CDigit]), Group grouped_int]"

text \<open>\<open>/[\w.-]+@[\w.-]+\.\w+/\<close>\<close>

definition email_re :: regex where
  "email_re =
     seqs [plus1 (Chars False [CWord, CLit (CHR ''.''), CLit (CHR ''-'')]), lit ''@'',
           plus1 (Chars False [CWord, CLit (CHR ''.''), CLit (CHR ''-'')]), lit ''.'',
           plus1 (Chars False [CWord])]"

text \<open>\<open>/Category:\s*([^.,;]+)/i\<close> and \<open>/Type:\s*([^.,;]+)/i\<close>\<close>

definition labelled_re :: "string \<Rightarrow> regex" where
  "labelled_re label =
     seqs [lit label, star (Chars False [CSpace]),
           Group (plus1 (Chars True [CLit (CHR ''.''), CLit (CHR '',''), CLit (CHR '';'')]))]"

text \<open>\<open>/^\d/\<close>\<close>

definition leading_digit_re :: regex where
  "leading_digit_re = seqs [Bol, digit]"

section \<open>The rendered page\<close>

text \<open>
  The page is what the in-page code can observe of it: for each selector the elements
  \<open>querySelectorAll\<close> returns, in document order, and the \<open>innerText\<close> of the body
  (\<open>None\<close> when \<open>document.body\<close> is \<open>null\<close>). An element answers the same way for
  the selectors asked below it. Its \<open>href\<close> property is undefined on an element that is
  no link, a string on an HTML anchor, and an object (an \<open>SVGAnimatedString\<close>) on an
  SVG anchor; \<open>ariaLabel\<close> is \<open>getAttribute('aria-label')\<close> and \<open>closestDiv\<close> is
  \<open>closest('div')\<close>, both \<open>None\<close> for \<open>null\<close>.
\<close>

datatype href = HrefUndefined | HrefString string | HrefObject

datatype element =
  Element (textContent: string) (href: href) (ariaLabel: "string option")
    (closestDiv: "element option") (inner: "(string \<times> element list) list")

record document =
  selected :: "(string \<times> element list) list"
  body_innerText :: "string option"

definition first_of :: "'a list \<Rightarrow> 'a option" where
  "first_of xs = (case xs of [] \<Rightarrow> None | x # _ \<Rightarrow> Some x)"

definition querySelectorAll :: "document \<Rightarrow> string \<Rightarrow> element list" where
  "querySelectorAll doc sel = (case map_of (selected doc) sel of None \<Rightarrow> [] | Some es \<Rightarrow> es)"

definition querySelector :: "document \<Rightarrow> string \<Rightarrow> element option" where
  "querySelector doc sel = first_of (querySelectorAll doc sel)"

definition el_querySelectorAll :: "element \<Rightarrow> string \<Rightarrow> element list" where
  "el_querySelectorAll el sel = (case map_of (inner el) sel of None \<Rightarrow> [] | Some es \<Rightarrow> es)"

definition el_querySelector :: "element \<Rightarrow> string \<Rightarrow> element option" where
  "el_querySelector el sel = first_of (el_querySelectorAll el sel)"

text \<open>
  What the source can throw: a \<open>TypeError\<close> of the in-page code (a property read on
  \<open>null\<close>, a call of a method an object does not have), and a fault of the browser driver
  (a navigation timeout, a closed page).
\<close>

datatype js_error = TypeError | DriverError

section \<open>Loops over strategies\<close>

text \<open>
  \<open>for (const x of xs) { ... if (found) { result = ...; break; } }\<close>: the body is tried on
  each \<open>x\<close> in order and the loop stops at the first one that yields. The loop is run
  with a log: beside its result it returns the elements of \<open>xs\<close> its body was run on, in
  order. Where \<open>xs\<close> is a list of selectors, these are the selectors the loop has queried
  the page with.
\<close>

fun for_break :: "('a \<Rightarrow> 'b option) \<Rightarrow> 'a list \<Rightarrow> 'b option \<times> 'a list" where
  "for_break f [] = (None, [])"
| "for_break f (x # xs) =
     (case f x of
        Some y \<Rightarrow> (Some y, [x])
      | None \<Rightarrow> (case for_break f xs of (result, tried) \<Rightarrow> (result, x # tried)))"

text \<open>The same loop when the body can throw: the exception leaves the loop.\<close>

fun for_break_e ::
  "('a \<Rightarrow> js_error + 'b option) \<Rightarrow> 'a list \<Rightarrow> (js_error + 'b option) \<times> 'a list" where
  "for_break_e f [] = (Inr None, [])"
| "for_break_e f (x # xs) =
     (case f x of
        Inl e \<Rightarrow> (Inl e, [x])
      | Inr (Some y) \<Rightarrow> (Inr (Some y), [x])
      | Inr None \<Rightarrow> (case for_break_e f xs of (result, tried) \<Rightarrow> (result, x # tried)))"

text \<open>The result of the loop alone.\<close>

definition for_first :: "('a \<Rightarrow> 'b option) \<Rightarrow> 'a list \<Rightarrow> 'b option" where
  "for_first f xs = fst (for_break f xs)"

definition for_first_e :: "('a \<Rightarrow> js_error + 'b option) \<Rightarrow> 'a list \<Rightarrow> js_error + 'b option" where
  "for_first_e f xs = fst (for_break_e f xs)"

definition or_NA :: "string option \<Rightarrow> string" where
  "or_NA v = (case v of Some s \<Rightarrow> s | None \<Rightarrow> ''N/A'')"

section \<open>extractBusinessDetails\<close>

subsection \<open>name\<close>

definition nameSelectors :: "string list" where
  \<open>nameSelectors =
     [''h1.fontHeadlineLarge'',
      ''div[role="main"] div[role="heading"]'',
      ''h1.DUwDvf'',
      ''h1.x3AX1-LfntMc-header-title-title'',
      ''div.x3AX1-LfntMc-header-title-title'',
      ''div.qBF1Pd-haAclf'']\<close>

definition name_strategy :: "document \<Rightarrow> string \<Rightarrow> string option" where
  "name_strategy doc sel =
     (case querySelector doc sel of
        Some nameElement \<Rightarrow> Some (trim (textContent nameElement))
      | None \<Rightarrow> None)"

text \<open>The loop over the name selectors: what it assigns, and the selectors it has queried.\<close>

definition name_loop :: "document \<Rightarrow> string option \<times> string list" where
  "name_loop doc = for_break (name_strategy doc) nameSelectors"

text \<open>\<open>None\<close>: \<open>details.name\<close> is never assigned.\<close>

definition resolve_name :: "document \<Rightarrow> string option" where
  "resolve_name doc = fst (name_loop doc)"

subsection \<open>address\<close>

definition addressSelectors :: "string list" where
  \<open>addressSelectors =
     [''button[data-item-id="address"]'',
      ''button[jsaction*="address"]'',
      ''button[aria-label*="Address"]'',
      ''button.CsEnBe[aria-label]'',
      ''div[role="button"][aria-label*="Address"]'']\<close>

definition address_strategy :: "document \<Rightarrow> string \<Rightarrow> string option" where
  "address_strategy doc sel =
     (case querySelector doc sel of
        Some addressElement \<Rightarrow>
          (case el_querySelector addressElement ''.Io6YTe'' of
             Some addressDiv \<Rightarrow> Some (trim (textContent addressDiv))
           | None \<Rightarrow> Some (trim (textContent addressElement)))
      | None \<Rightarrow> None)"

definition address_loop :: "document \<Rightarrow> string option \<times> string list" where
  "address_loop doc = for_break (address_strategy doc) addressSelectors"

definition resolve_address :: "document \<Rightarrow> string" where
  "resolve_address doc = or_NA (fst (address_loop doc))"

subsection \<open>phone\<close>

definition phoneSelectors :: "string list" where
  \<open>phoneSelectors =
     [''button[data-item-id^="phone:tel:"]'',
      ''button[aria-label*="Phone"]'',
      ''div[role="button"][aria-label*="Phone"]'',
      ''a[data-item-id^="phone"]'',
      ''a[href^="tel:"]'']\<close>

text \<open>
  \<open>phoneElement.href && phoneElement.href.startsWith('tel:')\<close>: an undefined or empty
  \<open>href\<close> is falsy; an object is truthy and has no method \<open>startsWith\<close>, so the call throws.
\<close>

definition phone_strategy :: "document \<Rightarrow> string \<Rightarrow> js_error + string option" where
  "phone_strategy doc sel =
     (case querySelector doc sel of
        Some phoneElement \<Rightarrow>
          (case el_querySelector phoneElement ''.Io6YTe'' of
             Some phoneDiv \<Rightarrow> Inr (Some (trim (textContent phoneDiv)))
           | None \<Rightarrow>
               (case href phoneElement of
                  HrefObject \<Rightarrow> Inl TypeError
                | HrefString h \<Rightarrow>
                    if h \<noteq> [] \<and> startsWith h ''tel:''
                    then Inr (Some (replace_first h ''tel:'' []))
                    else Inr (Some (trim (textContent phoneElement)))
                | HrefUndefined \<Rightarrow> Inr (Some (trim (textContent phoneElement)))))
      | None \<Rightarrow> Inr None)"

definition phone_loop :: "document \<Rightarrow> (js_error + string option) \<times> string list" where
  "phone_loop doc = for_break_e (phone_strategy doc) phoneSelectors"

definition resolve_phone :: "document \<Rightarrow> js_error + string" where
  "resolve_phone doc = map_sum id or_NA (fst (phone_loop doc))"

subsection \<open>website\<close>

definition websiteSelectors :: "string list" where
  \<open>websiteSelectors =
     [''a[data-item-id="authority"]'',
      ''a[aria-label*="website"]'',
      ''a[aria-label*="Website"]'',
      ''a[href^="https://"][data-item-id]'',
      ''div[role="button"][aria-label*="website"]'']\<close>

definition website_strategy :: "document \<Rightarrow> string \<Rightarrow> js_error + string option" where
  "website_strategy doc sel =
     (case querySelector doc sel of
        Some websiteElement \<Rightarrow>
          (case el_querySelector websiteElement ''.Io6YTe'' of
             Some websiteDiv \<Rightarrow> Inr (Some (trim (textContent websiteDiv)))
           | None \<Rightarrow>
               (case href websiteElement of
                  HrefObject \<Rightarrow> Inl TypeError
                | HrefString h \<Rightarrow>
                    if h \<noteq> [] \<and> \<not> js_includes h ''google.com''
                    then Inr (Some h)
                    else Inr (Some (trim (textContent websiteElement)))
                | HrefUndefined \<Rightarrow> Inr (Some (trim (textContent websiteElement)))))
      | None \<Rightarrow> Inr None)"

definition website_loop :: "document \<Rightarrow> (js_error + string option) \<times> string list" where
  "website_loop doc = for_break_e (website_strategy doc) websiteSelectors"

definition resolve_website :: "document \<Rightarrow> js_error + string" where
  "resolve_website doc = map_sum id or_NA (fst (website_loop doc))"

subsection \<open>rating\<close>

definition ratingSelectors :: "string list" where
  \<open>ratingSelectors =
     [''span.ceJTW'',
      ''span.ODSEW-ShBeI-H1e3jb'',
      ''span[aria-hidden="true"][role="img"]'',
      ''div.F7nice'',
      ''span.iRCJncVPvXIc4GMcvvB9'']\<close>

text \<open>Method 1: the first rating container whose trimmed text matches \<open>/^\d(\.\d)?$/\<close>.\<close>

definition rating_strategy :: "document \<Rightarrow> string \<Rightarrow> string option" where
  "rating_strategy doc sel =
     (case querySelector doc sel of
        Some ratingElement \<Rightarrow>
          if textContent ratingElement \<noteq> [] then
            (let ratingText = trim (textContent ratingElement) in
             if js_match False rating_re ratingText \<noteq> None then Some ratingText else None)
          else None
      | None \<Rightarrow> None)"

text \<open>
  \<open>parseFloat(text)\<close>, times ten, on a text \<open>d\<close> or \<open>d.d\<close>; the source calls it only
  after \<open>/^\d(\.\d)?$/\<close> has matched, and on such a text the value is exact.
\<close>

definition digit_value :: "char \<Rightarrow> nat" where
  "digit_value c = length (takeWhile (\<lambda>d. d \<noteq> c) ''0123456789'')"

definition parseFloat_tenths :: "string \<Rightarrow> nat" where
  "parseFloat_tenths text =
     (case text of
        [d] \<Rightarrow> 10 * digit_value d
      | [d, p, f] \<Rightarrow> 10 * digit_value d + digit_value f
      | _ \<Rightarrow> 0)"

definition rating_loop :: "document \<Rightarrow> string option \<times> string list" where
  "rating_loop doc = for_break (rating_strategy doc) ratingSelectors"

text \<open>Method 2: the predicate of \<open>ratingSpans.find\<close>.\<close>

definition rating_span_ok :: "element \<Rightarrow> bool" where
  "rating_span_ok span =
     (let text = trim (textContent span) in
      length text \<le> 3 \<and> js_match False rating_re text \<noteq> None \<and> parseFloat_tenths text \<le> 50)"

text \<open>
  The two methods: the rating, and the selectors they have queried. Method 2 queries
  \<open>span\<close> only when method 1 has left the sentinel.
\<close>

definition rating_field :: "document \<Rightarrow> string \<times> string list" where
  "rating_field doc =
     (case rating_loop doc of
        (found, queried) \<Rightarrow>
          (let rating = or_NA found in
           if rating = ''N/A'' then
             (case find rating_span_ok (querySelectorAll doc ''span'') of
                Some ratingSpan \<Rightarrow> trim (textContent ratingSpan)
              | None \<Rightarrow> rating,
              queried @ [''span''])
           else (rating, queried)))"

definition resolve_rating :: "document \<Rightarrow> string" where
  "resolve_rating doc = fst (rating_field doc)"

subsection \<open>reviews\<close>

text \<open>\<open>match && match[1]\<close>: the capture of a match, when it is a non-empty string.\<close>

definition truthy_capture :: "(string \<times> string option) option \<Rightarrow> string option" where
  "truthy_capture m =
     (case m of
        Some (m0, Some m1) \<Rightarrow> if m1 \<noteq> [] then Some m1 else None
      | _ \<Rightarrow> None)"

definition reviews_container :: "element \<Rightarrow> string option" where
  "reviews_container container =
     truthy_capture (js_match True reviews_before_re (textContent container))"

text \<open>
  Method 1: the loop over the containers of the one selector; its log is the containers it
  has examined.
\<close>

definition reviews_loop :: "document \<Rightarrow> string option \<times> element list" where
  "reviews_loop doc =
     for_break reviews_container
       (querySelectorAll doc ''span.F7nice, div.F7nice, div.review-score'')"

definition resolve_reviews :: "document \<Rightarrow> js_error + string" where
  "resolve_reviews doc =
     (let reviews = or_NA (fst (reviews_loop doc)) in
      if reviews = ''N/A'' then
        (case body_innerText doc of
           None \<Rightarrow> Inl TypeError
         | Some pageText \<Rightarrow>
             Inr (case for_first truthy_capture
                    [js_match True reviews_before_re pageText,
                     js_match True reviews_after_re pageText] of
                    Some v \<Rightarrow> v
                  | None \<Rightarrow> reviews))
      else Inr reviews)"

subsection \<open>hours\<close>

definition hoursTableSelectors :: "string list" where
  \<open>hoursTableSelectors =
     [''table.eK4R0e'',
      ''table.WgFkxc'',
      ''div[role="region"][aria-label*="hour"]'']\<close>

definition hoursSelectors :: "string list" where
  \<open>hoursSelectors = [''.OMl5r'', ''.VaxuYe'', ''.G8aQO'', ''[aria-label*="hour"]'']\<close>

text \<open>One row of the table: \<open>day: hours\<close> when both cells exist and are non-empty.\<close>

definition hours_row :: "element \<Rightarrow> string option" where
  "hours_row row =
     (case (el_querySelector row ''.ylH6lf, .x4hIce'', el_querySelector row ''.mxowUb, .G8aQO'') of
        (Some dayCell, Some hoursCell) \<Rightarrow>
          (let day = trim (textContent dayCell); hours = trim (textContent hoursCell) in
           if day \<noteq> [] \<and> hours \<noteq> [] then Some (day @ '': '' @ hours) else None)
      | _ \<Rightarrow> None)"

text \<open>
  Method 1, with the loop's variables \<open>hoursData\<close> and \<open>foundHours\<close> threaded through it;
  the result is \<open>details.hours\<close> when the loop assigns it, and the selectors the loop has
  queried.
\<close>

fun hours_tables ::
  "document \<Rightarrow> string list \<Rightarrow> string list \<Rightarrow> bool \<Rightarrow> string option \<times> string list" where
  "hours_tables doc [] hoursData foundHours = (None, [])"
| "hours_tables doc (sel # sels) hoursData foundHours =
     (case querySelector doc sel of
        Some hoursTable \<Rightarrow>
          (let pushed = List.map_filter hours_row (el_querySelectorAll hoursTable ''tr.y0skZc, tr'');
               hoursData' = hoursData @ pushed;
               foundHours' = (foundHours \<or> pushed \<noteq> [])
           in if foundHours' then (Some (join ''; '' hoursData'), [sel])
              else (case hours_tables doc sels hoursData' foundHours' of
                      (result, queried) \<Rightarrow> (result, sel # queried)))
      | None \<Rightarrow>
          (case hours_tables doc sels hoursData foundHours of
             (result, queried) \<Rightarrow> (result, sel # queried)))"

definition hours_section :: "document \<Rightarrow> string \<Rightarrow> string option" where
  "hours_section doc sel =
     (case querySelector doc sel of
        Some hoursSection \<Rightarrow> Some (trim (textContent hoursSection))
      | None \<Rightarrow> None)"

text \<open>Method 2, the loop over the section selectors.\<close>

definition hours_section_loop :: "document \<Rightarrow> string option \<times> string list" where
  "hours_section_loop doc = for_break (hours_section doc) hoursSelectors"

text \<open>
  The two methods and the final default: the hours, and the selectors that have been
  queried. Method 2 runs only when method 1 has found no row.
\<close>

definition hours_field :: "document \<Rightarrow> string \<times> string list" where
  "hours_field doc =
     (case hours_tables doc hoursTableSelectors [] False of
        (Some hours, queried) \<Rightarrow> (hours, queried)
      | (None, queried) \<Rightarrow>
          (case hours_section_loop doc of
             (found, queried') \<Rightarrow> (or_NA found, queried @ queried')))"

definition resolve_hours :: "document \<Rightarrow> string" where
  "resolve_hours doc = fst (hours_field doc)"

subsection \<open>email\<close>

definition resolve_email :: "string \<Rightarrow> string" where
  "resolve_email pageText =
     (case js_match False email_re pageText of Some (m0, m1) \<Rightarrow> m0 | None \<Rightarrow> ''N/A'')"

subsection \<open>category\<close>

definition categorySelectors :: "string list" where
  \<open>categorySelectors =
     [''a.CsEnBe'',
      ''button[jsaction*="pane.rating.category"]'',
      ''button.DkEaL'',
      ''span[jsaction*="category"]'',
      ''button[aria-label*="categor"]'']\<close>

definition category_ok :: "string \<Rightarrow> string \<Rightarrow> bool" where
  "category_ok website text =
     (text \<noteq> [] \<and> length text < 30 \<and> \<not> js_includes text ''http'' \<and> \<not> js_includes text ''@'' \<and>
      js_match False leading_digit_re text = None \<and>
      text \<noteq> ''Menu'' \<and> text \<noteq> website \<and> \<not> js_includes text ''Phone:'')"

text \<open>\<open>elements.forEach\<close>: every element that passes overwrites \<open>category\<close>.\<close>

definition category_forEach :: "string \<Rightarrow> element list \<Rightarrow> string \<Rightarrow> string" where
  "category_forEach website elements category =
     foldl (\<lambda>cat element.
              let text = trim (textContent element) in
              if category_ok website text then text else cat)
       category elements"

text \<open>
  The loop over the category selectors, which breaks once \<open>category\<close> is no longer the
  sentinel: the category it leaves, and the selectors it has queried.
\<close>

fun category_links ::
  "document \<Rightarrow> string \<Rightarrow> string list \<Rightarrow> string \<Rightarrow> string \<times> string list" where
  "category_links doc website [] category = (category, [])"
| "category_links doc website (sel # sels) category =
     (let category' = category_forEach website (querySelectorAll doc sel) category in
      if category' \<noteq> ''N/A'' then (category', [sel])
      else (case category_links doc website sels category' of
              (result, queried) \<Rightarrow> (result, sel # queried)))"

definition resolve_category :: "document \<Rightarrow> string \<Rightarrow> string \<Rightarrow> string" where
  "resolve_category doc website pageText =
     (let category = fst (category_links doc website categorySelectors ''N/A'') in
      if category = ''N/A'' then
        (case for_first truthy_capture
                [js_match True (labelled_re ''Category:'') pageText,
                 js_match True (labelled_re ''Type:'') pageText] of
           Some v \<Rightarrow> trim v
         | None \<Rightarrow> category)
      else category)"

subsection \<open>attributes\<close>

definition attributeSelectors :: "string list" where
  \<open>attributeSelectors =
     [''.RcCsl .AeaXub .Io6YTe span'',
      ''.ggc0ld .Io6YTe'',
      ''.q5X0Ue'',
      ''div.PODJx'']\<close>

text \<open>
  \<open>text !== details.name\<close> holds for every text while \<open>details.name\<close> is undefined.
\<close>

definition attribute_ok ::
  "string option \<Rightarrow> string \<Rightarrow> string \<Rightarrow> string \<Rightarrow> string \<Rightarrow> string \<Rightarrow> bool" where
  "attribute_ok name address phone website category text =
     (text \<noteq> [] \<and> Some text \<noteq> name \<and> text \<noteq> address \<and> text \<noteq> phone \<and> text \<noteq> website \<and>
      text \<noteq> category \<and> length text < 50)"

text \<open>
  The loop over the attribute selectors has no \<open>break\<close>: every selector is queried and the
  texts that pass are pushed into the one array \<open>attributes\<close>. The result is the array and
  the selectors the loop has queried.
\<close>

fun attributes_loop ::
  "document \<Rightarrow> (string \<Rightarrow> bool) \<Rightarrow> string list \<Rightarrow> string list \<Rightarrow> string list \<times> string list" where
  "attributes_loop doc ok [] attributes = (attributes, [])"
| "attributes_loop doc ok (sel # sels) attributes =
     (case attributes_loop doc ok sels
             (attributes @
              filter ok (map (\<lambda>attr. trim (textContent attr)) (querySelectorAll doc sel))) of
        (result, queried) \<Rightarrow> (result, sel # queried))"

definition collect_attributes ::
  "document \<Rightarrow> string option \<Rightarrow> string \<Rightarrow> string \<Rightarrow> string \<Rightarrow> string \<Rightarrow> string list" where
  "collect_attributes doc name address phone website category =
     fst (attributes_loop doc (attribute_ok name address phone website category)
            attributeSelectors [])"

subsection \<open>priceRange\<close>

definition priceSelectors :: "string list" where
  \<open>priceSelectors = [''.MNVeJb'', ''span.mgr77e'', ''span[aria-label*="Price"]'']\<close>

definition price_strategy :: "document \<Rightarrow> string \<Rightarrow> string option" where
  "price_strategy doc sel =
     (case querySelector doc sel of
        Some priceElement \<Rightarrow>
          Some (trim (split_head (trim (textContent priceElement)) ''Reported by''))
      | None \<Rightarrow> None)"

definition price_loop :: "document \<Rightarrow> string option \<times> string list" where
  "price_loop doc = for_break (price_strategy doc) priceSelectors"

text \<open>\<open>None\<close>: \<open>details.priceRange\<close> is never assigned.\<close>

definition resolve_priceRange :: "document \<Rightarrow> string option" where
  "resolve_priceRange doc = fst (price_loop doc)"

subsection \<open>The record\<close>

text \<open>
  \<open>details\<close> is a JavaScript object: its keys in insertion order, each with its string.
  A key that was never assigned is absent from the list.
\<close>

type_synonym details = "(string \<times> string) list"

definition assign :: "string \<Rightarrow> string \<Rightarrow> details \<Rightarrow> details" where
  "assign key v d = AList.update key v d"

definition assign_if :: "string \<Rightarrow> string option \<Rightarrow> details \<Rightarrow> details" where
  "assign_if key v d = (case v of Some s \<Rightarrow> assign key s d | None \<Rightarrow> d)"

text \<open>The assignments to \<open>details\<close>, in the order of the source; each value is a string.\<close>

type_synonym field_value = string

definition build_details ::
  "field_value option \<Rightarrow> field_value \<Rightarrow> field_value \<Rightarrow> field_value \<Rightarrow> field_value \<Rightarrow>
   field_value \<Rightarrow> field_value \<Rightarrow> field_value \<Rightarrow> field_value \<Rightarrow> field_value list \<Rightarrow>
   field_value option \<Rightarrow> details" where
  "build_details name address phone website rating reviews hours email category attributes
     priceRange =
     assign_if ''priceRange'' priceRange
      (assign_if ''attributes'' (if attributes \<noteq> [] then Some (join '', '' attributes) else None)
        (assign ''category'' category
          (assign ''email'' email
            (assign ''hours'' hours
              (assign ''reviews'' reviews
                (assign ''rating'' rating
                  (assign ''website'' website
                    (assign ''phone'' phone
                      (assign ''address'' address
                        (assign_if ''name'' name []))))))))))"

text \<open>
  The function evaluated in the page. Nothing in it catches: an exception of one field's
  code ends the whole evaluation.
\<close>

definition extractBusinessDetails :: "document \<Rightarrow> js_error + details" where
  "extractBusinessDetails doc =
     (let name = resolve_name doc;
          address = resolve_address doc
      in case resolve_phone doc of
           Inl e \<Rightarrow> Inl e
         | Inr phone \<Rightarrow>
      (case resolve_website doc of
           Inl e \<Rightarrow> Inl e
         | Inr website \<Rightarrow>
      (let rating = resolve_rating doc
       in case resolve_reviews doc of
           Inl e \<Rightarrow> Inl e
         | Inr reviews \<Rightarrow>
      (let hours = resolve_hours doc
       in case body_innerText doc of
           None \<Rightarrow> Inl TypeError
         | Some pageText \<Rightarrow>
      (let email = resolve_email pageText;
           category = resolve_category doc website pageText;
           attributes = collect_attributes doc name address phone website category;
           priceRange = resolve_priceRange doc
       in Inr (build_details name address phone website rating reviews hours email category
                 attributes priceRange))))))"

section \<open>collectListingUrls\<close>

record listing =
  name :: string
  url :: string

definition listingLinkSelectors :: "string list" where
  \<open>listingLinkSelectors =
     [''a.hfpxzc'',
      ''.Nv2PK a[href*="/maps/place/"]'',
      ''div[role="article"] a[data-value]'',
      ''a[jsaction*="mouseup"]'',
      ''a[aria-label][href*="/maps/place/"]'']\<close>

text \<open>The first selector that matches anything gives the links; the others are not merged in.\<close>

definition listing_links :: "document \<Rightarrow> element list" where
  "listing_links doc =
     (case for_first (\<lambda>selector. let elements = querySelectorAll doc selector in
                         if elements \<noteq> [] then Some elements else None)
             listingLinkSelectors of
        Some elements \<Rightarrow> elements
      | None \<Rightarrow> [])"

text \<open>
  The name of a link: its label, else the nearby heading, else the first line of its text.
  \<open>link.closest('div')\<close> is dereferenced unguarded: \<open>null\<close> there is a \<open>TypeError\<close>.
\<close>

definition nearby_name :: "element \<Rightarrow> js_error + string" where
  \<open>nearby_name link =
     (case closestDiv link of
        None \<Rightarrow> Inl TypeError
      | Some dv \<Rightarrow>
          (case el_querySelector dv ''div[role="heading"], h3, h2, h1'' of
             Some nearbyHeading \<Rightarrow> Inr (trim (textContent nearbyHeading))
           | None \<Rightarrow>
               Inr (trim (split_head
                 (trim (if textContent link \<noteq> [] then textContent link else textContent dv))
                 [CHR 0x0A]))))\<close>

definition link_name :: "element \<Rightarrow> js_error + string" where
  "link_name link =
     (case ariaLabel link of
        Some label \<Rightarrow> if label \<noteq> [] then Inr label else nearby_name link
      | None \<Rightarrow> nearby_name link)"

text \<open>
  \<open>if (url && name && url.includes('/maps/place/')) results.push({ name, url })\<close>: an
  \<open>href\<close> that is an object is truthy and has no method \<open>includes\<close>.
\<close>

definition harvest_link :: "element \<Rightarrow> js_error + listing option" where
  "harvest_link link =
     (case link_name link of
        Inl e \<Rightarrow> Inl e
      | Inr nm \<Rightarrow>
          (case href link of
             HrefUndefined \<Rightarrow> Inr None
           | HrefString u \<Rightarrow>
               if u \<noteq> [] \<and> nm \<noteq> [] \<and> js_includes u ''/maps/place/''
               then Inr (Some \<lparr>name = nm, url = u\<rparr>) else Inr None
           | HrefObject \<Rightarrow> if nm \<noteq> [] then Inl TypeError else Inr None))"

fun harvest_links :: "element list \<Rightarrow> listing list \<Rightarrow> js_error + listing list" where
  "harvest_links [] results = Inr results"
| "harvest_links (link # links) results =
     (case harvest_link link of
        Inl e \<Rightarrow> Inl e
      | Inr None \<Rightarrow> harvest_links links results
      | Inr (Some item) \<Rightarrow> harvest_links links (results @ [item]))"

text \<open>The function the loop evaluates in the page at each iteration.\<close>

definition harvest :: "document \<Rightarrow> js_error + listing list" where
  "harvest doc = harvest_links (listing_links doc) []"

record loop_state =
  listingUrls :: "listing list"
  previousUrlCount :: nat
  scrollAttempts :: nat
  consecutiveNoNewUrls :: nat

definition maxScrollAttempts :: nat where
  "maxScrollAttempts = 30"

definition maxConsecutiveNoNewUrls :: nat where
  "maxConsecutiveNoNewUrls = 5"

definition initial_state :: loop_state where
  "initial_state =
     \<lparr>listingUrls = [], previousUrlCount = 0, scrollAttempts = 0, consecutiveNoNewUrls = 0\<rparr>"

text \<open>
  The inner loop: an item whose url is not yet collected is pushed, and the loop breaks as
  soon as \<open>limit\<close> is reached. The result is the list and \<open>addedNewUrls\<close>.
\<close>

fun add_unique :: "int \<Rightarrow> listing list \<Rightarrow> listing list \<Rightarrow> bool \<Rightarrow> listing list \<times> bool" where
  "add_unique limit [] collected added = (collected, added)"
| "add_unique limit (item # items) collected added =
     (if \<not> list_ex (\<lambda>existing. url existing = url item) collected then
        (let collected' = collected @ [item] in
         if limit \<le> int (length collected') then (collected', True)
         else add_unique limit items collected' True)
      else add_unique limit items collected added)"

definition loop_cond :: "int \<Rightarrow> loop_state \<Rightarrow> bool" where
  "loop_cond limit st =
     (int (length (listingUrls st)) < limit \<and> scrollAttempts st < maxScrollAttempts \<and>
      consecutiveNoNewUrls st < maxConsecutiveNoNewUrls)"

definition loop_body :: "int \<Rightarrow> listing list \<Rightarrow> loop_state \<Rightarrow> loop_state" where
  "loop_body limit newUrls st =
     (case add_unique limit newUrls (listingUrls st) False of
        (collected, addedNewUrls) \<Rightarrow>
          \<lparr>listingUrls = collected,
           previousUrlCount = length (listingUrls st),
           scrollAttempts =
             (if int (length collected) < limit then scrollAttempts st + 1 else scrollAttempts st),
           consecutiveNoNewUrls = (if addedNewUrls then 0 else consecutiveNoNewUrls st + 1)\<rparr>)"

text \<open>
  The \<open>while\<close> loop. \<open>feed k\<close> is the page as the harvest finds it after \<open>k\<close> scrolls; the
  loop scrolls once per iteration that leaves it short of \<open>limit\<close>, so the harvest of an
  iteration reads \<open>feed (scrollAttempts st)\<close>.
\<close>

function collect_loop :: "(nat \<Rightarrow> document) \<Rightarrow> int \<Rightarrow> loop_state \<Rightarrow> js_error + loop_state" where
  "collect_loop feed limit st =
     (if loop_cond limit st then
        (case harvest (feed (scrollAttempts st)) of
           Inl e \<Rightarrow> Inl e
         | Inr newUrls \<Rightarrow> collect_loop feed limit (loop_body limit newUrls st))
      else Inr st)"
  by pat_completeness auto
termination
proof (relation "measure (\<lambda>(feed, limit, st).
         if loop_cond limit st then Suc (maxScrollAttempts - scrollAttempts st) else 0)")
  show "wf (measure (\<lambda>(feed, limit, st).
         if loop_cond limit st then Suc (maxScrollAttempts - scrollAttempts st) else 0))"
    by simp
next
  fix feed :: "nat \<Rightarrow> document" and limit :: int and st :: loop_state and newUrls :: "listing list"
  assume c: "loop_cond limit st"
  obtain collected added where a: "add_unique limit newUrls (listingUrls st) False = (collected, added)"
    by (cases "add_unique limit newUrls (listingUrls st) False")
  show "((feed, limit, loop_body limit newUrls st), (feed, limit, st))
        \<in> measure (\<lambda>(feed, limit, st).
            if loop_cond limit st then Suc (maxScrollAttempts - scrollAttempts st) else 0)"
    using c by (auto simp: loop_body_def loop_cond_def a)
qed

declare collect_loop.simps [simp del]

text \<open>
  The same loop with a budget of iterations: \<open>None\<close> when the loop has not exited after
  \<open>n\<close> runs of its body.
\<close>

fun bounded_loop ::
  "nat \<Rightarrow> (nat \<Rightarrow> document) \<Rightarrow> int \<Rightarrow> loop_state \<Rightarrow> (js_error + loop_state) option" where
  "bounded_loop 0 fd limit st = (if loop_cond limit st then None else Some (Inr st))"
| "bounded_loop (Suc n) fd limit st =
     (if loop_cond limit st then
        (case harvest (fd (scrollAttempts st)) of
           Inl e \<Rightarrow> Some (Inl e)
         | Inr newUrls \<Rightarrow> bounded_loop n fd limit (loop_body limit newUrls st))
      else Some (Inr st))"

text \<open>\<open>xs.slice(0, end)\<close>: a negative \<open>end\<close> counts from the end of the array.\<close>

definition slice0 :: "'a list \<Rightarrow> int \<Rightarrow> 'a list" where
  "slice0 xs e = (if e < 0 then take (nat (int (length xs) + e)) xs else take (nat e) xs)"

definition collectListingUrls :: "(nat \<Rightarrow> document) \<Rightarrow> int \<Rightarrow> js_error + listing list" where
  "collectListingUrls feed limit =
     (case collect_loop feed limit initial_state of
        Inl e \<Rightarrow> Inl e
      | Inr st \<Rightarrow> Inr (slice0 (listingUrls st) limit))"

section \<open>scrapeGoogleMaps\<close>

text \<open>
  The calls the orchestrator makes on the browser for one listing, in the order of the
  source. Each can throw; \<open>fault\<close> names the call that does, if any, for a visit, and
  \<open>page_dom\<close> is the page the extraction then reads.
\<close>

datatype step =
    NewPage | SetUserAgent | SetExtraHTTPHeaders | SetRequestInterception
  | Goto | WaitForTimeout | Evaluate | ClosePage | RandomDelay

record visit =
  fault :: "step option"
  page_dom :: document

text \<open>
  What a scrape has built and holds: the records pushed so far, the detail pages opened and
  not closed (by the index of their listing), and whether the browser is running.
\<close>

record session =
  detailedData :: "details list"
  open_pages :: "nat list"
  browser_running :: bool

text \<open>\<open>{ name, ...detailedInfo }\<close>: the listing's name, overwritten by an extracted one.\<close>

definition merge_info :: "string \<Rightarrow> details \<Rightarrow> details" where
  "merge_info nm detailedInfo = foldl (\<lambda>d (k, v). assign k v d) [(''name'', nm)] detailedInfo"

text \<open>
  The body of the \<open>for\<close> loop with its \<open>try\<close>/\<open>catch\<close>: the first call that throws ends
  the iteration, the \<open>catch\<close> logs and continues, and what was done before stays done.
  \<open>detailPage.close()\<close> stands after the push, inside the \<open>try\<close>.
\<close>

definition process_listing :: "nat \<Rightarrow> listing \<Rightarrow> visit \<Rightarrow> session \<Rightarrow> session" where
  "process_listing i l v ss =
     (if fault v = Some NewPage then ss
      else
        let ss1 = ss\<lparr>open_pages := open_pages ss @ [i]\<rparr> in
        if fault v \<in> Some ` {SetUserAgent, SetExtraHTTPHeaders, SetRequestInterception, Goto,
                              WaitForTimeout, Evaluate}
        then ss1
        else
          (case extractBusinessDetails (page_dom v) of
             Inl e \<Rightarrow> ss1
           | Inr detailedInfo \<Rightarrow>
               let ss2 = ss1\<lparr>detailedData := detailedData ss1 @ [merge_info (name l) detailedInfo]\<rparr>
               in if fault v = Some ClosePage then ss2
                  else ss2\<lparr>open_pages := remove1 i (open_pages ss2)\<rparr>))"

text \<open>\<open>for (let i = 0; i < listingUrls.length; i++)\<close>, from index \<open>i\<close> on.\<close>

fun process_from :: "nat \<Rightarrow> listing list \<Rightarrow> (nat \<Rightarrow> visit) \<Rightarrow> session \<Rightarrow> session" where
  "process_from i [] visits ss = ss"
| "process_from i (l # ls) visits ss =
     process_from (Suc i) ls visits (process_listing i l (visits i) ss)"

text \<open>
  The browser a scrape meets: whether the launch succeeds, whether the search page is set
  up and searched without a throw, the result feed, and the visit of each listing.
\<close>

record world =
  launch_ok :: bool
  search_ok :: bool
  feed :: "nat \<Rightarrow> document"
  visits :: "nat \<Rightarrow> visit"

definition no_session :: session where
  "no_session = \<lparr>detailedData = [], open_pages = [], browser_running = False\<rparr>"

text \<open>\<open>browser.close()\<close> ends the browser and every page it holds.\<close>

definition browser_close :: "session \<Rightarrow> session" where
  "browser_close ss = ss\<lparr>open_pages := [], browser_running := False\<rparr>"

text \<open>
  The result (the records, or the exception rethrown) and the session as the \<open>finally\<close>
  block leaves it.
\<close>

definition scrapeGoogleMaps :: "world \<Rightarrow> int \<Rightarrow> (js_error + details list) \<times> session" where
  "scrapeGoogleMaps w limit =
     (if \<not> launch_ok w then (Inl DriverError, no_session)
      else
        let ss = no_session\<lparr>browser_running := True\<rparr> in
        if \<not> search_ok w then (Inl DriverError, browser_close ss)
        else
          (case collectListingUrls (feed w) limit of
             Inl e \<Rightarrow> (Inl e, browser_close ss)
           | Inr listings \<Rightarrow>
               let ss' = process_from 0 listings (visits w) ss
               in (Inr (detailedData ss'), browser_close ss')))"

section \<open>The per-listing loop of correctcode.js\<close>

text \<open>
  The older server keeps one page for the whole scrape. For each listing it goes back to the
  search results (from the second listing on) and scrolls, clicks the listing by one of
  three strategies, waits for the panel, and extracts from that same page.

  A click strategy tries to click and reports it; every strategy stands in a
  \<open>try\<close>/\<open>catch\<close> of its own that only logs. An attempt clicks the listing, finds
  nothing to click, or throws.
\<close>

datatype click_outcome = Clicked | NotFound | ClickThrew

text \<open>
  Strategy 1, \<open>page.$(selector)\<close> and \<open>click()\<close> for each of five selectors built from
  the listing's name: the \<open>try\<close> is inside the loop, so a throw only moves on to the next
  selector.
\<close>

fun click_by_selector :: "click_outcome list \<Rightarrow> bool" where
  "click_by_selector [] = False"
| "click_by_selector (outcome # outcomes) =
     (case outcome of
        Clicked \<Rightarrow> True
      | NotFound \<Rightarrow> click_by_selector outcomes
      | ClickThrew \<Rightarrow> click_by_selector outcomes)"

text \<open>
  Strategy 2, the item at the loop index for each of five item selectors: the \<open>try\<close> is
  around the loop, so a throw ends the strategy with \<open>clickSuccess\<close> still false.
\<close>

fun click_by_index :: "click_outcome list \<Rightarrow> bool" where
  "click_by_index [] = False"
| "click_by_index (outcome # outcomes) =
     (case outcome of
        Clicked \<Rightarrow> True
      | NotFound \<Rightarrow> click_by_index outcomes
      | ClickThrew \<Rightarrow> False)"

text \<open>Strategy 3, one evaluation that clicks an element containing the name.\<close>

definition click_by_text :: "click_outcome \<Rightarrow> bool" where
  "click_by_text outcome = (outcome = Clicked)"

text \<open>
  The calls outside the click strategies, in the order of the source; \<open>page_fault\<close> names
  the one that throws, if any, when it is made. The first three are made only from the
  second listing on, the scrolling only when \<open>Math.floor(i / 3)\<close> is positive.
\<close>

datatype page_step =
    GotoSearch | WaitForResults | ScrollToListing | WaitForPanel | EvaluatePanel | PacingDelay

record page_visit =
  page_fault :: "page_step option"
  by_selector :: "click_outcome list"
  by_index :: "click_outcome list"
  by_text :: click_outcome
  panel_dom :: document

definition click_strategies :: "page_visit \<Rightarrow> bool" where
  "click_strategies v =
     (let clickSuccess = click_by_selector (by_selector v);
          clickSuccess = (if \<not> clickSuccess then click_by_index (by_index v) else clickSuccess);
          clickSuccess = (if \<not> clickSuccess then click_by_text (by_text v) else clickSuccess)
      in clickSuccess)"

text \<open>A listing as \<open>collectListings\<close> returns it: \<open>{ name, index }\<close>.\<close>

record basic_listing =
  listing_name :: string
  listing_index :: nat

text \<open>
  The record pushed, \<open>{ ...listing, ...detailedInfo }\<close>: the number at the key \<open>index\<close>,
  beside the keys that hold strings, which are merged as above.

  The body of the loop: a throw of a call that is made ends the iteration in the \<open>catch\<close>,
  which continues; when no strategy has clicked, the iteration ends with \<open>continue\<close>; the
  pacing delay stands after the push.
\<close>

definition process_listing_correctcode ::
  "nat \<Rightarrow> basic_listing \<Rightarrow> page_visit \<Rightarrow> (nat \<times> details) list \<Rightarrow> (nat \<times> details) list" where
  "process_listing_correctcode i listing v data =
     (if 0 < i \<and> page_fault v \<in> Some ` {GotoSearch, WaitForResults} then data
      else if 0 < i div 3 \<and> page_fault v = Some ScrollToListing then data
      else if \<not> click_strategies v then data
      else if page_fault v \<in> Some ` {WaitForPanel, EvaluatePanel} then data
      else
        (case extractBusinessDetails (panel_dom v) of
           Inl e \<Rightarrow> data
         | Inr detailedInfo \<Rightarrow>
             data @
               [(listing_index listing, merge_info (listing_name listing) detailedInfo)]))"

text \<open>\<open>for (let i = 0; i < businessListings.length; i++)\<close>, from index \<open>i\<close> on.\<close>

fun process_from_correctcode ::
  "nat \<Rightarrow> basic_listing list \<Rightarrow> (nat \<Rightarrow> page_visit) \<Rightarrow> (nat \<times> details) list \<Rightarrow>
   (nat \<times> details) list" where
  "process_from_correctcode i [] page_visits data = data"
| "process_from_correctcode i (l # ls) page_visits data =
     process_from_correctcode (Suc i) ls page_visits
       (process_listing_correctcode i l (page_visits i) data)"

text \<open>\<open>const detailedData = []\<close>, the loop, \<open>return detailedData\<close>.\<close>

definition detailedData_correctcode ::
  "basic_listing list \<Rightarrow> (nat \<Rightarrow> page_visit) \<Rightarrow> (nat \<times> details) list" where
  "detailedData_correctcode businessListings page_visits =
     process_from_correctcode 0 businessListings page_visits []"

section \<open>POST /api/scrape\<close>

record request =
  req_query :: "string option"
  req_location :: "string option"
  req_limit :: "int option"

datatype response =
    BadRequest
  | Success "details list"
  | ServerError js_error

text \<open>\<open>!query\<close>: the field is missing or the empty string.\<close>

definition falsy :: "string option \<Rightarrow> bool" where
  "falsy v = (case v of None \<Rightarrow> True | Some s \<Rightarrow> s = [])"

definition api_scrape :: "world \<Rightarrow> request \<Rightarrow> response" where
  "api_scrape w req =
     (let limit = (case req_limit req of None \<Rightarrow> 20 | Some n \<Rightarrow> n) in
      if falsy (req_query req) \<or> falsy (req_location req) then BadRequest
      else
        (case fst (scrapeGoogleMaps w limit) of
           Inl e \<Rightarrow> ServerError e
         | Inr results \<Rightarrow> Success results))"

section \<open>Export\<close>

text \<open>
  Both encoders are given a list of keys and write one column per key, in that order: a
  header row, then one row per record with the record's value at each key (an empty cell
  where the record has no such key). The table of cells is modelled; quoting and the file
  format are the libraries'.
\<close>

definition cell :: "details \<Rightarrow> string \<Rightarrow> string" where
  "cell r key = (case map_of r key of Some v \<Rightarrow> v | None \<Rightarrow> [])"

definition table :: "string list \<Rightarrow> string list \<Rightarrow> details list \<Rightarrow> string list list" where
  "table headers keys data = headers # map (\<lambda>r. map (cell r) keys) data"

text \<open>\<open>exportToCSV\<close> of the serverless server: \<open>new Parser({ fields }).parse(data)\<close>.\<close>

definition csv_fields :: "string list" where
  "csv_fields = [''name'', ''address'', ''phone'', ''website'', ''email'', ''rating'', ''reviews'',
                 ''hours'', ''category'', ''priceRange'', ''attributes'']"

definition exportToCSV :: "details list \<Rightarrow> string list list" where
  "exportToCSV data = table csv_fields csv_fields data"

text \<open>\<open>exportToCSV\<close> of \<open>correctcode.js\<close>.\<close>

definition csv_fields_correctcode :: "string list" where
  "csv_fields_correctcode = [''name'', ''address'', ''phone'', ''website'', ''email'', ''rating'',
                             ''reviews'', ''hours'', ''category'']"

definition exportToCSV_correctcode :: "details list \<Rightarrow> string list list" where
  "exportToCSV_correctcode data = table csv_fields_correctcode csv_fields_correctcode data"

text \<open>\<open>exportToExcel\<close>, the same in both files: the columns as (header, key, width).\<close>

definition columns :: "(string \<times> string \<times> nat) list" where
  "columns =
     [(''Name'', ''name'', 30),
      (''Address'', ''address'', 40),
      (''Phone'', ''phone'', 20),
      (''Website'', ''website'', 30),
      (''Email'', ''email'', 30),
      (''Rating'', ''rating'', 10),
      (''Reviews'', ''reviews'', 10),
      (''Hours'', ''hours'', 40),
      (''Category'', ''category'', 20),
      (''Price Range'', ''priceRange'', 15),
      (''Attributes'', ''attributes'', 30)]"

definition exportToExcel :: "details list \<Rightarrow> string list list" where
  "exportToExcel data = table (map fst columns) (map (\<lambda>c. fst (snd c)) columns) data"

section \<open>Notions of the specification\<close>

text \<open>
  Definitions that follow the words of the claims, to state them against the model above.

  A listing reaches the push when none of the calls up to and including the extraction
  throws; its record is then the listing's name merged with the extracted details. A
  listing that does not reach it contributes no record. The calls that follow the push
  (\<open>detailPage.close()\<close> and the pacing delay) do not enter: a throw of one of them
  leaves the record where it is.
\<close>

definition pre_push_steps :: "step set" where
  "pre_push_steps = {NewPage, SetUserAgent, SetExtraHTTPHeaders, SetRequestInterception, Goto,
                     WaitForTimeout, Evaluate}"

definition listing_record :: "listing \<Rightarrow> visit \<Rightarrow> details option" where
  "listing_record l v =
     (if fault v \<in> Some ` pre_push_steps then None
      else (case extractBusinessDetails (page_dom v) of
              Inl e \<Rightarrow> None
            | Inr detailedInfo \<Rightarrow> Some (merge_info (name l) detailedInfo)))"

text \<open>
  The same for the loop of \<open>correctcode.js\<close>: the calls made before the push return, a
  click strategy has clicked, and the extraction returns.
\<close>

definition listing_record_correctcode ::
  "nat \<Rightarrow> basic_listing \<Rightarrow> page_visit \<Rightarrow> (nat \<times> details) option" where
  "listing_record_correctcode i l v =
     (if (0 < i \<and> page_fault v \<in> Some ` {GotoSearch, WaitForResults}) \<or>
         (0 < i div 3 \<and> page_fault v = Some ScrollToListing) \<or>
         \<not> click_strategies v \<or>
         page_fault v \<in> Some ` {WaitForPanel, EvaluatePanel}
      then None
      else (case extractBusinessDetails (panel_dom v) of
              Inl e \<Rightarrow> None
            | Inr detailedInfo \<Rightarrow>
                Some (listing_index l, merge_info (listing_name l) detailedInfo)))"

text \<open>The strings \<open>/^\d(\.\d)?$/\<close> accepts: a digit, or a digit, a point and a digit.\<close>

definition rating_shape :: "string \<Rightarrow> bool" where
  "rating_shape t =
     (case t of
        [a] \<Rightarrow> is_digit a
      | [a, p, b] \<Rightarrow> is_digit a \<and> p = CHR ''.'' \<and> is_digit b
      | _ \<Rightarrow> False)"

text \<open>
  The page shows the name \<open>n\<close>: a name selector matches, and every element the name
  selectors match reads \<open>n\<close>, which is not empty.
\<close>

definition shows_name :: "document \<Rightarrow> string \<Rightarrow> bool" where
  "shows_name doc n =
     (n \<noteq> [] \<and>
      (\<exists>sel \<in> set nameSelectors. querySelectorAll doc sel \<noteq> []) \<and>
      (\<forall>sel \<in> set nameSelectors. \<forall>el \<in> set (querySelectorAll doc sel).
         trim (textContent el) = n))"

text \<open>
  The page shows the rating \<open>r\<close>, a number from 0 to 5 with at most one decimal: the
  element that leads one of the five rating containers, or some \<open>span\<close>, reads \<open>r\<close>, and
  no element of a rating container and no \<open>span\<close> reads another text of that shape.
\<close>

definition shows_rating :: "document \<Rightarrow> string \<Rightarrow> bool" where
  "shows_rating doc r =
     (rating_shape r \<and> parseFloat_tenths r \<le> 50 \<and>
      ((\<exists>sel \<in> set ratingSelectors.
          case querySelector doc sel of
            Some el \<Rightarrow> trim (textContent el) = r
          | None \<Rightarrow> False) \<or>
       (\<exists>el \<in> set (querySelectorAll doc ''span''). trim (textContent el) = r)) \<and>
      (\<forall>sel \<in> set (ratingSelectors @ [''span'']). \<forall>el \<in> set (querySelectorAll doc sel).
         rating_shape (trim (textContent el)) \<longrightarrow> trim (textContent el) = r))"

text \<open>
  The page shows nothing for the other fields: no selector of address, phone, website,
  hours, category, attributes or priceRange matches anything, no review container holds a
  review count, and the page text matches none of the text patterns.
\<close>

definition shows_nothing_else :: "document \<Rightarrow> bool" where
  "shows_nothing_else doc =
     ((\<forall>sel \<in> set (addressSelectors @ phoneSelectors @ websiteSelectors @ hoursTableSelectors @
                    hoursSelectors @ categorySelectors @ attributeSelectors @ priceSelectors).
         querySelectorAll doc sel = []) \<and>
      (\<forall>container \<in> set (querySelectorAll doc ''span.F7nice, div.F7nice, div.review-score'').
         js_match True reviews_before_re (textContent container) = None) \<and>
      (case body_innerText doc of
         None \<Rightarrow> False
       | Some pageText \<Rightarrow>
           js_match True reviews_before_re pageText = None \<and>
           js_match True reviews_after_re pageText = None \<and>
           js_match False email_re pageText = None \<and>
           js_match True (labelled_re ''Category:'') pageText = None \<and>
           js_match True (labelled_re ''Type:'') pageText = None))"

text \<open>A page that exposes only the name \<open>n\<close> and the rating \<open>r\<close>.\<close>

definition exposes_only_name_and_rating :: "document \<Rightarrow> string \<Rightarrow> string \<Rightarrow> bool" where
  "exposes_only_name_and_rating doc n r =
     (shows_name doc n \<and> shows_rating doc r \<and> shows_nothing_else doc)"

text \<open>A pattern with no capture group in it.\<close>

fun groupless :: "regex \<Rightarrow> bool" where
  "groupless (Group r) = False"
| "groupless (Seq a b) = (groupless a \<and> groupless b)"
| "groupless (Rep lo hi r) = groupless r"
| "groupless r = True"

text \<open>
  Strategy number \<open>k\<close> (from 0) of the list is the first that yields, and yields \<open>v\<close>.
\<close>

definition first_yield :: "('a \<Rightarrow> 'b option) \<Rightarrow> 'a list \<Rightarrow> nat \<Rightarrow> 'b \<Rightarrow> bool" where
  "first_yield f xs k v =
     (k < length xs \<and> (\<forall>x \<in> set (take k xs). f x = None) \<and> f (xs ! k) = Some v)"

definition first_yield_e ::
  "('a \<Rightarrow> js_error + 'b option) \<Rightarrow> 'a list \<Rightarrow> nat \<Rightarrow> 'b \<Rightarrow> bool" where
  "first_yield_e f xs k v =
     (k < length xs \<and> (\<forall>x \<in> set (take k xs). f x = Inr None) \<and> f (xs ! k) = Inr (Some v))"

text \<open>
  One selector of the hours table loop as a strategy: the rows of the table it locates,
  joined, when there is at least one.
\<close>

definition hours_table_strategy :: "document \<Rightarrow> string \<Rightarrow> string option" where
  "hours_table_strategy doc sel =
     (case querySelector doc sel of
        Some hoursTable \<Rightarrow>
          (let rows = List.map_filter hours_row (el_querySelectorAll hoursTable ''tr.y0skZc, tr'')
           in if rows \<noteq> [] then Some (join ''; '' rows) else None)
      | None \<Rightarrow> None)"

text \<open>
  One selector of the category loop as a strategy: the text of the last element that passes
  the filter, when that text is not the sentinel.
\<close>

definition category_strategy :: "document \<Rightarrow> string \<Rightarrow> string \<Rightarrow> string option" where
  "category_strategy doc website sel =
     (case filter (category_ok website)
             (map (\<lambda>element. trim (textContent element)) (querySelectorAll doc sel)) of
        [] \<Rightarrow> None
      | passing \<Rightarrow> if last passing \<noteq> ''N/A'' then Some (last passing) else None)"

text \<open>One selector of the attributes loop: the texts that pass the filter.\<close>

definition attribute_strategy ::
  "document \<Rightarrow> string option \<Rightarrow> string \<Rightarrow> string \<Rightarrow> string \<Rightarrow> string \<Rightarrow> string \<Rightarrow> string list" where
  "attribute_strategy doc n a p w c sel =
     filter (attribute_ok n a p w c)
       (map (\<lambda>attr. trim (textContent attr)) (querySelectorAll doc sel))"

section \<open>Sample pages\<close>

text \<open>Concrete pages, feeds and visits on which the theorems below are instantiated.\<close>

definition text_el :: "string \<Rightarrow> element" where
  "text_el t = Element t HrefUndefined None None []"

definition link_el :: "string \<Rightarrow> string \<Rightarrow> element" where
  "link_el label u = Element label (HrefString u) (Some label) None []"

definition empty_doc :: document where
  "empty_doc = \<lparr>selected = [], body_innerText = Some []\<rparr>"

text \<open>A result feed that shows two more listings after every scroll, five in all.\<close>

definition place_link :: "string \<Rightarrow> element" where
  "place_link label = link_el label (''https://www.google.com/maps/place/'' @ label)"

definition sample_feed :: "nat \<Rightarrow> document" where
  "sample_feed k =
     \<lparr>selected = [(''a.hfpxzc'',
         map place_link (take (2 * Suc k) [''Alpha'', ''Bravo'', ''Cafe'', ''Diner'', ''Espresso'']))],
      body_innerText = Some []\<rparr>"

text \<open>A detail page that shows a title and a rating, and nothing else.\<close>

definition detail_page :: "string \<Rightarrow> string \<Rightarrow> document" where
  "detail_page title stars =
     \<lparr>selected = [(''h1.DUwDvf'', [text_el title]), (''span'', [text_el stars])],
      body_innerText = Some (title @ [CHR 0x0A] @ stars)\<rparr>"

text \<open>Its record: what \<open>extractBusinessDetails\<close> returns on \<open>detail_page ''Rendered name'' ''4.5''\<close>.\<close>

definition sample_record :: details where
  "sample_record =
     [(''name'', ''Rendered name''), (''address'', ''N/A''), (''phone'', ''N/A''),
      (''website'', ''N/A''), (''rating'', ''4.5''), (''reviews'', ''N/A''), (''hours'', ''N/A''),
      (''email'', ''N/A''), (''category'', ''N/A'')]"

text \<open>Visits of which the second (index 1) times out in \<open>goto\<close>; the others succeed.\<close>

definition sample_visits :: "nat \<Rightarrow> visit" where
  "sample_visits i =
     (if i = 1 then \<lparr>fault = Some Goto, page_dom = empty_doc\<rparr>
      else \<lparr>fault = None, page_dom = detail_page ''Rendered name'' ''4.5''\<rparr>)"

definition sample_world :: world where
  "sample_world =
     \<lparr>launch_ok = True, search_ok = True, feed = sample_feed, visits = sample_visits\<rparr>"

text \<open>Visits that all succeed, but closing the page of the second (index 1) throws.\<close>

definition close_fault_visits :: "nat \<Rightarrow> visit" where
  "close_fault_visits i =
     \<lparr>fault = (if i = 1 then Some ClosePage else None),
      page_dom = detail_page ''Rendered name'' ''4.5''\<rparr>"

definition close_fault_world :: world where
  "close_fault_world =
     \<lparr>launch_ok = True, search_ok = True, feed = sample_feed, visits = close_fault_visits\<rparr>"

text \<open>
  A detail page whose rating stands in \<open>div.F7nice\<close>, which is a rating container and a
  review container at once, with no review count beside it.
\<close>

definition rated_page :: document where
  "rated_page =
     \<lparr>selected = [(''h1.DUwDvf'', [text_el ''Cafe Uno'']),
                  (''div.F7nice'', [text_el '' 4.5 '']),
                  (''span.F7nice, div.F7nice, div.review-score'', [text_el '' 4.5 ''])],
      body_innerText = Some (''Cafe Uno'' @ [CHR 0x0A] @ ''4.5'')\<rparr>"

text \<open>
  Three listings of the older server, and visits of them: going back to the search results
  throws for the second (index 1); for the third no selector of strategy 1 finds the
  listing, one throws, and strategy 2 clicks it.
\<close>

definition sample_businesses :: "basic_listing list" where
  "sample_businesses =
     [\<lparr>listing_name = ''Alpha'', listing_index = 0\<rparr>,
      \<lparr>listing_name = ''Bravo'', listing_index = 1\<rparr>,
      \<lparr>listing_name = ''Cafe'', listing_index = 2\<rparr>]"

definition sample_page_visits :: "nat \<Rightarrow> page_visit" where
  "sample_page_visits i =
     (if i = 1 then
        \<lparr>page_fault = Some GotoSearch, by_selector = [Clicked], by_index = [], by_text = NotFound,
         panel_dom = detail_page ''Rendered name'' ''4.5''\<rparr>
      else if i = 2 then
        \<lparr>page_fault = None,
         by_selector = [NotFound, ClickThrew, NotFound, NotFound, NotFound],
         by_index = [NotFound, Clicked], by_text = NotFound,
         panel_dom = detail_page ''Rendered name'' ''4.5''\<rparr>
      else
        \<lparr>page_fault = None, by_selector = [Clicked], by_index = [], by_text = NotFound,
         panel_dom = detail_page ''Rendered name'' ''4.5''\<rparr>)"

text \<open>The same visits, but for the second listing no click strategy clicks.\<close>

definition unclickable_visits :: "nat \<Rightarrow> page_visit" where
  "unclickable_visits i =
     (if i = 1 then
        \<lparr>page_fault = None,
         by_selector = [NotFound, NotFound, ClickThrew, NotFound, NotFound],
         by_index = [NotFound, ClickThrew, Clicked], by_text = ClickThrew,
         panel_dom = detail_page ''Rendered name'' ''4.5''\<rparr>
      else sample_page_visits i)"

text \<open>The session when the \<open>for\<close> loop starts: the browser runs, no detail page is open.\<close>

definition started :: session where
  "started = no_session\<lparr>browser_running := True\<rparr>"

text \<open>A record with all eleven keys.\<close>

definition full_record :: details where
  "full_record =
     [(''name'', ''Cafe''), (''address'', ''1 Main St''), (''phone'', ''+1 555 0100''),
      (''website'', ''https://cafe.example''), (''rating'', ''4.5''), (''reviews'', ''120''),
      (''hours'', ''Monday: 9-5''), (''email'', ''hi@cafe.example''),
      (''category'', ''Coffee shop''), (''attributes'', ''Wi-Fi''), (''priceRange'', ''$$'')]"

text \<open>A page whose rating container holds a number above five.\<close>

definition above_five_page :: document where
  "above_five_page =
     \<lparr>selected = [(''span.ceJTW'', [text_el ''9.9'']), (''span'', [text_el ''9.9''])],
      body_innerText = Some ''9.9''\<rparr>"

text \<open>The same number in a plain \<open>span\<close>, outside every rating container.\<close>

definition above_five_span_page :: document where
  "above_five_span_page =
     \<lparr>selected = [(''span'', [text_el ''9.9''])], body_innerText = Some ''9.9''\<rparr>"

text \<open>
  A page whose only phone link is an SVG anchor (\<open><svg><a href="tel:..."></svg>\<close>): its
  \<open>href\<close> property is an object.
\<close>

definition svg_phone_page :: document where
  \<open>svg_phone_page =
     \<lparr>selected = [(''h1.DUwDvf'', [text_el ''Cafe'']),
                  (''a[href^="tel:"]'', [Element ''Call'' HrefObject None None []])],
      body_innerText = Some (''Cafe'' @ [CHR 0x0A] @ ''Call'')\<rparr>\<close>

text \<open>Visits of which the first meets the page with the SVG phone link.\<close>

definition svg_visits :: "nat \<Rightarrow> visit" where
  "svg_visits i =
     (if i = 0 then \<lparr>fault = None, page_dom = svg_phone_page\<rparr>
      else \<lparr>fault = None, page_dom = detail_page ''Rendered name'' ''4.5''\<rparr>)"

text \<open>A page on which two of the attribute selectors match.\<close>

definition two_attributes_page :: document where
  "two_attributes_page =
     \<lparr>selected = [(''.ggc0ld .Io6YTe'', [text_el ''Wi-Fi'']), (''.q5X0Ue'', [text_el ''Patio''])],
      body_innerText = Some (''Wi-Fi'' @ [CHR 0x0A] @ ''Patio'')\<rparr>"

text \<open>
  A page on which the last passing element of the first category selector reads \<open>N/A\<close>.
\<close>

definition category_sentinel_page :: document where
  "category_sentinel_page =
     \<lparr>selected = [(''a.CsEnBe'', [text_el ''Cafe'', text_el ''N/A'']),
                  (''button.DkEaL'', [text_el ''Bar''])],
      body_innerText = Some (join [CHR 0x0A] [''Cafe'', ''N/A'', ''Bar''])\<rparr>"

text \<open>
  A page that shows the review count and the category only in its text, each in the form
  that the second of the field's two text patterns matches.
\<close>

definition text_only_page :: document where
  "text_only_page =
     \<lparr>selected = [],
      body_innerText = Some (join [CHR 0x0A] [''Reviews: 88'', ''Type: Bakery, open now''])\<rparr>"

text \<open>A page with an hours section and no hours table.\<close>

definition detail_hours_page :: document where
  "detail_hours_page = \<lparr>selected = [(''.G8aQO'', [text_el ''9-5''])], body_innerText = Some ''9-5''\<rparr>"

text \<open>
  A page on which, for each field, a later strategy is the first to yield; the first rating
  container is located but its text is no rating.
\<close>

definition cascade_page :: document where
  \<open>cascade_page =
     \<lparr>selected =
        [(''h1.DUwDvf'', [text_el ''Cafe Uno'']),
         (''button[jsaction*="address"]'', [text_el ''  1 Main St '']),
         (''a[href^="tel:"]'', [Element ''Call'' (HrefString ''tel:+15550100'') None None []]),
         (''a[aria-label*="website"]'',
            [Element ''Website'' (HrefString ''https://cafe.example/'') None None []]),
         (''span.ceJTW'', [text_el ''Open'']),
         (''div.F7nice'', [text_el ''4.5'']),
         (''span.F7nice, div.F7nice, div.review-score'',
            [text_el ''4.5'', text_el ''(120 reviews)'']),
         (''table.WgFkxc'',
            [Element ''Monday 9-5'' HrefUndefined None None
               [(''tr.y0skZc, tr'',
                  [Element ''Monday 9-5'' HrefUndefined None None
                     [(''.ylH6lf, .x4hIce'', [text_el ''Monday'']),
                      (''.mxowUb, .G8aQO'', [text_el ''9-5''])]])]]),
         (''.G8aQO'', [text_el ''9-5'']),
         (''a.CsEnBe'', [text_el ''https://cafe.example/'']),
         (''button.DkEaL'', [text_el ''Coffee shop'', text_el ''Cafe'']),
         (''span.mgr77e'', [text_el ''$$'']),
         (''span'', [text_el ''Open'', text_el ''$$''])],
      body_innerText =
        Some (join [CHR 0x0A]
          [''Cafe Uno'', ''4.5'', ''(120 reviews)'', ''Coffee shop'', ''Cafe'', ''$$'', ''1 Main St'',
           ''Open'', ''Monday 9-5'', ''Website'', ''Call''])\<rparr>\<close>

section \<open>The loops and their results\<close>

lemma for_first_Nil [simp]: "for_first f [] = None"
  by (simp add: for_first_def)

lemma for_first_Cons [simp]:
  "for_first f (x # xs) = (case f x of Some y \<Rightarrow> Some y | None \<Rightarrow> for_first f xs)"
  by (simp add: for_first_def split: option.splits prod.splits)

lemma for_first_e_Nil [simp]: "for_first_e f [] = Inr None"
  by (simp add: for_first_e_def)

lemma for_first_e_Cons [simp]:
  "for_first_e f (x # xs) =
     (case f x of
        Inl e \<Rightarrow> Inl e
      | Inr (Some y) \<Rightarrow> Inr (Some y)
      | Inr None \<Rightarrow> for_first_e f xs)"
  by (simp add: for_first_e_def split: sum.splits option.splits prod.splits)

lemma resolve_name_eq: "resolve_name doc = for_first (name_strategy doc) nameSelectors"
  by (simp add: resolve_name_def name_loop_def for_first_def)

lemma resolve_address_eq:
  "resolve_address doc = or_NA (for_first (address_strategy doc) addressSelectors)"
  by (simp add: resolve_address_def address_loop_def for_first_def)

lemma resolve_phone_eq:
  "resolve_phone doc = map_sum id or_NA (for_first_e (phone_strategy doc) phoneSelectors)"
  by (simp add: resolve_phone_def phone_loop_def for_first_e_def)

lemma resolve_website_eq:
  "resolve_website doc = map_sum id or_NA (for_first_e (website_strategy doc) websiteSelectors)"
  by (simp add: resolve_website_def website_loop_def for_first_e_def)

lemma resolve_rating_eq:
  "resolve_rating doc =
     (let rating = or_NA (for_first (rating_strategy doc) ratingSelectors) in
      if rating = ''N/A'' then
        (case find rating_span_ok (querySelectorAll doc ''span'') of
           Some ratingSpan \<Rightarrow> trim (textContent ratingSpan)
         | None \<Rightarrow> rating)
      else rating)"
  by (simp add: resolve_rating_def rating_field_def rating_loop_def for_first_def split_beta
        Let_def)

lemma resolve_hours_eq:
  "resolve_hours doc =
     (case fst (hours_tables doc hoursTableSelectors [] False) of
        Some hours \<Rightarrow> hours
      | None \<Rightarrow> or_NA (for_first (hours_section doc) hoursSelectors))"
  by (simp add: resolve_hours_def hours_field_def hours_section_loop_def for_first_def
        split: prod.splits option.splits)

lemma resolve_reviews_eq:
  "resolve_reviews doc =
     (let reviews = or_NA (for_first reviews_container
                      (querySelectorAll doc ''span.F7nice, div.F7nice, div.review-score'')) in
      if reviews = ''N/A'' then
        (case body_innerText doc of
           None \<Rightarrow> Inl TypeError
         | Some pageText \<Rightarrow>
             Inr (case for_first truthy_capture
                    [js_match True reviews_before_re pageText,
                     js_match True reviews_after_re pageText] of
                    Some v \<Rightarrow> v
                  | None \<Rightarrow> reviews))
      else Inr reviews)"
  unfolding resolve_reviews_def reviews_loop_def for_first_def by (rule refl)

lemma resolve_priceRange_eq: "resolve_priceRange doc = for_first (price_strategy doc) priceSelectors"
  by (simp add: resolve_priceRange_def price_loop_def for_first_def)

lemma attributes_loop_eq:
  "attributes_loop doc ok sels acc =
     (acc @ concat (map (\<lambda>sel. filter ok (map (\<lambda>attr. trim (textContent attr))
                                            (querySelectorAll doc sel))) sels),
      sels)"
  by (induction sels arbitrary: acc) simp_all

lemma collect_attributes_eq:
  "collect_attributes doc n a p w c =
     concat (map (\<lambda>sel. filter (attribute_ok n a p w c)
                          (map (\<lambda>attr. trim (textContent attr)) (querySelectorAll doc sel)))
               attributeSelectors)"
  by (simp add: collect_attributes_def attributes_loop_eq)

lemma for_first_None: "(\<forall>x \<in> set xs. f x = None) \<Longrightarrow> for_first f xs = None"
  by (induction xs) auto

lemma for_first_Some_iff: "for_first f xs \<noteq> None \<longleftrightarrow> (\<exists>x \<in> set xs. f x \<noteq> None)"
  by (induction xs) (auto split: option.splits)

lemma for_first_prop: "for_first f xs = Some v \<Longrightarrow> \<exists>x \<in> set xs. f x = Some v"
  by (induction xs) (auto split: option.splits)

lemma for_first_e_None: "(\<forall>x \<in> set xs. f x = Inr None) \<Longrightarrow> for_first_e f xs = Inr None"
  by (induction xs) auto

lemma for_first_e_error: "for_first_e f xs = Inl e \<Longrightarrow> \<exists>x \<in> set xs. f x = Inl e"
  by (induction xs) (auto split: sum.splits option.splits)

lemma querySelector_None: "querySelectorAll doc sel = [] \<Longrightarrow> querySelector doc sel = None"
  by (simp add: querySelector_def first_of_def)

lemma querySelector_iff: "querySelector doc sel \<noteq> None \<longleftrightarrow> querySelectorAll doc sel \<noteq> []"
  by (simp add: querySelector_def first_of_def split: list.splits)

lemma querySelector_mem: "querySelector doc sel = Some el \<Longrightarrow> el \<in> set (querySelectorAll doc sel)"
  by (simp add: querySelector_def first_of_def split: list.splits)

section \<open>Discovery: bound, distinct locators, termination\<close>

lemma add_unique_distinct:
  "distinct (map url collected) \<Longrightarrow>
   distinct (map url (fst (add_unique limit items collected added)))"
proof (induction items arbitrary: collected added)
  case Nil
  then show ?case by simp
next
  case (Cons item items)
  show ?case
  proof (cases "list_ex (\<lambda>existing. url existing = url item) collected")
    case True
    then show ?thesis using Cons by simp
  next
    case False
    then have d: "distinct (map url (collected @ [item]))"
      using Cons.prems by (auto simp: list_ex_iff)
    show ?thesis using False Cons.IH[OF d] d by (simp add: Let_def)
  qed
qed

lemma add_unique_grows:
  "length collected \<le> length (fst (add_unique limit items collected added))"
proof (induction items arbitrary: collected added)
  case Nil
  then show ?case by simp
next
  case (Cons item items)
  show ?case
    using Cons.IH[of collected added] Cons.IH[of "collected @ [item]" True]
    by (simp add: Let_def)
qed

lemma add_unique_same:
  "fst (add_unique limit items collected added) = collected \<Longrightarrow>
   snd (add_unique limit items collected added) = added"
proof (induction items arbitrary: collected added)
  case Nil
  then show ?case by simp
next
  case (Cons item items)
  show ?case
  proof (cases "list_ex (\<lambda>existing. url existing = url item) collected")
    case True
    then show ?thesis using Cons by simp
  next
    case False
    have "length (fst (add_unique limit (item # items) collected added)) > length collected"
      using False add_unique_grows[of "collected @ [item]" limit items True]
      by (simp add: Let_def)
    then show ?thesis using Cons.prems by simp
  qed
qed

lemma loop_body_distinct:
  "distinct (map url (listingUrls st)) \<Longrightarrow>
   distinct (map url (listingUrls (loop_body limit newUrls st)))"
  using add_unique_distinct[of "listingUrls st" limit newUrls False]
  by (cases "add_unique limit newUrls (listingUrls st) False") (simp add: loop_body_def)

lemma collect_loop_distinct:
  "collect_loop fd limit st = Inr st' \<Longrightarrow> distinct (map url (listingUrls st)) \<Longrightarrow>
   distinct (map url (listingUrls st'))"
proof (induction fd limit st rule: collect_loop.induct)
  case (1 fd limit st)
  show ?case
  proof (cases "loop_cond limit st")
    case False
    then show ?thesis using "1.prems" by (simp add: collect_loop.simps[of fd limit st])
  next
    case True
    then obtain newUrls where h: "harvest (fd (scrollAttempts st)) = Inr newUrls"
      and r: "collect_loop fd limit (loop_body limit newUrls st) = Inr st'"
      using "1.prems"(1) by (simp add: collect_loop.simps[of fd limit st] split: sum.splits)
    show ?thesis
      using "1.IH"[OF True h r] loop_body_distinct "1.prems"(2) by blast
  qed
qed

lemma collect_loop_error:
  "collect_loop fd limit st = Inl e \<Longrightarrow> \<exists>k<maxScrollAttempts. harvest (fd k) = Inl e"
proof (induction fd limit st rule: collect_loop.induct)
  case (1 fd limit st)
  have c: "loop_cond limit st"
    using "1.prems" by (simp add: collect_loop.simps[of fd limit st] split: if_splits)
  show ?case
  proof (cases "harvest (fd (scrollAttempts st))")
    case (Inl e')
    then have "e' = e" using "1.prems" c by (simp add: collect_loop.simps[of fd limit st])
    then show ?thesis using Inl c by (auto simp: loop_cond_def)
  next
    case (Inr newUrls)
    then have "collect_loop fd limit (loop_body limit newUrls st) = Inl e"
      using "1.prems" c by (simp add: collect_loop.simps[of fd limit st])
    then show ?thesis using "1.IH"[OF c Inr] by blast
  qed
qed

lemma slice0_length: "0 \<le> e \<Longrightarrow> int (length (slice0 xs e)) \<le> e"
  by (simp add: slice0_def)

lemma slice0_distinct: "distinct (map f xs) \<Longrightarrow> distinct (map f (slice0 xs e))"
  by (simp add: slice0_def distinct_take flip: take_map)

text \<open>
  C2. For every feed and every limit of at least 1, discovery either returns a sequence of
  at most \<open>limit\<close> references whose urls are pairwise distinct, or rethrows the exception
  of one of its harvests (so it returns whenever no harvest throws).
\<close>

theorem collectListingUrls_bounded_distinct:
  "1 \<le> limit \<Longrightarrow>
   (case collectListingUrls fd limit of
      Inr xs \<Rightarrow> int (length xs) \<le> limit \<and> distinct (map url xs)
    | Inl e \<Rightarrow> \<exists>k<maxScrollAttempts. harvest (fd k) = Inl e)"
proof -
  assume l: "1 \<le> limit"
  show ?thesis
  proof (cases "collect_loop fd limit initial_state")
    case (Inl e)
    then show ?thesis using collect_loop_error[OF Inl] by (simp add: collectListingUrls_def)
  next
    case (Inr st)
    have "distinct (map url (listingUrls st))"
      using collect_loop_distinct[OF Inr] by (simp add: initial_state_def)
    then show ?thesis using Inr l slice0_length[of limit "listingUrls st"] slice0_distinct
      by (simp add: collectListingUrls_def)
  qed
qed

lemma sample_feed_3:
  "collectListingUrls sample_feed 3 =
     Inr [\<lparr>name = ''Alpha'', url = ''https://www.google.com/maps/place/Alpha''\<rparr>,
          \<lparr>name = ''Bravo'', url = ''https://www.google.com/maps/place/Bravo''\<rparr>,
          \<lparr>name = ''Cafe'', url = ''https://www.google.com/maps/place/Cafe''\<rparr>]"
  by code_simp

theorem collectListingUrls_bounded_distinct_witness:
  "(1::int) \<le> 3 \<and>
   collectListingUrls sample_feed 3 =
     Inr [\<lparr>name = ''Alpha'', url = ''https://www.google.com/maps/place/Alpha''\<rparr>,
          \<lparr>name = ''Bravo'', url = ''https://www.google.com/maps/place/Bravo''\<rparr>,
          \<lparr>name = ''Cafe'', url = ''https://www.google.com/maps/place/Cafe''\<rparr>] \<and>
   (case collectListingUrls sample_feed 3 of
      Inr xs \<Rightarrow> int (length xs) \<le> 3 \<and> distinct (map url xs)
    | Inl e \<Rightarrow> \<exists>k<maxScrollAttempts. harvest (sample_feed k) = Inl e)"
proof -
  have h: "(1::int) \<le> 3" by simp
  show ?thesis
    using h collectListingUrls_bounded_distinct[OF h, of sample_feed] sample_feed_3 by blast
qed

lemma loop_progress:
  assumes "loop_cond limit st"
  shows "limit \<le> int (length (listingUrls (loop_body limit newUrls st))) \<or>
         (scrollAttempts (loop_body limit newUrls st) = scrollAttempts st + 1 \<and>
          scrollAttempts (loop_body limit newUrls st) \<le> maxScrollAttempts)"
  using assms
  by (cases "add_unique limit newUrls (listingUrls st) False")
     (auto simp: loop_body_def loop_cond_def)

lemma loop_stagnation:
  assumes "loop_cond limit st"
    and "listingUrls (loop_body limit newUrls st) = listingUrls st"
  shows "consecutiveNoNewUrls (loop_body limit newUrls st) = consecutiveNoNewUrls st + 1 \<and>
         consecutiveNoNewUrls (loop_body limit newUrls st) \<le> maxConsecutiveNoNewUrls"
proof -
  obtain c a where ca: "add_unique limit newUrls (listingUrls st) False = (c, a)"
    by (cases "add_unique limit newUrls (listingUrls st) False")
  have "c = listingUrls st" using assms(2) ca by (simp add: loop_body_def)
  then have "a = False" using add_unique_same[of limit newUrls "listingUrls st" False] ca by simp
  then show ?thesis using assms(1) ca by (simp add: loop_body_def loop_cond_def)
qed

lemma collect_loop_bounds:
  "collect_loop fd limit st = Inr st' \<Longrightarrow> scrollAttempts st \<le> maxScrollAttempts \<Longrightarrow>
   consecutiveNoNewUrls st \<le> maxConsecutiveNoNewUrls \<Longrightarrow>
   scrollAttempts st' \<le> maxScrollAttempts \<and> consecutiveNoNewUrls st' \<le> maxConsecutiveNoNewUrls"
proof (induction fd limit st rule: collect_loop.induct)
  case (1 fd limit st)
  show ?case
  proof (cases "loop_cond limit st")
    case False
    then show ?thesis using "1.prems" by (simp add: collect_loop.simps[of fd limit st])
  next
    case True
    then obtain newUrls where h: "harvest (fd (scrollAttempts st)) = Inr newUrls"
      and r: "collect_loop fd limit (loop_body limit newUrls st) = Inr st'"
      using "1.prems"(1) by (simp add: collect_loop.simps[of fd limit st] split: sum.splits)
    have "scrollAttempts (loop_body limit newUrls st) \<le> maxScrollAttempts"
      "consecutiveNoNewUrls (loop_body limit newUrls st) \<le> maxConsecutiveNoNewUrls"
      using True by (cases "add_unique limit newUrls (listingUrls st) False";
                     auto simp: loop_body_def loop_cond_def)+
    then show ?thesis using "1.IH"[OF True h r] by blast
  qed
qed

lemma barren_feed:
  "\<forall>k. harvest (fd k) = Inr [] \<Longrightarrow> 1 \<le> limit \<Longrightarrow>
   listingUrls st = [] \<Longrightarrow> previousUrlCount st = 0 \<Longrightarrow>
   scrollAttempts st = consecutiveNoNewUrls st \<Longrightarrow>
   consecutiveNoNewUrls st \<le> maxConsecutiveNoNewUrls \<Longrightarrow>
   collect_loop fd limit st =
     Inr \<lparr>listingUrls = [], previousUrlCount = 0, scrollAttempts = maxConsecutiveNoNewUrls,
           consecutiveNoNewUrls = maxConsecutiveNoNewUrls\<rparr>"
proof (induction fd limit st rule: collect_loop.induct)
  case (1 fd limit st)
  show ?case
  proof (cases "loop_cond limit st")
    case False
    then have "consecutiveNoNewUrls st = maxConsecutiveNoNewUrls"
      using "1.prems"
      by (auto simp: loop_cond_def maxScrollAttempts_def maxConsecutiveNoNewUrls_def)
    then show ?thesis using False "1.prems" by (simp add: collect_loop.simps[of fd limit st])
  next
    case True
    have h: "harvest (fd (scrollAttempts st)) = Inr []" using "1.prems"(1) by simp
    have b: "loop_body limit [] st = st\<lparr>scrollAttempts := scrollAttempts st + 1,
               consecutiveNoNewUrls := consecutiveNoNewUrls st + 1\<rparr>"
      using "1.prems" by (simp add: loop_body_def)
    have "collect_loop fd limit (loop_body limit [] st) =
            Inr \<lparr>listingUrls = [], previousUrlCount = 0, scrollAttempts = maxConsecutiveNoNewUrls,
                  consecutiveNoNewUrls = maxConsecutiveNoNewUrls\<rparr>"
      using True "1.prems" by (intro "1.IH"[OF True h]) (simp_all add: b loop_cond_def)
    then show ?thesis using True h by (simp add: collect_loop.simps[of fd limit st])
  qed
qed

lemma collect_loop_nonpositive:
  "limit \<le> 0 \<Longrightarrow> collect_loop fd limit initial_state = Inr initial_state"
  by (subst collect_loop.simps) (simp add: loop_cond_def initial_state_def)

lemma barren_feed_result:
  assumes "\<forall>k. harvest (fd k) = Inr []"
  shows "collectListingUrls fd limit = Inr [] \<and>
         (\<exists>st'. collect_loop fd limit initial_state = Inr st' \<and>
                scrollAttempts st' \<le> maxConsecutiveNoNewUrls)"
proof (cases "1 \<le> limit")
  case True
  have "collect_loop fd limit initial_state =
          Inr \<lparr>listingUrls = [], previousUrlCount = 0, scrollAttempts = maxConsecutiveNoNewUrls,
                consecutiveNoNewUrls = maxConsecutiveNoNewUrls\<rparr>"
    using assms True by (intro barren_feed) (simp_all add: initial_state_def)
  then show ?thesis by (simp add: collectListingUrls_def slice0_def)
next
  case False
  then have "collect_loop fd limit initial_state = Inr initial_state"
    by (intro collect_loop_nonpositive) simp
  then show ?thesis by (simp add: collectListingUrls_def slice0_def initial_state_def)
qed

lemma bounded_loop_exit:
  "\<not> loop_cond limit st \<Longrightarrow> bounded_loop n fd limit st = Some (Inr st)"
  by (cases n) simp_all

lemma collect_loop_exit: "\<not> loop_cond limit st \<Longrightarrow> collect_loop fd limit st = Inr st"
  by (subst collect_loop.simps) simp

lemma loop_body_cases:
  "loop_cond limit st \<Longrightarrow>
   \<not> loop_cond limit (loop_body limit newUrls st) \<or>
   scrollAttempts (loop_body limit newUrls st) = Suc (scrollAttempts st)"
  by (cases "add_unique limit newUrls (listingUrls st) False")
     (auto simp: loop_body_def loop_cond_def)

lemma bounded_loop_enough:
  "maxScrollAttempts \<le> scrollAttempts st + n \<Longrightarrow>
   bounded_loop n fd limit st = Some (collect_loop fd limit st)"
proof (induction n arbitrary: st)
  case 0
  then have "\<not> loop_cond limit st" by (simp add: loop_cond_def)
  then show ?case by (simp add: collect_loop_exit)
next
  case (Suc n)
  show ?case
  proof (cases "loop_cond limit st")
    case False
    then show ?thesis by (simp add: collect_loop_exit)
  next
    case True
    show ?thesis
    proof (cases "harvest (fd (scrollAttempts st))")
      case (Inl e)
      then show ?thesis using True by (subst collect_loop.simps) simp
    next
      case (Inr newUrls)
      have "bounded_loop n fd limit (loop_body limit newUrls st) =
              Some (collect_loop fd limit (loop_body limit newUrls st))"
      proof (cases "loop_cond limit (loop_body limit newUrls st)")
        case False
        then show ?thesis by (simp add: bounded_loop_exit collect_loop_exit)
      next
        case c: True
        then have "scrollAttempts (loop_body limit newUrls st) = Suc (scrollAttempts st)"
          using loop_body_cases[OF True, of newUrls] by blast
        then show ?thesis using Suc.prems by (intro Suc.IH) simp
      qed
      then show ?thesis using True Inr by (subst collect_loop.simps) simp
    qed
  qed
qed

lemma bounded_loop_barren:
  "\<forall>k. harvest (fd k) = Inr [] \<Longrightarrow> listingUrls st = [] \<Longrightarrow>
   maxConsecutiveNoNewUrls \<le> consecutiveNoNewUrls st + n \<Longrightarrow>
   bounded_loop n fd limit st = Some (collect_loop fd limit st)"
proof (induction n arbitrary: st)
  case 0
  then have "\<not> loop_cond limit st" by (simp add: loop_cond_def)
  then show ?case by (simp add: collect_loop_exit)
next
  case (Suc n)
  show ?case
  proof (cases "loop_cond limit st")
    case False
    then show ?thesis by (simp add: collect_loop_exit)
  next
    case True
    have h: "harvest (fd (scrollAttempts st)) = Inr []" using Suc.prems(1) by simp
    have b: "listingUrls (loop_body limit [] st) = []"
      "consecutiveNoNewUrls (loop_body limit [] st) = Suc (consecutiveNoNewUrls st)"
      using Suc.prems(2) by (simp_all add: loop_body_def)
    have "bounded_loop n fd limit (loop_body limit [] st) =
            Some (collect_loop fd limit (loop_body limit [] st))"
      using Suc.prems b by (intro Suc.IH) simp_all
    then show ?thesis using True h by (subst collect_loop.simps) simp
  qed
qed

text \<open>
  C3. The discovery loop is a total function, its termination proved by the measure the
  claim gives, and it exits within \<open>maxScrollAttempts\<close> (30) iterations on every feed.
  Each iteration either reaches \<open>limit\<close> or raises \<open>scrollAttempts\<close> by one, within its
  ceiling of 30, and when it adds no url it raises \<open>consecutiveNoNewUrls\<close> by one, within
  its ceiling of 5; the counters of the state the loop ends in are within their ceilings;
  and on a feed whose harvests are all empty, discovery exits within five iterations and
  returns the empty sequence.
\<close>

theorem discovery_terminates:
  "(loop_cond limit st \<longrightarrow>
      (limit \<le> int (length (listingUrls (loop_body limit newUrls st))) \<or>
       (scrollAttempts (loop_body limit newUrls st) = scrollAttempts st + 1 \<and>
        scrollAttempts (loop_body limit newUrls st) \<le> maxScrollAttempts)) \<and>
      (listingUrls (loop_body limit newUrls st) = listingUrls st \<longrightarrow>
         consecutiveNoNewUrls (loop_body limit newUrls st) = consecutiveNoNewUrls st + 1 \<and>
         consecutiveNoNewUrls (loop_body limit newUrls st) \<le> maxConsecutiveNoNewUrls)) \<and>
   bounded_loop maxScrollAttempts fd limit initial_state =
     Some (collect_loop fd limit initial_state) \<and>
   (\<forall>st'. collect_loop fd limit initial_state = Inr st' \<longrightarrow>
      scrollAttempts st' \<le> maxScrollAttempts \<and>
      consecutiveNoNewUrls st' \<le> maxConsecutiveNoNewUrls) \<and>
   ((\<forall>k. harvest (fd k) = Inr []) \<longrightarrow>
      collectListingUrls fd limit = Inr [] \<and>
      bounded_loop maxConsecutiveNoNewUrls fd limit initial_state =
        Some (collect_loop fd limit initial_state) \<and>
      (\<exists>st'. collect_loop fd limit initial_state = Inr st' \<and>
             scrollAttempts st' \<le> maxConsecutiveNoNewUrls))"
proof (intro conjI impI allI)
  assume "loop_cond limit st"
  then show "limit \<le> int (length (listingUrls (loop_body limit newUrls st))) \<or>
       (scrollAttempts (loop_body limit newUrls st) = scrollAttempts st + 1 \<and>
        scrollAttempts (loop_body limit newUrls st) \<le> maxScrollAttempts)"
    by (rule loop_progress)
next
  assume "loop_cond limit st" "listingUrls (loop_body limit newUrls st) = listingUrls st"
  then show "consecutiveNoNewUrls (loop_body limit newUrls st) = consecutiveNoNewUrls st + 1"
    using loop_stagnation by blast
next
  assume "loop_cond limit st" "listingUrls (loop_body limit newUrls st) = listingUrls st"
  then show "consecutiveNoNewUrls (loop_body limit newUrls st) \<le> maxConsecutiveNoNewUrls"
    using loop_stagnation by blast
next
  show "bounded_loop maxScrollAttempts fd limit initial_state =
     Some (collect_loop fd limit initial_state)"
    by (rule bounded_loop_enough) simp
next
  fix st' assume "collect_loop fd limit initial_state = Inr st'"
  then show "scrollAttempts st' \<le> maxScrollAttempts"
    using collect_loop_bounds[of fd limit initial_state st'] by (simp add: initial_state_def)
next
  fix st' assume "collect_loop fd limit initial_state = Inr st'"
  then show "consecutiveNoNewUrls st' \<le> maxConsecutiveNoNewUrls"
    using collect_loop_bounds[of fd limit initial_state st'] by (simp add: initial_state_def)
next
  assume "\<forall>k. harvest (fd k) = Inr []"
  then show "collectListingUrls fd limit = Inr []"
    using barren_feed_result by blast
next
  assume "\<forall>k. harvest (fd k) = Inr []"
  then show "bounded_loop maxConsecutiveNoNewUrls fd limit initial_state =
        Some (collect_loop fd limit initial_state)"
    by (rule bounded_loop_barren) (simp_all add: initial_state_def)
next
  assume "\<forall>k. harvest (fd k) = Inr []"
  then show "\<exists>st'. collect_loop fd limit initial_state = Inr st' \<and>
             scrollAttempts st' \<le> maxConsecutiveNoNewUrls"
    using barren_feed_result by blast
qed

lemma harvest_empty_doc: "harvest empty_doc = Inr []"
  by code_simp

lemma loop_cond_initial_20: "loop_cond 20 initial_state"
  by code_simp

theorem discovery_terminates_witness:
  "loop_cond 20 initial_state \<and>
   listingUrls (loop_body 20 [] initial_state) = listingUrls initial_state \<and>
   (\<forall>k. harvest ((\<lambda>k. empty_doc) k) = Inr []) \<and>
   consecutiveNoNewUrls (loop_body 20 [] initial_state) = consecutiveNoNewUrls initial_state + 1 \<and>
   collectListingUrls (\<lambda>k. empty_doc) 20 = Inr [] \<and>
   bounded_loop maxConsecutiveNoNewUrls (\<lambda>k. empty_doc) 20 initial_state =
     Some (collect_loop (\<lambda>k. empty_doc) 20 initial_state) \<and>
   (\<exists>st'. collect_loop (\<lambda>k. empty_doc) 20 initial_state = Inr st' \<and>
          scrollAttempts st' \<le> maxConsecutiveNoNewUrls)"
proof -
  have same: "listingUrls (loop_body 20 [] initial_state) = listingUrls initial_state"
    by (simp add: loop_body_def)
  show ?thesis
    using discovery_terminates[of 20 initial_state "[]" "\<lambda>k. empty_doc"]
      loop_cond_initial_20 harvest_empty_doc same
    by simp
qed

section \<open>The limit is not validated\<close>

text \<open>
  C10. For a limit of zero or less the loop condition fails at once: the loop returns the
  state it started in, discovery returns the empty sequence, and a request with query and
  location is answered with success and no records when the browser session starts (the
  only other answers are those of a missing parameter and of a session fault). A request
  without a limit is answered as one with limit 20.
\<close>

theorem nonpositive_limit_accepted:
  "limit \<le> 0 \<Longrightarrow>
     collect_loop fd limit initial_state = Inr initial_state \<and>
     collectListingUrls fd limit = Inr [] \<and>
     api_scrape w \<lparr>req_query = q, req_location = loc, req_limit = Some limit\<rparr> =
       (if falsy q \<or> falsy loc then BadRequest
        else if \<not> launch_ok w \<or> \<not> search_ok w then ServerError DriverError
        else Success []) \<and>
     api_scrape w \<lparr>req_query = q, req_location = loc, req_limit = None\<rparr> =
       api_scrape w \<lparr>req_query = q, req_location = loc, req_limit = Some 20\<rparr>"
proof -
  assume l: "limit \<le> 0"
  have a: "collect_loop fd limit initial_state = Inr initial_state" for fd
    using l by (rule collect_loop_nonpositive)
  have b: "collectListingUrls fd limit = Inr []" for fd
    unfolding collectListingUrls_def a by (simp add: slice0_def initial_state_def)
  show ?thesis
    by (simp add: a b api_scrape_def scrapeGoogleMaps_def Let_def no_session_def
          browser_close_def)
qed

theorem nonpositive_limit_accepted_witness:
  "(-3::int) \<le> 0 \<and>
   collect_loop sample_feed (-3) initial_state = Inr initial_state \<and>
   collectListingUrls sample_feed (-3) = Inr [] \<and>
   api_scrape sample_world
     \<lparr>req_query = Some ''coffee shops'', req_location = Some ''Seattle'',
      req_limit = Some (-3)\<rparr> = Success []"
proof -
  have h: "(-3::int) \<le> 0" by simp
  show ?thesis
    using nonpositive_limit_accepted[OF h, of sample_feed sample_world
        "Some ''coffee shops''" "Some ''Seattle''"]
    by (simp add: falsy_def sample_world_def)
qed

section \<open>Per-listing isolation\<close>

lemma process_listing_data:
  "detailedData (process_listing i l v ss) =
     detailedData ss @ (case listing_record l v of None \<Rightarrow> [] | Some r \<Rightarrow> [r])"
  by (auto simp: process_listing_def listing_record_def pre_push_steps_def Let_def
           split: sum.splits)

lemma process_from_data:
  "detailedData (process_from i ls vs ss) =
     detailedData ss @ List.map_filter (\<lambda>(j, l). listing_record l (vs j)) (List.enumerate i ls)"
proof (induction ls arbitrary: i ss)
  case Nil
  then show ?case by (simp add: List.map_filter_def)
next
  case (Cons l ls)
  show ?case by (simp add: Cons.IH process_listing_data split: option.splits)
qed

lemma listing_record_None:
  "fault v \<in> Some ` pre_push_steps \<or> (\<exists>e. extractBusinessDetails (page_dom v) = Inl e) \<Longrightarrow>
   listing_record l v = None"
  by (auto simp: listing_record_def)

lemma listing_record_Some:
  "fault v \<in> {None, Some ClosePage, Some RandomDelay} \<Longrightarrow>
   extractBusinessDetails (page_dom v) = Inr info \<Longrightarrow>
   listing_record l v = Some (merge_info (name l) info)"
  by (auto simp: listing_record_def pre_push_steps_def)

lemma process_listing_correctcode_data:
  "process_listing_correctcode i l v acc =
     acc @ (case listing_record_correctcode i l v of None \<Rightarrow> [] | Some r \<Rightarrow> [r])"
  by (auto simp: process_listing_correctcode_def listing_record_correctcode_def
           split: sum.splits)

lemma process_from_correctcode_data:
  "process_from_correctcode i ls vs acc =
     acc @ List.map_filter (\<lambda>(j, l). listing_record_correctcode j l (vs j)) (List.enumerate i ls)"
proof (induction ls arbitrary: i acc)
  case Nil
  then show ?case by (simp add: List.map_filter_def)
next
  case (Cons l ls)
  show ?case by (simp add: Cons.IH process_listing_correctcode_data split: option.splits)
qed

lemma listing_record_correctcode_None:
  "(0 < i \<and> page_fault v \<in> Some ` {GotoSearch, WaitForResults}) \<or>
   (0 < i div 3 \<and> page_fault v = Some ScrollToListing) \<or>
   \<not> click_strategies v \<or>
   page_fault v \<in> Some ` {WaitForPanel, EvaluatePanel} \<or>
   (\<exists>e. extractBusinessDetails (panel_dom v) = Inl e) \<Longrightarrow>
   listing_record_correctcode i l v = None"
  by (auto simp: listing_record_correctcode_def)

lemma listing_record_correctcode_Some:
  "page_fault v \<in> {None, Some PacingDelay} \<Longrightarrow> click_strategies v \<Longrightarrow>
   extractBusinessDetails (panel_dom v) = Inr info \<Longrightarrow>
   listing_record_correctcode i l v = Some (listing_index l, merge_info (listing_name l) info)"
  by (auto simp: listing_record_correctcode_def)

text \<open>
  C6, as the code has it, for the loop of the serverless server and for the loop of
  \<open>correctcode.js\<close>.

  In the serverless server, when the session starts and discovery returns the listings
  \<open>ls\<close>, the scrape returns, in discovery order, exactly the records of the listings that
  reach the push. An iteration in which a call up to and including the extraction throws
  adds nothing and leaves the records collected so far as they are; an iteration in which
  these calls return adds the one record of its listing at the end, also when
  \<open>detailPage.close()\<close> or the pacing delay throws after the push. With three listings of
  which the second throws before the push and the other two reach it, the result is the
  records of the first and the third.

  In \<open>correctcode.js\<close> the loop returns, in discovery order, exactly the records of the
  listings that reach the push. An iteration adds nothing when going back to the search
  results, a wait, the scrolling or the extraction throws, and when none of the three click
  strategies clicks the listing; otherwise it adds the one record of its listing at the
  end, also when the pacing delay throws after the push. With three listings of which the
  second is skipped in one of these ways and the other two reach the push, the result is
  the records of the first and the third.
\<close>

theorem per_listing_isolation:
  "(launch_ok w \<and> search_ok w \<and> collectListingUrls (feed w) limit = Inr ls \<longrightarrow>
      fst (scrapeGoogleMaps w limit) =
        Inr (List.map_filter (\<lambda>(i, l). listing_record l (visits w i)) (List.enumerate 0 ls)) \<and>
      (\<forall>a b c ra rc. ls = [a, b, c] \<and>
         (fault (visits w 1) \<in> Some ` pre_push_steps \<or>
          (\<exists>e. extractBusinessDetails (page_dom (visits w 1)) = Inl e)) \<and>
         listing_record a (visits w 0) = Some ra \<and> listing_record c (visits w 2) = Some rc \<longrightarrow>
         fst (scrapeGoogleMaps w limit) = Inr [ra, rc])) \<and>
   (fault v \<in> Some ` pre_push_steps \<or> (\<exists>e. extractBusinessDetails (page_dom v) = Inl e) \<longrightarrow>
      listing_record l v = None \<and>
      detailedData (process_listing i l v ss) = detailedData ss) \<and>
   (fault v \<in> {None, Some ClosePage, Some RandomDelay} \<and>
    extractBusinessDetails (page_dom v) = Inr info \<longrightarrow>
      listing_record l v = Some (merge_info (name l) info) \<and>
      detailedData (process_listing i l v ss) = detailedData ss @ [merge_info (name l) info]) \<and>
   detailedData_correctcode bs pvs =
     List.map_filter (\<lambda>(j, b). listing_record_correctcode j b (pvs j)) (List.enumerate 0 bs) \<and>
   (\<forall>a b c ra rc. bs = [a, b, c] \<and>
      (page_fault (pvs 1) \<in> Some ` {GotoSearch, WaitForResults, WaitForPanel, EvaluatePanel} \<or>
       \<not> click_strategies (pvs 1) \<or>
       (\<exists>e. extractBusinessDetails (panel_dom (pvs 1)) = Inl e)) \<and>
      listing_record_correctcode 0 a (pvs 0) = Some ra \<and>
      listing_record_correctcode 2 c (pvs 2) = Some rc \<longrightarrow>
      detailedData_correctcode bs pvs = [ra, rc]) \<and>
   ((0 < j \<and> page_fault pv \<in> Some ` {GotoSearch, WaitForResults}) \<or>
    (0 < j div 3 \<and> page_fault pv = Some ScrollToListing) \<or>
    \<not> click_strategies pv \<or>
    page_fault pv \<in> Some ` {WaitForPanel, EvaluatePanel} \<or>
    (\<exists>e. extractBusinessDetails (panel_dom pv) = Inl e) \<longrightarrow>
      listing_record_correctcode j bl pv = None \<and>
      process_listing_correctcode j bl pv acc = acc) \<and>
   (page_fault pv \<in> {None, Some PacingDelay} \<and> click_strategies pv \<and>
    extractBusinessDetails (panel_dom pv) = Inr panel_info \<longrightarrow>
      listing_record_correctcode j bl pv =
        Some (listing_index bl, merge_info (listing_name bl) panel_info) \<and>
      process_listing_correctcode j bl pv acc =
        acc @ [(listing_index bl, merge_info (listing_name bl) panel_info)])"
proof (intro conjI impI allI)
  assume a: "launch_ok w \<and> search_ok w \<and> collectListingUrls (feed w) limit = Inr ls"
  then show r: "fst (scrapeGoogleMaps w limit) =
       Inr (List.map_filter (\<lambda>(i, l). listing_record l (visits w i)) (List.enumerate 0 ls))"
    by (simp add: scrapeGoogleMaps_def Let_def process_from_data no_session_def)
  fix a' b c ra rc
  assume s: "ls = [a', b, c] \<and>
         (fault (visits w 1) \<in> Some ` pre_push_steps \<or>
          (\<exists>e. extractBusinessDetails (page_dom (visits w 1)) = Inl e)) \<and>
         listing_record a' (visits w 0) = Some ra \<and> listing_record c (visits w 2) = Some rc"
  then have g: "listing_record b (visits w 1) = None"
    by (intro listing_record_None) blast
  show "fst (scrapeGoogleMaps w limit) = Inr [ra, rc]"
    unfolding r using s g by (simp add: List.map_filter_def numeral_2_eq_2)
next
  assume h: "fault v \<in> Some ` pre_push_steps \<or> (\<exists>e. extractBusinessDetails (page_dom v) = Inl e)"
  then show n: "listing_record l v = None" by (rule listing_record_None)
  show "detailedData (process_listing i l v ss) = detailedData ss"
    by (simp add: process_listing_data n)
next
  assume h: "fault v \<in> {None, Some ClosePage, Some RandomDelay} \<and>
    extractBusinessDetails (page_dom v) = Inr info"
  then show n: "listing_record l v = Some (merge_info (name l) info)"
    by (intro listing_record_Some) simp_all
  show "detailedData (process_listing i l v ss) = detailedData ss @ [merge_info (name l) info]"
    by (simp add: process_listing_data n)
next
  show r: "detailedData_correctcode bs pvs =
     List.map_filter (\<lambda>(j, b). listing_record_correctcode j b (pvs j)) (List.enumerate 0 bs)"
    by (simp add: detailedData_correctcode_def process_from_correctcode_data)
  fix a' b c ra rc
  assume s: "bs = [a', b, c] \<and>
      (page_fault (pvs 1) \<in> Some ` {GotoSearch, WaitForResults, WaitForPanel, EvaluatePanel} \<or>
       \<not> click_strategies (pvs 1) \<or>
       (\<exists>e. extractBusinessDetails (panel_dom (pvs 1)) = Inl e)) \<and>
      listing_record_correctcode 0 a' (pvs 0) = Some ra \<and>
      listing_record_correctcode 2 c (pvs 2) = Some rc"
  then have g: "listing_record_correctcode 1 b (pvs 1) = None"
    by (intro listing_record_correctcode_None) auto
  show "detailedData_correctcode bs pvs = [ra, rc]"
    unfolding r using s g by (simp add: List.map_filter_def numeral_2_eq_2)
next
  assume h: "(0 < j \<and> page_fault pv \<in> Some ` {GotoSearch, WaitForResults}) \<or>
    (0 < j div 3 \<and> page_fault pv = Some ScrollToListing) \<or>
    \<not> click_strategies pv \<or>
    page_fault pv \<in> Some ` {WaitForPanel, EvaluatePanel} \<or>
    (\<exists>e. extractBusinessDetails (panel_dom pv) = Inl e)"
  then show n: "listing_record_correctcode j bl pv = None"
    by (rule listing_record_correctcode_None)
  show "process_listing_correctcode j bl pv acc = acc"
    by (simp add: process_listing_correctcode_data n)
next
  assume h: "page_fault pv \<in> {None, Some PacingDelay} \<and> click_strategies pv \<and>
    extractBusinessDetails (panel_dom pv) = Inr panel_info"
  then show n: "listing_record_correctcode j bl pv =
        Some (listing_index bl, merge_info (listing_name bl) panel_info)"
    by (intro listing_record_correctcode_Some) simp_all
  show "process_listing_correctcode j bl pv acc =
        acc @ [(listing_index bl, merge_info (listing_name bl) panel_info)]"
    by (simp add: process_listing_correctcode_data n)
qed

lemma sample_listings:
  "collectListingUrls (feed sample_world) 3 =
     Inr [\<lparr>name = ''Alpha'', url = ''https://www.google.com/maps/place/Alpha''\<rparr>,
          \<lparr>name = ''Bravo'', url = ''https://www.google.com/maps/place/Bravo''\<rparr>,
          \<lparr>name = ''Cafe'', url = ''https://www.google.com/maps/place/Cafe''\<rparr>]"
  by code_simp

lemma sample_detail:
  "extractBusinessDetails (detail_page ''Rendered name'' ''4.5'') = Inr sample_record"
  by code_simp

lemma sample_merge:
  "merge_info ''Alpha'' sample_record = sample_record"
  "merge_info ''Bravo'' sample_record = sample_record"
  "merge_info ''Cafe'' sample_record = sample_record"
  by code_simp+

lemma sample_clicks:
  "click_strategies (sample_page_visits 0)" "click_strategies (sample_page_visits 2)"
  "\<not> click_strategies (unclickable_visits 1)"
  by code_simp+

theorem per_listing_isolation_witness:
  "launch_ok sample_world \<and> search_ok sample_world \<and>
   collectListingUrls (feed sample_world) 3 =
     Inr [\<lparr>name = ''Alpha'', url = ''https://www.google.com/maps/place/Alpha''\<rparr>,
          \<lparr>name = ''Bravo'', url = ''https://www.google.com/maps/place/Bravo''\<rparr>,
          \<lparr>name = ''Cafe'', url = ''https://www.google.com/maps/place/Cafe''\<rparr>] \<and>
   fault (visits sample_world 1) = Some Goto \<and> Goto \<in> pre_push_steps \<and>
   fault (visits sample_world 0) = None \<and> fault (visits sample_world 2) = None \<and>
   fst (scrapeGoogleMaps sample_world 3) = Inr [sample_record, sample_record] \<and>
   detailedData (process_listing 1
      \<lparr>name = ''Bravo'', url = ''https://www.google.com/maps/place/Bravo''\<rparr>
      (visits sample_world 1) started) = [] \<and>
   fault (close_fault_visits 1) = Some ClosePage \<and>
   detailedData (process_listing 1
      \<lparr>name = ''Bravo'', url = ''https://www.google.com/maps/place/Bravo''\<rparr>
      (close_fault_visits 1) started) = [sample_record] \<and>
   page_fault (sample_page_visits 1) = Some GotoSearch \<and>
   detailedData_correctcode sample_businesses sample_page_visits =
     [(0, sample_record), (2, sample_record)] \<and>
   \<not> click_strategies (unclickable_visits 1) \<and>
   detailedData_correctcode sample_businesses unclickable_visits =
     [(0, sample_record), (2, sample_record)] \<and>
   process_listing_correctcode 1 \<lparr>listing_name = ''Bravo'', listing_index = 1\<rparr>
     (sample_page_visits 1) [(0, sample_record)] = [(0, sample_record)] \<and>
   process_listing_correctcode 2 \<lparr>listing_name = ''Cafe'', listing_index = 2\<rparr>
     (sample_page_visits 2) [(0, sample_record)] = [(0, sample_record), (2, sample_record)]"
proof -
  let ?A = "\<lparr>name = ''Alpha'', url = ''https://www.google.com/maps/place/Alpha''\<rparr>"
  let ?B = "\<lparr>name = ''Bravo'', url = ''https://www.google.com/maps/place/Bravo''\<rparr>"
  let ?C = "\<lparr>name = ''Cafe'', url = ''https://www.google.com/maps/place/Cafe''\<rparr>"
  let ?b = "\<lparr>listing_name = ''Bravo'', listing_index = 1\<rparr>"
  let ?c = "\<lparr>listing_name = ''Cafe'', listing_index = 2\<rparr>"
  have l: "launch_ok sample_world \<and> search_ok sample_world \<and>
     collectListingUrls (feed sample_world) 3 = Inr [?A, ?B, ?C]"
    using sample_listings by (simp add: sample_world_def)
  have f: "fault (visits sample_world 1) = Some Goto" "Goto \<in> pre_push_steps"
    "fault (visits sample_world 0) = None" "fault (visits sample_world 2) = None"
    "fault (close_fault_visits 1) = Some ClosePage"
    "page_fault (sample_page_visits 1) = Some GotoSearch"
    "page_fault (sample_page_visits 0) = None" "page_fault (sample_page_visits 2) = None"
    "page_fault (unclickable_visits 0) = None" "page_fault (unclickable_visits 2) = None"
    by (simp_all add: sample_world_def sample_visits_def pre_push_steps_def
          close_fault_visits_def sample_page_visits_def unclickable_visits_def)
  have d: "page_dom (visits sample_world 0) = detail_page ''Rendered name'' ''4.5''"
    "page_dom (visits sample_world 2) = detail_page ''Rendered name'' ''4.5''"
    "page_dom (close_fault_visits 1) = detail_page ''Rendered name'' ''4.5''"
    "panel_dom (sample_page_visits 0) = detail_page ''Rendered name'' ''4.5''"
    "panel_dom (sample_page_visits 2) = detail_page ''Rendered name'' ''4.5''"
    "panel_dom (unclickable_visits 0) = detail_page ''Rendered name'' ''4.5''"
    "panel_dom (unclickable_visits 2) = detail_page ''Rendered name'' ''4.5''"
    by (simp_all add: sample_world_def sample_visits_def close_fault_visits_def
          sample_page_visits_def unclickable_visits_def)
  have k: "click_strategies (unclickable_visits 0)" "click_strategies (unclickable_visits 2)"
    using sample_clicks by (simp_all add: unclickable_visits_def)
  note t1 = per_listing_isolation[where w = sample_world and limit = 3 and ls = "[?A, ?B, ?C]"
      and v = "visits sample_world 1" and l = ?B and i = 1 and ss = started
      and info = sample_record and bs = sample_businesses and pvs = sample_page_visits
      and pv = "sample_page_visits 1" and j = 1 and bl = ?b and acc = "[(0, sample_record)]"
      and panel_info = sample_record]
  note t2 = per_listing_isolation[where w = sample_world and limit = 3 and ls = "[?A, ?B, ?C]"
      and v = "close_fault_visits 1" and l = ?B and i = 1 and ss = started
      and info = sample_record and bs = sample_businesses and pvs = unclickable_visits
      and pv = "sample_page_visits 2" and j = 2 and bl = ?c and acc = "[(0, sample_record)]"
      and panel_info = sample_record]
  let ?a = "\<lparr>listing_name = ''Alpha'', listing_index = 0\<rparr>"
  note t1_scrape = t1[THEN conjunct1, rule_format, OF l, THEN conjunct2, rule_format]
  note t1_skip = t1[THEN conjunct2, THEN conjunct1, rule_format, THEN conjunct2]
  note t2_push = t2[THEN conjunct2, THEN conjunct2, THEN conjunct1, rule_format, THEN conjunct2]
  note t1_cc = t1[THEN conjunct2, THEN conjunct2, THEN conjunct2, THEN conjunct2, THEN conjunct1,
      rule_format]
  note t2_cc = t2[THEN conjunct2, THEN conjunct2, THEN conjunct2, THEN conjunct2, THEN conjunct1,
      rule_format]
  note t1_cc_skip = t1[THEN conjunct2, THEN conjunct2, THEN conjunct2, THEN conjunct2,
      THEN conjunct2, THEN conjunct1, rule_format, THEN conjunct2]
  note t2_cc_push = t2[THEN conjunct2, THEN conjunct2, THEN conjunct2, THEN conjunct2,
      THEN conjunct2, THEN conjunct2, rule_format, THEN conjunct2]
  have r0: "listing_record ?A (visits sample_world 0) = Some sample_record"
    by (simp add: listing_record_Some f d sample_detail sample_merge)
  have r2: "listing_record ?C (visits sample_world 2) = Some sample_record"
    by (simp add: listing_record_Some f d sample_detail sample_merge)
  have "[?A, ?B, ?C] = [?A, ?B, ?C] \<and>
     (fault (visits sample_world 1) \<in> Some ` pre_push_steps \<or>
      (\<exists>e. extractBusinessDetails (page_dom (visits sample_world 1)) = Inl e)) \<and>
     listing_record ?A (visits sample_world 0) = Some sample_record \<and>
     listing_record ?C (visits sample_world 2) = Some sample_record"
    using f r0 r2 by simp
  then have 1: "fst (scrapeGoogleMaps sample_world 3) = Inr [sample_record, sample_record]"
    by (rule t1_scrape)
  have "fault (visits sample_world 1) \<in> Some ` pre_push_steps \<or>
     (\<exists>e. extractBusinessDetails (page_dom (visits sample_world 1)) = Inl e)"
    using f by simp
  then have "detailedData (process_listing 1 ?B (visits sample_world 1) started) =
     detailedData started"
    by (rule t1_skip)
  then have 2: "detailedData (process_listing 1 ?B (visits sample_world 1) started) = []"
    by (simp add: started_def no_session_def)
  have "fault (close_fault_visits 1) \<in> {None, Some ClosePage, Some RandomDelay} \<and>
     extractBusinessDetails (page_dom (close_fault_visits 1)) = Inr sample_record"
    using f d sample_detail by simp
  then have "detailedData (process_listing 1 ?B (close_fault_visits 1) started) =
     detailedData started @ [merge_info (name ?B) sample_record]"
    by (rule t2_push)
  then have 3: "detailedData (process_listing 1 ?B (close_fault_visits 1) started) = [sample_record]"
    by (simp add: started_def no_session_def sample_merge)
  have c0: "listing_record_correctcode 0 ?a (sample_page_visits 0) = Some (0, sample_record)"
    "listing_record_correctcode 2 ?c (sample_page_visits 2) = Some (2, sample_record)"
    "listing_record_correctcode 0 ?a (unclickable_visits 0) = Some (0, sample_record)"
    "listing_record_correctcode 2 ?c (unclickable_visits 2) = Some (2, sample_record)"
    by (simp_all add: listing_record_correctcode_Some f d k sample_clicks sample_detail
          sample_merge)
  have "sample_businesses = [?a, ?b, ?c] \<and>
      (page_fault (sample_page_visits 1)
         \<in> Some ` {GotoSearch, WaitForResults, WaitForPanel, EvaluatePanel} \<or>
       \<not> click_strategies (sample_page_visits 1) \<or>
       (\<exists>e. extractBusinessDetails (panel_dom (sample_page_visits 1)) = Inl e)) \<and>
      listing_record_correctcode 0 ?a (sample_page_visits 0) = Some (0, sample_record) \<and>
      listing_record_correctcode 2 ?c (sample_page_visits 2) = Some (2, sample_record)"
    using f c0 by (simp add: sample_businesses_def)
  then have 4: "detailedData_correctcode sample_businesses sample_page_visits =
     [(0, sample_record), (2, sample_record)]"
    by (rule t1_cc)
  have "sample_businesses = [?a, ?b, ?c] \<and>
      (page_fault (unclickable_visits 1)
         \<in> Some ` {GotoSearch, WaitForResults, WaitForPanel, EvaluatePanel} \<or>
       \<not> click_strategies (unclickable_visits 1) \<or>
       (\<exists>e. extractBusinessDetails (panel_dom (unclickable_visits 1)) = Inl e)) \<and>
      listing_record_correctcode 0 ?a (unclickable_visits 0) = Some (0, sample_record) \<and>
      listing_record_correctcode 2 ?c (unclickable_visits 2) = Some (2, sample_record)"
    using sample_clicks c0 by (simp add: sample_businesses_def)
  then have 5: "detailedData_correctcode sample_businesses unclickable_visits =
     [(0, sample_record), (2, sample_record)]"
    by (rule t2_cc)
  have "(0 < (1::nat) \<and> page_fault (sample_page_visits 1) \<in> Some ` {GotoSearch, WaitForResults}) \<or>
    (0 < (1::nat) div 3 \<and> page_fault (sample_page_visits 1) = Some ScrollToListing) \<or>
    \<not> click_strategies (sample_page_visits 1) \<or>
    page_fault (sample_page_visits 1) \<in> Some ` {WaitForPanel, EvaluatePanel} \<or>
    (\<exists>e. extractBusinessDetails (panel_dom (sample_page_visits 1)) = Inl e)"
    using f by simp
  then have 6: "process_listing_correctcode 1 ?b (sample_page_visits 1) [(0, sample_record)] =
     [(0, sample_record)]"
    by (rule t1_cc_skip)
  have "page_fault (sample_page_visits 2) \<in> {None, Some PacingDelay} \<and>
    click_strategies (sample_page_visits 2) \<and>
    extractBusinessDetails (panel_dom (sample_page_visits 2)) = Inr sample_record"
    using f d sample_clicks sample_detail by simp
  then have "process_listing_correctcode 2 ?c (sample_page_visits 2) [(0, sample_record)] =
     [(0, sample_record)] @ [(listing_index ?c, merge_info (listing_name ?c) sample_record)]"
    by (rule t2_cc_push)
  then have 7: "process_listing_correctcode 2 ?c (sample_page_visits 2) [(0, sample_record)] =
     [(0, sample_record), (2, sample_record)]"
    by (simp add: sample_merge)
  show ?thesis using l f 1 2 3 4 5 6 7 sample_clicks by blast
qed

text \<open>
  C6 as stated fails: closing the page of the second of three listings throws, so the
  processing of that listing throws, and yet the listing is not skipped: its record was
  pushed before, and the result holds three records.
\<close>

theorem close_exception_keeps_record:
  "fault (visits close_fault_world 1) = Some ClosePage \<and>
   collectListingUrls (feed close_fault_world) 3 =
     Inr [\<lparr>name = ''Alpha'', url = ''https://www.google.com/maps/place/Alpha''\<rparr>,
          \<lparr>name = ''Bravo'', url = ''https://www.google.com/maps/place/Bravo''\<rparr>,
          \<lparr>name = ''Cafe'', url = ''https://www.google.com/maps/place/Cafe''\<rparr>] \<and>
   fst (scrapeGoogleMaps close_fault_world 3) =
     Inr [[(''name'', ''Rendered name''), (''address'', ''N/A''), (''phone'', ''N/A''),
           (''website'', ''N/A''), (''rating'', ''4.5''), (''reviews'', ''N/A''),
           (''hours'', ''N/A''), (''email'', ''N/A''), (''category'', ''N/A'')],
          [(''name'', ''Rendered name''), (''address'', ''N/A''), (''phone'', ''N/A''),
           (''website'', ''N/A''), (''rating'', ''4.5''), (''reviews'', ''N/A''),
           (''hours'', ''N/A''), (''email'', ''N/A''), (''category'', ''N/A'')],
          [(''name'', ''Rendered name''), (''address'', ''N/A''), (''phone'', ''N/A''),
           (''website'', ''N/A''), (''rating'', ''4.5''), (''reviews'', ''N/A''),
           (''hours'', ''N/A''), (''email'', ''N/A''), (''category'', ''N/A'')]]"
  by code_simp

section \<open>Release of pages and of the browser\<close>

text \<open>The \<open>finally\<close> block: however the scrape ends, the browser and its pages are gone.\<close>

lemma session_released:
  "browser_running (snd (scrapeGoogleMaps w limit)) = False \<and>
   open_pages (snd (scrapeGoogleMaps w limit)) = []"
  by (simp add: scrapeGoogleMaps_def Let_def no_session_def browser_close_def split: sum.splits)

text \<open>A call that throws between \<open>newPage\<close> and the push leaves the page open.\<close>

lemma failed_listing_keeps_page:
  "fault v \<in> Some ` {SetUserAgent, SetExtraHTTPHeaders, SetRequestInterception, Goto,
                      WaitForTimeout, Evaluate} \<Longrightarrow>
   open_pages (process_listing i l v ss) = open_pages ss @ [i]"
  by (auto simp: process_listing_def Let_def)

text \<open>
  C9, at the input on which the code departs from it. Two listings are visited, the first
  succeeds and the second throws in \<open>goto\<close>: when the loop goes on to the next iteration
  the page opened for the second listing (index 1) is still open. Only
  \<open>browser.close()\<close> in the \<open>finally\<close> block ends it.
\<close>

theorem detail_page_left_open:
  "open_pages (process_from 0
      [\<lparr>name = ''Alpha'', url = ''https://www.google.com/maps/place/Alpha''\<rparr>,
       \<lparr>name = ''Bravo'', url = ''https://www.google.com/maps/place/Bravo''\<rparr>]
      sample_visits started) = [1]"
  by code_simp

section \<open>Export columns\<close>

text \<open>The serverless server's encoders write the eleven keys, in the fixed order.\<close>

lemma export_keys:
  "csv_fields = map (\<lambda>c. fst (snd c)) columns \<and> length csv_fields = 11 \<and>
   hd (exportToCSV data) = csv_fields \<and>
   hd (exportToExcel data) =
     [''Name'', ''Address'', ''Phone'', ''Website'', ''Email'', ''Rating'', ''Reviews'', ''Hours'',
      ''Category'', ''Price Range'', ''Attributes'']"
  by (simp add: csv_fields_def columns_def exportToCSV_def exportToExcel_def table_def)

text \<open>
  C8, at the input on which the code departs from it: \<open>exportToCSV\<close> of
  \<open>correctcode.js\<close> writes nine columns for a record that has all eleven keys; the
  columns \<open>priceRange\<close> and \<open>attributes\<close> are missing.
\<close>

theorem csv_correctcode_nine_columns:
  "exportToCSV_correctcode [full_record] =
     [[''name'', ''address'', ''phone'', ''website'', ''email'', ''rating'', ''reviews'', ''hours'',
       ''category''],
      [''Cafe'', ''1 Main St'', ''+1 555 0100'', ''https://cafe.example'', ''hi@cafe.example'',
       ''4.5'', ''120'', ''Monday: 9-5'', ''Coffee shop'']]"
  by code_simp

section \<open>The rating\<close>

lemma rsearch_rating_later: "0 < p \<Longrightarrow> rsearch False rating_re p s = None"
proof (induction s arbitrary: p)
  case Nil
  then show ?case by (subst rsearch.simps) (simp add: rating_re_def seqs_def)
next
  case (Cons c s)
  then show ?case by (subst rsearch.simps) (simp add: rating_re_def seqs_def)
qed

lemma js_match_rating:
  "(js_match False rating_re t = None) =
   (rmatch False rating_re \<lparr>pos = 0, rest = t, cap = None\<rparr> = [])"
  unfolding js_match_def
  by (subst rsearch.simps) (simp add: rsearch_rating_later split: list.splits)

lemma rating_re_unfold:
  "rating_re = Seq Bol (Seq (Chars False [CDigit])
     (Seq (Rep 0 (Some 1) (Group (Seq (Seq (Chars False [CLit CHR ''.'']) Empty)
                                       (Seq (Chars False [CDigit]) Empty))))
          (Seq Eol Empty)))"
  by (simp add: rating_re_def seqs_def digit_def opt_def lit_def)

lemma rating_re_0: "rmatch False rating_re \<lparr>pos = 0, rest = [], cap = None\<rparr> = []"
  unfolding rating_re_unfold by simp

lemma rating_re_1: "(rmatch False rating_re \<lparr>pos = 0, rest = [a], cap = None\<rparr> = []) = (\<not> is_digit a)"
  unfolding rating_re_unfold by simp

lemma rating_re_2: "rmatch False rating_re \<lparr>pos = 0, rest = [a, p], cap = None\<rparr> = []"
  unfolding rating_re_unfold by simp

lemma rating_re_3: "(rmatch False rating_re \<lparr>pos = 0, rest = [a, p, b], cap = None\<rparr> = []) =
   (\<not> (is_digit a \<and> p = CHR ''.'' \<and> is_digit b))"
  unfolding rating_re_unfold by auto

lemma rating_re_4: "rmatch False rating_re \<lparr>pos = 0, rest = a # p # b # c # cs, cap = None\<rparr> = []"
  unfolding rating_re_unfold by simp

lemma rating_re_shape: "(js_match False rating_re t = None) = (\<not> rating_shape t)"
proof -
  consider "t = []" | a where "t = [a]" | a p where "t = [a, p]" | a p b where "t = [a, p, b]"
    | a p b c cs where "t = a # p # b # c # cs"
    by (cases t; cases "tl t"; cases "tl (tl t)"; cases "tl (tl (tl t))") auto
  then show ?thesis
  proof cases
    case 1
    then show ?thesis by (simp add: js_match_rating rating_re_0 rating_shape_def)
  next
    case 2
    then show ?thesis by (simp add: js_match_rating rating_re_1 rating_shape_def)
  next
    case 3
    then show ?thesis by (simp add: js_match_rating rating_re_2 rating_shape_def)
  next
    case 4
    then show ?thesis by (simp add: js_match_rating rating_re_3 rating_shape_def)
  next
    case 5
    then show ?thesis by (simp add: js_match_rating rating_re_4 rating_shape_def)
  qed
qed

lemma rating_strategy_shape: "rating_strategy doc sel = Some v \<Longrightarrow> rating_shape v"
proof -
  assume a: "rating_strategy doc sel = Some v"
  then obtain el where "querySelector doc sel = Some el"
    by (auto simp: rating_strategy_def split: option.splits)
  then have "js_match False rating_re v \<noteq> None"
    using a by (simp add: rating_strategy_def Let_def split: if_splits)
  then show ?thesis by (simp add: rating_re_shape)
qed

lemma rating_span_ok_shape: "rating_span_ok sp \<Longrightarrow> rating_shape (trim (textContent sp))"
proof -
  assume "rating_span_ok sp"
  then have "js_match False rating_re (trim (textContent sp)) \<noteq> None"
    unfolding rating_span_ok_def Let_def by blast
  then show ?thesis by (simp add: rating_re_shape)
qed

lemma resolve_rating_shape: "resolve_rating doc = ''N/A'' \<or> rating_shape (resolve_rating doc)"
proof (cases "for_first (rating_strategy doc) ratingSelectors")
  case None
  note n = None
  show ?thesis
  proof (cases "find rating_span_ok (querySelectorAll doc ''span'')")
    case None
    then show ?thesis using n by (simp add: resolve_rating_eq or_NA_def)
  next
    case (Some sp)
    then have "rating_span_ok sp" by (auto simp: find_Some_iff)
    then have "rating_shape (trim (textContent sp))" by (rule rating_span_ok_shape)
    then show ?thesis using Some n by (simp add: resolve_rating_eq or_NA_def)
  qed
next
  case (Some v)
  from for_first_prop[OF Some] obtain sel where "rating_strategy doc sel = Some v" by blast
  then have r: "rating_shape v" by (rule rating_strategy_shape)
  have "\<not> rating_shape ''N/A''" by (simp add: rating_shape_def is_digit_def)
  then have "v \<noteq> ''N/A''" using r by blast
  then show ?thesis using Some r by (simp add: resolve_rating_eq or_NA_def)
qed


text \<open>The span scan (method 2) refuses the number that a rating container passes.\<close>

lemma span_scan_refuses_above_five: "resolve_rating above_five_span_page = ''N/A''"
  by code_simp

text \<open>
  C4, at the input on which the code departs from it: the text \<open>9.9\<close> of the rating
  container \<open>span.ceJTW\<close> matches \<open>/^\d(\.\d)?$/\<close> and is taken as the rating; method 1 has
  no bound of five.
\<close>

theorem rating_above_five_accepted:
  "resolve_rating above_five_page = ''9.9'' \<and>
   extractBusinessDetails above_five_page =
     Inr [(''address'', ''N/A''), (''phone'', ''N/A''), (''website'', ''N/A''),
          (''rating'', ''9.9''), (''reviews'', ''N/A''), (''hours'', ''N/A''),
          (''email'', ''N/A''), (''category'', ''N/A'')]"
  by code_simp

section \<open>The shape of a detail record\<close>

lemma keys_assign: "fst ` set (assign k v d) = insert k (fst ` set d)"
  by (simp add: assign_def dom_update)

lemma keys_assign_if:
  "fst ` set (assign_if k v d) = (if v = None then fst ` set d else insert k (fst ` set d))"
  by (cases v) (simp_all add: assign_if_def keys_assign)

lemma distinct_assign: "distinct (map fst d) \<Longrightarrow> distinct (map fst (assign k v d))"
  by (simp add: assign_def distinct_update)

lemma distinct_assign_if: "distinct (map fst d) \<Longrightarrow> distinct (map fst (assign_if k v d))"
  by (cases v) (simp_all add: assign_if_def distinct_assign)

lemma map_of_assign: "map_of (assign k v d) = (map_of d)(k \<mapsto> v)"
  by (simp add: assign_def update_conv')

lemma map_of_assign_if:
  "map_of (assign_if k v d) = (case v of Some x \<Rightarrow> (map_of d)(k \<mapsto> x) | None \<Rightarrow> map_of d)"
  by (cases v) (simp_all add: assign_if_def map_of_assign)

lemma keys_build_details:
  "fst ` set (build_details n a p w r rv h e c ats pr) =
     {''address'', ''phone'', ''website'', ''rating'', ''reviews'', ''hours'', ''email'', ''category''} \<union>
     (if n = None then {} else {''name''}) \<union> (if ats = [] then {} else {''attributes''}) \<union>
     (if pr = None then {} else {''priceRange''})"
  unfolding build_details_def keys_assign keys_assign_if by auto

lemma distinct_build_details: "distinct (map fst (build_details n a p w r rv h e c ats pr))"
  unfolding build_details_def
  by (intro distinct_assign distinct_assign_if) simp

text \<open>The value a record holds at each key.\<close>

lemma build_details_values:
  "map_of (build_details n a p w r rv h e c ats pr) ''name'' = n"
  "map_of (build_details n a p w r rv h e c ats pr) ''address'' = Some a"
  "map_of (build_details n a p w r rv h e c ats pr) ''phone'' = Some p"
  "map_of (build_details n a p w r rv h e c ats pr) ''website'' = Some w"
  "map_of (build_details n a p w r rv h e c ats pr) ''rating'' = Some r"
  "map_of (build_details n a p w r rv h e c ats pr) ''reviews'' = Some rv"
  "map_of (build_details n a p w r rv h e c ats pr) ''hours'' = Some h"
  "map_of (build_details n a p w r rv h e c ats pr) ''email'' = Some e"
  "map_of (build_details n a p w r rv h e c ats pr) ''category'' = Some c"
  "map_of (build_details n a p w r rv h e c ats pr) ''attributes'' =
     (if ats \<noteq> [] then Some (join '', '' ats) else None)"
  "map_of (build_details n a p w r rv h e c ats pr) ''priceRange'' = pr"
  by (simp_all add: build_details_def map_of_assign map_of_assign_if split: option.splits)

lemma extract_Inr:
  "extractBusinessDetails doc = Inr d \<Longrightarrow>
     \<exists>p w rv t. resolve_phone doc = Inr p \<and> resolve_website doc = Inr w \<and>
       resolve_reviews doc = Inr rv \<and> body_innerText doc = Some t \<and>
       d = build_details (resolve_name doc) (resolve_address doc) p w (resolve_rating doc) rv
             (resolve_hours doc) (resolve_email t) (resolve_category doc w t)
             (collect_attributes doc (resolve_name doc) (resolve_address doc) p w
                (resolve_category doc w t))
             (resolve_priceRange doc)"
  by (auto simp: extractBusinessDetails_def Let_def split: sum.splits option.splits)

lemma collect_attributes_iff:
  "collect_attributes doc n a p w c \<noteq> [] \<longleftrightarrow>
     (\<exists>sel \<in> set attributeSelectors. \<exists>el \<in> set (querySelectorAll doc sel).
        attribute_ok n a p w c (trim (textContent el)))"
  by (auto simp: collect_attributes_eq filter_empty_conv)

lemma resolve_name_iff:
  "resolve_name doc \<noteq> None \<longleftrightarrow> (\<exists>sel \<in> set nameSelectors. querySelectorAll doc sel \<noteq> [])"
proof -
  have "name_strategy doc sel \<noteq> None \<longleftrightarrow> querySelectorAll doc sel \<noteq> []" for sel
    by (simp add: name_strategy_def querySelector_def first_of_def split: list.splits)
  then show ?thesis unfolding resolve_name_eq for_first_Some_iff by blast
qed

lemma resolve_priceRange_iff:
  "resolve_priceRange doc \<noteq> None \<longleftrightarrow> (\<exists>sel \<in> set priceSelectors. querySelectorAll doc sel \<noteq> [])"
proof -
  have "price_strategy doc sel \<noteq> None \<longleftrightarrow> querySelectorAll doc sel \<noteq> []" for sel
    by (simp add: price_strategy_def querySelector_def first_of_def split: list.splits)
  then show ?thesis unfolding resolve_priceRange_eq for_first_Some_iff by blast
qed

text \<open>\<open>{ name, ...detailedInfo }\<close>: the keys and the name of the merged record.\<close>

lemma map_of_foldl_assign:
  "map_of (foldl (\<lambda>d (k, v). assign k v d) init xs) = map_of init ++ map_of (rev xs)"
proof (induction xs arbitrary: init)
  case Nil
  then show ?case by simp
next
  case (Cons x xs)
  obtain k v where x: "x = (k, v)" by (cases x)
  have "map_of (foldl (\<lambda>d (k, v). assign k v d) init (x # xs)) =
        map_of (assign k v init) ++ map_of (rev xs)"
    unfolding x by (simp add: Cons.IH)
  also have "\<dots> = (map_of init)(k \<mapsto> v) ++ map_of (rev xs)"
    by (simp only: map_of_assign)
  also have "\<dots> = map_of init ++ map_of (rev (x # xs))"
    unfolding x by (auto simp: map_add_def fun_eq_iff split: option.splits)
  finally show ?case .
qed

lemma keys_foldl_assign:
  "fst ` set (foldl (\<lambda>d (k, v). assign k v d) init xs) = fst ` set init \<union> fst ` set xs"
proof (induction xs arbitrary: init)
  case Nil
  then show ?case by simp
next
  case (Cons x xs)
  obtain k v where x: "x = (k, v)" by (cases x)
  show ?case by (simp add: x Cons.IH keys_assign)
qed

lemma map_of_rev_distinct: "distinct (map fst xs) \<Longrightarrow> map_of (rev xs) = map_of xs"
  by (rule map_of_inject_set[THEN iffD2]) (simp_all add: rev_map[symmetric])

lemma merge_info_name:
  "distinct (map fst d) \<Longrightarrow>
   map_of (merge_info nm d) ''name'' = Some (case map_of d ''name'' of Some n \<Rightarrow> n | None \<Rightarrow> nm)"
  by (simp add: merge_info_def map_of_foldl_assign map_of_rev_distinct map_add_def
           split: option.splits)

lemma merge_info_keys: "fst ` set (merge_info nm d) = insert ''name'' (fst ` set d)"
  by (simp add: merge_info_def keys_foldl_assign)

lemma details_keys:
  "extractBusinessDetails doc = Inr d \<Longrightarrow>
     distinct (map fst d) \<and>
     {''address'', ''phone'', ''website'', ''rating'', ''reviews'', ''hours'', ''email'', ''category''}
       \<subseteq> fst ` set d \<and>
     fst ` set d \<subseteq> set csv_fields \<and>
     (''name'' \<in> fst ` set d \<longleftrightarrow> (\<exists>sel \<in> set nameSelectors. querySelectorAll doc sel \<noteq> [])) \<and>
     (''priceRange'' \<in> fst ` set d \<longleftrightarrow> (\<exists>sel \<in> set priceSelectors. querySelectorAll doc sel \<noteq> [])) \<and>
     (''attributes'' \<in> fst ` set d \<longleftrightarrow>
        (\<exists>sel \<in> set attributeSelectors. \<exists>el \<in> set (querySelectorAll doc sel).
           attribute_ok (map_of d ''name'') (cell d ''address'') (cell d ''phone'')
             (cell d ''website'') (cell d ''category'') (trim (textContent el)))) \<and>
     fst ` set (merge_info nm d) = insert ''name'' (fst ` set d) \<and>
     map_of (merge_info nm d) ''name'' =
       Some (case map_of d ''name'' of Some extracted \<Rightarrow> extracted | None \<Rightarrow> nm)"
proof -
  assume e: "extractBusinessDetails doc = Inr d"
  from extract_Inr[OF e] obtain p w rv t where
    d: "d = build_details (resolve_name doc) (resolve_address doc) p w (resolve_rating doc) rv
             (resolve_hours doc) (resolve_email t) (resolve_category doc w t)
             (collect_attributes doc (resolve_name doc) (resolve_address doc) p w
                (resolve_category doc w t))
             (resolve_priceRange doc)"
    by blast
  have k: "fst ` set d =
     {''address'', ''phone'', ''website'', ''rating'', ''reviews'', ''hours'', ''email'', ''category''} \<union>
     (if resolve_name doc = None then {} else {''name''}) \<union>
     (if collect_attributes doc (resolve_name doc) (resolve_address doc) p w
                (resolve_category doc w t) = [] then {} else {''attributes''}) \<union>
     (if resolve_priceRange doc = None then {} else {''priceRange''})"
    unfolding d by (rule keys_build_details)
  have v: "map_of d ''name'' = resolve_name doc" "cell d ''address'' = resolve_address doc"
    "cell d ''phone'' = p" "cell d ''website'' = w" "cell d ''category'' = resolve_category doc w t"
    unfolding d cell_def by (simp_all add: build_details_values)
  have 1: "distinct (map fst d)" unfolding d by (rule distinct_build_details)
  have 2: "{''address'', ''phone'', ''website'', ''rating'', ''reviews'', ''hours'', ''email'', ''category''}
       \<subseteq> fst ` set d" unfolding k by blast
  have 3: "fst ` set d \<subseteq> set csv_fields" unfolding k by (simp add: csv_fields_def)
  have n: "''name'' \<in> fst ` set d \<longleftrightarrow> resolve_name doc \<noteq> None"
    unfolding k by auto
  have pr: "''priceRange'' \<in> fst ` set d \<longleftrightarrow> resolve_priceRange doc \<noteq> None"
    unfolding k by auto
  have at: "''attributes'' \<in> fst ` set d \<longleftrightarrow>
              collect_attributes doc (resolve_name doc) (resolve_address doc) p w
                (resolve_category doc w t) \<noteq> []"
    unfolding k by auto
  have 4: "''name'' \<in> fst ` set d \<longleftrightarrow> (\<exists>sel \<in> set nameSelectors. querySelectorAll doc sel \<noteq> [])"
    unfolding n by (rule resolve_name_iff)
  have 5: "''priceRange'' \<in> fst ` set d \<longleftrightarrow> (\<exists>sel \<in> set priceSelectors. querySelectorAll doc sel \<noteq> [])"
    unfolding pr by (rule resolve_priceRange_iff)
  have 6: "''attributes'' \<in> fst ` set d \<longleftrightarrow>
        (\<exists>sel \<in> set attributeSelectors. \<exists>el \<in> set (querySelectorAll doc sel).
           attribute_ok (map_of d ''name'') (cell d ''address'') (cell d ''phone'')
             (cell d ''website'') (cell d ''category'') (trim (textContent el)))"
    unfolding at v by (rule collect_attributes_iff)
  have 7: "fst ` set (merge_info nm d) = insert ''name'' (fst ` set d)"
    by (rule merge_info_keys)
  have 8: "map_of (merge_info nm d) ''name'' =
       Some (case map_of d ''name'' of Some extracted \<Rightarrow> extracted | None \<Rightarrow> nm)"
    using 1 by (rule merge_info_name)
  from 1 2 3 4 5 6 7 8 show ?thesis by (intro conjI)
qed

lemma resolve_phone_bare:
  "\<forall>sel \<in> set phoneSelectors. querySelectorAll doc sel = [] \<Longrightarrow> resolve_phone doc = Inr ''N/A''"
  by (simp add: resolve_phone_eq or_NA_def for_first_e_None phone_strategy_def querySelector_None)

lemma resolve_website_bare:
  "\<forall>sel \<in> set websiteSelectors. querySelectorAll doc sel = [] \<Longrightarrow> resolve_website doc = Inr ''N/A''"
  by (simp add: resolve_website_eq or_NA_def for_first_e_None website_strategy_def querySelector_None)

lemma resolve_address_bare:
  "\<forall>sel \<in> set addressSelectors. querySelectorAll doc sel = [] \<Longrightarrow> resolve_address doc = ''N/A''"
  by (simp add: resolve_address_eq or_NA_def for_first_None address_strategy_def querySelector_None)

lemma hours_tables_bare:
  "\<forall>sel \<in> set sels. querySelectorAll doc sel = [] \<Longrightarrow> fst (hours_tables doc sels acc fh) = None"
  by (induction sels arbitrary: acc fh) (simp_all add: querySelector_None split_beta)

lemma resolve_hours_bare:
  "\<forall>sel \<in> set (hoursTableSelectors @ hoursSelectors). querySelectorAll doc sel = [] \<Longrightarrow>
   resolve_hours doc = ''N/A''"
  by (simp add: resolve_hours_eq hours_tables_bare or_NA_def for_first_None hours_section_def
        querySelector_None)

lemma category_links_bare:
  "\<forall>sel \<in> set sels. querySelectorAll doc sel = [] \<Longrightarrow>
   fst (category_links doc w sels ''N/A'') = ''N/A''"
  by (induction sels) (simp_all add: category_forEach_def split_beta Let_def)

lemma collect_attributes_bare:
  "\<forall>sel \<in> set attributeSelectors. querySelectorAll doc sel = [] \<Longrightarrow>
   collect_attributes doc n a p w c = []"
  by (simp add: collect_attributes_eq)

lemma resolve_priceRange_bare:
  "\<forall>sel \<in> set priceSelectors. querySelectorAll doc sel = [] \<Longrightarrow> resolve_priceRange doc = None"
  by (simp add: resolve_priceRange_eq for_first_None price_strategy_def querySelector_None)

text \<open>A page that shows a name resolves to it.\<close>

lemma shows_name_resolve:
  assumes "shows_name doc n"
  shows "resolve_name doc = Some n"
proof -
  have "resolve_name doc \<noteq> None"
    using assms unfolding resolve_name_iff shows_name_def by blast
  then obtain v where v: "for_first (name_strategy doc) nameSelectors = Some v"
    unfolding resolve_name_eq by blast
  from for_first_prop[OF v] obtain sel where s: "sel \<in> set nameSelectors"
    and y: "name_strategy doc sel = Some v" by blast
  from y obtain el where q: "querySelector doc sel = Some el" and t: "v = trim (textContent el)"
    by (auto simp: name_strategy_def split: option.splits)
  have "el \<in> set (querySelectorAll doc sel)" using q by (rule querySelector_mem)
  then have "trim (textContent el) = n" using assms s unfolding shows_name_def by blast
  then show ?thesis using v t by (simp add: resolve_name_eq)
qed

text \<open>A page that shows a rating resolves to it.\<close>

lemma rating_shape_facts: "rating_shape r \<Longrightarrow> r \<noteq> [] \<and> length r \<le> 3 \<and> r \<noteq> ''N/A''"
  by (auto simp: rating_shape_def is_digit_def split: list.splits)

lemma trim_Nil: "trim [] = []"
  by (simp add: trim_def)

lemma shows_rating_resolve:
  assumes "shows_rating doc r"
  shows "resolve_rating doc = r"
proof -
  from assms have shape: "rating_shape r" and five: "parseFloat_tenths r \<le> 50"
    and ex: "(\<exists>sel \<in> set ratingSelectors.
               case querySelector doc sel of Some el \<Rightarrow> trim (textContent el) = r | None \<Rightarrow> False) \<or>
             (\<exists>el \<in> set (querySelectorAll doc ''span''). trim (textContent el) = r)"
    and uniq: "\<forall>sel \<in> set (ratingSelectors @ [''span'']). \<forall>el \<in> set (querySelectorAll doc sel).
                 rating_shape (trim (textContent el)) \<longrightarrow> trim (textContent el) = r"
    unfolding shows_rating_def by blast+
  note facts = rating_shape_facts[OF shape]
  have m: "js_match False rating_re r \<noteq> None" using shape by (simp add: rating_re_shape)
  show ?thesis
  proof (cases "for_first (rating_strategy doc) ratingSelectors")
    case (Some v)
    from for_first_prop[OF Some] obtain sel where s: "sel \<in> set ratingSelectors"
      and y: "rating_strategy doc sel = Some v" by blast
    from y obtain el where q: "querySelector doc sel = Some el"
      by (auto simp: rating_strategy_def split: option.splits)
    then have t: "v = trim (textContent el)"
      using y by (simp add: rating_strategy_def Let_def split: if_splits)
    have "el \<in> set (querySelectorAll doc sel)" using q by (rule querySelector_mem)
    moreover have "rating_shape v" using y by (rule rating_strategy_shape)
    ultimately have "v = r" using uniq s t by auto
    then show ?thesis using Some facts by (simp add: resolve_rating_eq or_NA_def)
  next
    case None
    have none: "rating_strategy doc sel = None" if "sel \<in> set ratingSelectors" for sel
      using None that for_first_Some_iff[of "rating_strategy doc" ratingSelectors] by auto
    have "\<not> (\<exists>sel \<in> set ratingSelectors.
               case querySelector doc sel of Some el \<Rightarrow> trim (textContent el) = r | None \<Rightarrow> False)"
    proof
      assume "\<exists>sel \<in> set ratingSelectors.
               case querySelector doc sel of Some el \<Rightarrow> trim (textContent el) = r | None \<Rightarrow> False"
      then obtain sel el where s: "sel \<in> set ratingSelectors"
        and q: "querySelector doc sel = Some el" and t: "trim (textContent el) = r"
        by (auto split: option.splits)
      have "textContent el \<noteq> []" using t facts trim_Nil by auto
      then have "rating_strategy doc sel = Some r"
        using q t m by (simp add: rating_strategy_def Let_def)
      then show False using none[OF s] by simp
    qed
    then obtain el where e: "el \<in> set (querySelectorAll doc ''span'')"
      and t: "trim (textContent el) = r" using ex by blast
    have "rating_span_ok el" using t facts m five by (simp add: rating_span_ok_def Let_def)
    then have "find rating_span_ok (querySelectorAll doc ''span'') \<noteq> None"
      using e by (auto simp: find_None_iff)
    then obtain sp where f: "find rating_span_ok (querySelectorAll doc ''span'') = Some sp"
      by blast
    then have "rating_span_ok sp" and "sp \<in> set (querySelectorAll doc ''span'')"
      by (auto simp: find_Some_iff)
    then have "trim (textContent sp) = r"
      using uniq rating_span_ok_shape[of sp] by auto
    then show ?thesis using None f by (simp add: resolve_rating_eq or_NA_def)
  qed
qed

text \<open>A page that shows nothing for the other fields resolves each of them to the sentinel.\<close>

lemma reviews_bare:
  assumes "\<forall>container \<in> set (querySelectorAll doc ''span.F7nice, div.F7nice, div.review-score'').
             js_match True reviews_before_re (textContent container) = None"
    and "body_innerText doc = Some t"
    and "js_match True reviews_before_re t = None" "js_match True reviews_after_re t = None"
  shows "resolve_reviews doc = Inr ''N/A''"
proof -
  have "for_first reviews_container
          (querySelectorAll doc ''span.F7nice, div.F7nice, div.review-score'') = None"
    using assms(1) by (intro for_first_None) (simp add: reviews_container_def truthy_capture_def)
  then show ?thesis
    using assms(2-4) by (simp add: resolve_reviews_eq or_NA_def truthy_capture_def)
qed

lemma only_name_and_rating:
  assumes "exposes_only_name_and_rating doc n r"
  shows "extractBusinessDetails doc =
           Inr [(''name'', n), (''address'', ''N/A''), (''phone'', ''N/A''), (''website'', ''N/A''),
                (''rating'', r), (''reviews'', ''N/A''), (''hours'', ''N/A''),
                (''email'', ''N/A''), (''category'', ''N/A'')]"
proof -
  from assms have nm: "shows_name doc n" and rt: "shows_rating doc r"
    and ne: "shows_nothing_else doc"
    unfolding exposes_only_name_and_rating_def by blast+
  from ne obtain t where t: "body_innerText doc = Some t"
    and m: "js_match True reviews_before_re t = None" "js_match True reviews_after_re t = None"
      "js_match False email_re t = None" "js_match True (labelled_re ''Category:'') t = None"
      "js_match True (labelled_re ''Type:'') t = None"
    and q: "\<forall>sel \<in> set (addressSelectors @ phoneSelectors @ websiteSelectors @ hoursTableSelectors @
                    hoursSelectors @ categorySelectors @ attributeSelectors @ priceSelectors).
         querySelectorAll doc sel = []"
    and rc: "\<forall>container \<in> set (querySelectorAll doc ''span.F7nice, div.F7nice, div.review-score'').
             js_match True reviews_before_re (textContent container) = None"
    unfolding shows_nothing_else_def by (auto split: option.splits)
  have n: "resolve_name doc = Some n" using nm by (rule shows_name_resolve)
  have r: "resolve_rating doc = r" using rt by (rule shows_rating_resolve)
  have a: "resolve_address doc = ''N/A''" using q by (intro resolve_address_bare) auto
  have p: "resolve_phone doc = Inr ''N/A''" using q by (intro resolve_phone_bare) auto
  have w: "resolve_website doc = Inr ''N/A''" using q by (intro resolve_website_bare) auto
  have h: "resolve_hours doc = ''N/A''" using q by (intro resolve_hours_bare) auto
  have rv: "resolve_reviews doc = Inr ''N/A''" using rc t m(1,2) by (rule reviews_bare)
  have e: "resolve_email t = ''N/A''" by (simp add: resolve_email_def m)
  have c: "resolve_category doc ''N/A'' t = ''N/A''"
  proof -
    have "fst (category_links doc ''N/A'' categorySelectors ''N/A'') = ''N/A''"
      using q by (intro category_links_bare) auto
    then show ?thesis by (simp add: resolve_category_def m truthy_capture_def)
  qed
  have at: "collect_attributes doc x ''N/A'' ''N/A'' ''N/A'' ''N/A'' = []" for x
    using q by (intro collect_attributes_bare) auto
  have pr: "resolve_priceRange doc = None" using q by (intro resolve_priceRange_bare) auto
  show ?thesis
    by (simp add: extractBusinessDetails_def n r a p w h rv t e c at pr build_details_def
          assign_def assign_if_def Let_def)
qed

text \<open>
  C1, as the code has it. A record that \<open>extractBusinessDetails\<close> returns has no key
  twice and no key outside the eleven; the eight keys address, phone, website, rating,
  reviews, hours, email and category are always present, each with a string. The other
  three are assigned only when found: \<open>name\<close> is present exactly when a name selector
  matches, \<open>priceRange\<close> exactly when a price selector matches, and \<open>attributes\<close> exactly
  when an element that an attribute selector matches passes the filter, that is, its trimmed
  text is not empty, is shorter than 50 and differs from the record's name, address, phone,
  website and category. In the record the orchestrator pushes, \<open>{ name, ...detailedInfo }\<close>,
  the key \<open>name\<close> is always present: it holds the extracted name when there is one and
  the listing's name otherwise.

  A page that exposes only the name \<open>n\<close> and the rating \<open>r\<close> yields the record with
  \<open>name\<close> equal to \<open>n\<close>, \<open>rating\<close> equal to \<open>r\<close>, the sentinel at the six other keys
  that are always assigned, and neither \<open>priceRange\<close> nor \<open>attributes\<close>.
\<close>

theorem details_fields:
  "(extractBusinessDetails doc = Inr d \<longrightarrow>
      distinct (map fst d) \<and>
      {''address'', ''phone'', ''website'', ''rating'', ''reviews'', ''hours'', ''email'', ''category''}
        \<subseteq> fst ` set d \<and>
      fst ` set d \<subseteq> set csv_fields \<and>
      (''name'' \<in> fst ` set d \<longleftrightarrow> (\<exists>sel \<in> set nameSelectors. querySelectorAll doc sel \<noteq> [])) \<and>
      (''priceRange'' \<in> fst ` set d \<longleftrightarrow>
         (\<exists>sel \<in> set priceSelectors. querySelectorAll doc sel \<noteq> [])) \<and>
      (''attributes'' \<in> fst ` set d \<longleftrightarrow>
         (\<exists>sel \<in> set attributeSelectors. \<exists>el \<in> set (querySelectorAll doc sel).
            attribute_ok (map_of d ''name'') (cell d ''address'') (cell d ''phone'')
              (cell d ''website'') (cell d ''category'') (trim (textContent el)))) \<and>
      fst ` set (merge_info nm d) = insert ''name'' (fst ` set d) \<and>
      map_of (merge_info nm d) ''name'' =
        Some (case map_of d ''name'' of Some extracted \<Rightarrow> extracted | None \<Rightarrow> nm)) \<and>
   (exposes_only_name_and_rating doc n r \<longrightarrow>
      extractBusinessDetails doc =
        Inr [(''name'', n), (''address'', ''N/A''), (''phone'', ''N/A''), (''website'', ''N/A''),
             (''rating'', r), (''reviews'', ''N/A''), (''hours'', ''N/A''),
             (''email'', ''N/A''), (''category'', ''N/A'')])"
proof (rule conjI)
  show "extractBusinessDetails doc = Inr d \<longrightarrow>
      distinct (map fst d) \<and>
      {''address'', ''phone'', ''website'', ''rating'', ''reviews'', ''hours'', ''email'', ''category''}
        \<subseteq> fst ` set d \<and>
      fst ` set d \<subseteq> set csv_fields \<and>
      (''name'' \<in> fst ` set d \<longleftrightarrow> (\<exists>sel \<in> set nameSelectors. querySelectorAll doc sel \<noteq> [])) \<and>
      (''priceRange'' \<in> fst ` set d \<longleftrightarrow>
         (\<exists>sel \<in> set priceSelectors. querySelectorAll doc sel \<noteq> [])) \<and>
      (''attributes'' \<in> fst ` set d \<longleftrightarrow>
         (\<exists>sel \<in> set attributeSelectors. \<exists>el \<in> set (querySelectorAll doc sel).
            attribute_ok (map_of d ''name'') (cell d ''address'') (cell d ''phone'')
              (cell d ''website'') (cell d ''category'') (trim (textContent el)))) \<and>
      fst ` set (merge_info nm d) = insert ''name'' (fst ` set d) \<and>
      map_of (merge_info nm d) ''name'' =
        Some (case map_of d ''name'' of Some extracted \<Rightarrow> extracted | None \<Rightarrow> nm)"
    by (rule impI) (rule details_keys)
  show "exposes_only_name_and_rating doc n r \<longrightarrow>
      extractBusinessDetails doc =
        Inr [(''name'', n), (''address'', ''N/A''), (''phone'', ''N/A''), (''website'', ''N/A''),
             (''rating'', r), (''reviews'', ''N/A''), (''hours'', ''N/A''),
             (''email'', ''N/A''), (''category'', ''N/A'')]"
    by (rule impI) (rule only_name_and_rating)
qed

lemma sample_exposes:
  "exposes_only_name_and_rating (detail_page ''Rendered name'' ''4.5'') ''Rendered name'' ''4.5''"
  "exposes_only_name_and_rating rated_page ''Cafe Uno'' ''4.5''"
  by code_simp+

lemma two_attributes_detail:
  "extractBusinessDetails two_attributes_page =
     Inr [(''address'', ''N/A''), (''phone'', ''N/A''), (''website'', ''N/A''),
          (''rating'', ''N/A''), (''reviews'', ''N/A''), (''hours'', ''N/A''),
          (''email'', ''N/A''), (''category'', ''N/A''), (''attributes'', ''Wi-Fi, Patio'')]"
  by code_simp

theorem details_fields_witness:
  "exposes_only_name_and_rating (detail_page ''Rendered name'' ''4.5'') ''Rendered name'' ''4.5'' \<and>
   extractBusinessDetails (detail_page ''Rendered name'' ''4.5'') = Inr sample_record \<and>
   distinct (map fst sample_record) \<and>
   {''address'', ''phone'', ''website'', ''rating'', ''reviews'', ''hours'', ''email'', ''category''}
     \<subseteq> fst ` set sample_record \<and>
   fst ` set sample_record \<subseteq> set csv_fields \<and>
   ''name'' \<in> fst ` set sample_record \<and>
   ''priceRange'' \<notin> fst ` set sample_record \<and>
   ''attributes'' \<notin> fst ` set sample_record \<and>
   map_of (merge_info ''Alpha'' sample_record) ''name'' = Some ''Rendered name'' \<and>
   exposes_only_name_and_rating rated_page ''Cafe Uno'' ''4.5'' \<and>
   extractBusinessDetails rated_page =
     Inr [(''name'', ''Cafe Uno''), (''address'', ''N/A''), (''phone'', ''N/A''),
          (''website'', ''N/A''), (''rating'', ''4.5''), (''reviews'', ''N/A''),
          (''hours'', ''N/A''), (''email'', ''N/A''), (''category'', ''N/A'')] \<and>
   (\<exists>sel \<in> set attributeSelectors. \<exists>el \<in> set (querySelectorAll two_attributes_page sel).
      attribute_ok None ''N/A'' ''N/A'' ''N/A'' ''N/A'' (trim (textContent el))) \<and>
   map_of (merge_info ''Alpha''
      [(''address'', ''N/A''), (''phone'', ''N/A''), (''website'', ''N/A''),
       (''rating'', ''N/A''), (''reviews'', ''N/A''), (''hours'', ''N/A''),
       (''email'', ''N/A''), (''category'', ''N/A''), (''attributes'', ''Wi-Fi, Patio'')])
     ''name'' = Some ''Alpha''"
proof -
  let ?d = "[(''address'', ''N/A''), (''phone'', ''N/A''), (''website'', ''N/A''),
       (''rating'', ''N/A''), (''reviews'', ''N/A''), (''hours'', ''N/A''),
       (''email'', ''N/A''), (''category'', ''N/A''), (''attributes'', ''Wi-Fi, Patio'')]"
  note t1 = details_fields[where doc = "detail_page ''Rendered name'' ''4.5''"
      and d = sample_record and nm = "''Alpha''" and n = "''Rendered name''" and r = "''4.5''"]
  note t2 = details_fields[where doc = rated_page and n = "''Cafe Uno''" and r = "''4.5''"]
  note t3 = details_fields[where doc = two_attributes_page and d = ?d and nm = "''Alpha''"]
  have k: "''name'' \<in> fst ` set sample_record" "''priceRange'' \<notin> fst ` set sample_record"
    "''attributes'' \<notin> fst ` set sample_record"
    "map_of sample_record ''name'' = Some ''Rendered name''"
    by (simp_all add: sample_record_def)
  have 1: "extractBusinessDetails (detail_page ''Rendered name'' ''4.5'') = Inr sample_record"
    using t1 sample_exposes(1) by (simp add: sample_record_def)
  have 2: "distinct (map fst sample_record) \<and>
     {''address'', ''phone'', ''website'', ''rating'', ''reviews'', ''hours'', ''email'', ''category''}
       \<subseteq> fst ` set sample_record \<and>
     fst ` set sample_record \<subseteq> set csv_fields \<and>
     map_of (merge_info ''Alpha'' sample_record) ''name'' = Some ''Rendered name''"
    using t1 1 k(4) by simp
  have 3: "extractBusinessDetails rated_page =
     Inr [(''name'', ''Cafe Uno''), (''address'', ''N/A''), (''phone'', ''N/A''),
          (''website'', ''N/A''), (''rating'', ''4.5''), (''reviews'', ''N/A''),
          (''hours'', ''N/A''), (''email'', ''N/A''), (''category'', ''N/A'')]"
    using t2 sample_exposes(2) by blast
  have a: "''attributes'' \<in> fst ` set ?d" "map_of ?d ''name'' = None"
    "cell ?d ''address'' = ''N/A''" "cell ?d ''phone'' = ''N/A''" "cell ?d ''website'' = ''N/A''"
    "cell ?d ''category'' = ''N/A''"
    by (simp_all add: cell_def)
  have 4: "(\<exists>sel \<in> set attributeSelectors. \<exists>el \<in> set (querySelectorAll two_attributes_page sel).
      attribute_ok None ''N/A'' ''N/A'' ''N/A'' ''N/A'' (trim (textContent el))) \<and>
     map_of (merge_info ''Alpha'' ?d) ''name'' = Some ''Alpha''"
    using t3 two_attributes_detail a by simp
  show ?thesis using sample_exposes k 1 2 3 4 by blast
qed

text \<open>
  C1 as stated fails: on a page that exposes a name and a rating the record has nine keys;
  \<open>attributes\<close> and \<open>priceRange\<close> are absent, not \<open>N/A\<close>.
\<close>

theorem details_without_attributes_and_price:
  "extractBusinessDetails (detail_page ''Rendered name'' ''4.5'') =
     Inr [(''name'', ''Rendered name''), (''address'', ''N/A''), (''phone'', ''N/A''),
          (''website'', ''N/A''), (''rating'', ''4.5''), (''reviews'', ''N/A''),
          (''hours'', ''N/A''), (''email'', ''N/A''), (''category'', ''N/A'')]"
  by code_simp

section \<open>Exceptions of the field code\<close>

lemma resolve_reviews_returns:
  "body_innerText doc = Some t \<Longrightarrow> \<exists>rv. resolve_reviews doc = Inr rv"
  by (simp add: resolve_reviews_def Let_def)

lemma extract_returns_iff:
  "(\<exists>d. extractBusinessDetails doc = Inr d) \<longleftrightarrow>
   (\<exists>p. resolve_phone doc = Inr p) \<and> (\<exists>w. resolve_website doc = Inr w) \<and>
   (\<exists>rv. resolve_reviews doc = Inr rv) \<and> body_innerText doc \<noteq> None"
proof
  assume "\<exists>d. extractBusinessDetails doc = Inr d"
  then obtain d where "extractBusinessDetails doc = Inr d" by blast
  from extract_Inr[OF this] show "(\<exists>p. resolve_phone doc = Inr p) \<and>
     (\<exists>w. resolve_website doc = Inr w) \<and> (\<exists>rv. resolve_reviews doc = Inr rv) \<and>
     body_innerText doc \<noteq> None"
    by auto
next
  assume a: "(\<exists>p. resolve_phone doc = Inr p) \<and> (\<exists>w. resolve_website doc = Inr w) \<and>
     (\<exists>rv. resolve_reviews doc = Inr rv) \<and> body_innerText doc \<noteq> None"
  then obtain p w rv t where p: "resolve_phone doc = Inr p" and w: "resolve_website doc = Inr w"
    and rv: "resolve_reviews doc = Inr rv" and t: "body_innerText doc = Some t" by auto
  show "\<exists>d. extractBusinessDetails doc = Inr d"
    by (simp add: extractBusinessDetails_def p w t rv Let_def)
qed

text \<open>Which exception leaves the extraction: that of the first field, in order, that throws.\<close>

lemma extract_propagates:
  "resolve_phone doc = Inl e \<Longrightarrow> extractBusinessDetails doc = Inl e"
  "resolve_phone doc = Inr p \<Longrightarrow> resolve_website doc = Inl e \<Longrightarrow>
     extractBusinessDetails doc = Inl e"
  "resolve_phone doc = Inr p \<Longrightarrow> resolve_website doc = Inr w \<Longrightarrow> resolve_reviews doc = Inl e \<Longrightarrow>
     extractBusinessDetails doc = Inl e"
  "resolve_phone doc = Inr p \<Longrightarrow> resolve_website doc = Inr w \<Longrightarrow> resolve_reviews doc = Inr rv \<Longrightarrow>
     body_innerText doc = None \<Longrightarrow> extractBusinessDetails doc = Inl TypeError"
  by (simp_all add: extractBusinessDetails_def Let_def)

text \<open>The strings of a record that is returned are those the fields resolve to.\<close>

lemma extract_values:
  assumes "extractBusinessDetails doc = Inr d"
  shows "map_of d ''name'' = resolve_name doc \<and>
     cell d ''address'' = resolve_address doc \<and>
     resolve_phone doc = Inr (cell d ''phone'') \<and>
     resolve_website doc = Inr (cell d ''website'') \<and>
     cell d ''rating'' = resolve_rating doc \<and>
     resolve_reviews doc = Inr (cell d ''reviews'') \<and>
     cell d ''hours'' = resolve_hours doc \<and>
     (\<exists>pageText. body_innerText doc = Some pageText \<and>
        cell d ''email'' = resolve_email pageText \<and>
        cell d ''category'' = resolve_category doc (cell d ''website'') pageText) \<and>
     map_of d ''priceRange'' = resolve_priceRange doc"
proof -
  from extract_Inr[OF assms] obtain p w rv t where
    r: "resolve_phone doc = Inr p" "resolve_website doc = Inr w" "resolve_reviews doc = Inr rv"
       "body_innerText doc = Some t"
    and d: "d = build_details (resolve_name doc) (resolve_address doc) p w (resolve_rating doc) rv
             (resolve_hours doc) (resolve_email t) (resolve_category doc w t)
             (collect_attributes doc (resolve_name doc) (resolve_address doc) p w
                (resolve_category doc w t))
             (resolve_priceRange doc)"
    by blast
  show ?thesis
    unfolding d cell_def by (simp add: build_details_values r)
qed

lemma phone_error: "resolve_phone doc = Inl e \<Longrightarrow> e = TypeError"
proof -
  assume "resolve_phone doc = Inl e"
  then have "for_first_e (phone_strategy doc) phoneSelectors = Inl e"
    by (cases "for_first_e (phone_strategy doc) phoneSelectors") (simp_all add: resolve_phone_eq)
  from for_first_e_error[OF this] obtain sel where "phone_strategy doc sel = Inl e" by blast
  then show ?thesis
    by (auto simp: phone_strategy_def split: option.splits href.splits if_splits)
qed

lemma website_error: "resolve_website doc = Inl e \<Longrightarrow> e = TypeError"
proof -
  assume "resolve_website doc = Inl e"
  then have "for_first_e (website_strategy doc) websiteSelectors = Inl e"
    by (cases "for_first_e (website_strategy doc) websiteSelectors")
       (simp_all add: resolve_website_eq)
  from for_first_e_error[OF this] obtain sel where "website_strategy doc sel = Inl e" by blast
  then show ?thesis
    by (auto simp: website_strategy_def split: option.splits href.splits if_splits)
qed

lemma reviews_error: "resolve_reviews doc = Inl e \<Longrightarrow> e = TypeError \<and> body_innerText doc = None"
  by (auto simp: resolve_reviews_def Let_def split: if_splits option.splits)

lemma extract_error: "extractBusinessDetails doc = Inl e \<Longrightarrow> e = TypeError"
  by (auto simp: extractBusinessDetails_def Let_def split: sum.splits option.splits
           dest: phone_error website_error reviews_error)

lemma failed_extraction_skipped:
  "extractBusinessDetails (page_dom (vs i)) = Inl e \<Longrightarrow>
   detailedData (process_from i (l # ls) vs ss) = detailedData (process_from (Suc i) ls vs ss)"
  by (simp add: process_from_data process_listing_data listing_record_def)

text \<open>
  C5, as the code has it. Nothing in \<open>extractBusinessDetails\<close> catches, so there is no
  fallback of a single field: the extraction returns a record exactly when the code of no
  field throws, and the record then holds, at each key, the string that field resolves to.
  When the code of a field throws, the exception of the first field that does, in the order
  of the source, leaves \<open>extractBusinessDetails\<close>, and no record is returned, whatever
  the fields before it resolved to. The orchestrator's catch then skips the listing, the
  records collected so far stay, and the loop goes on with the next listing.
\<close>

theorem field_exception_ends_extraction:
  "((\<exists>d. extractBusinessDetails doc = Inr d) \<longleftrightarrow>
      (\<exists>p. resolve_phone doc = Inr p) \<and> (\<exists>w. resolve_website doc = Inr w) \<and>
      (\<exists>rv. resolve_reviews doc = Inr rv) \<and> body_innerText doc \<noteq> None) \<and>
   (extractBusinessDetails doc = Inr d \<longrightarrow>
      map_of d ''name'' = resolve_name doc \<and>
      cell d ''address'' = resolve_address doc \<and>
      resolve_phone doc = Inr (cell d ''phone'') \<and>
      resolve_website doc = Inr (cell d ''website'') \<and>
      cell d ''rating'' = resolve_rating doc \<and>
      resolve_reviews doc = Inr (cell d ''reviews'') \<and>
      cell d ''hours'' = resolve_hours doc \<and>
      (\<exists>pageText. body_innerText doc = Some pageText \<and>
         cell d ''email'' = resolve_email pageText \<and>
         cell d ''category'' = resolve_category doc (cell d ''website'') pageText) \<and>
      map_of d ''priceRange'' = resolve_priceRange doc) \<and>
   (resolve_phone doc = Inl e \<longrightarrow> extractBusinessDetails doc = Inl e) \<and>
   (resolve_phone doc = Inr p \<and> resolve_website doc = Inl e \<longrightarrow>
      extractBusinessDetails doc = Inl e) \<and>
   (resolve_phone doc = Inr p \<and> resolve_website doc = Inr w \<and> resolve_reviews doc = Inl e \<longrightarrow>
      extractBusinessDetails doc = Inl e) \<and>
   (resolve_phone doc = Inr p \<and> resolve_website doc = Inr w \<and> resolve_reviews doc = Inr rv \<and>
    body_innerText doc = None \<longrightarrow>
      extractBusinessDetails doc = Inl TypeError) \<and>
   (extractBusinessDetails (page_dom v) = Inl e \<longrightarrow>
      detailedData (process_listing i l v ss) = detailedData ss) \<and>
   (extractBusinessDetails (page_dom (vs i)) = Inl e \<longrightarrow>
      detailedData (process_from i (l # ls) vs ss) =
        detailedData (process_from (Suc i) ls vs ss))"
proof (intro conjI impI)
  show "(\<exists>d. extractBusinessDetails doc = Inr d) \<longleftrightarrow>
      (\<exists>p. resolve_phone doc = Inr p) \<and> (\<exists>w. resolve_website doc = Inr w) \<and>
      (\<exists>rv. resolve_reviews doc = Inr rv) \<and> body_innerText doc \<noteq> None"
    by (rule extract_returns_iff)
next
  assume a: "extractBusinessDetails doc = Inr d"
  note x = extract_values[OF a]
  show "map_of d ''name'' = resolve_name doc" using x by (elim conjE)
  show "cell d ''address'' = resolve_address doc" using x by (elim conjE)
  show "resolve_phone doc = Inr (cell d ''phone'')" using x by (elim conjE)
  show "resolve_website doc = Inr (cell d ''website'')" using x by (elim conjE)
  show "cell d ''rating'' = resolve_rating doc" using x by (elim conjE)
  show "resolve_reviews doc = Inr (cell d ''reviews'')" using x by (elim conjE)
  show "cell d ''hours'' = resolve_hours doc" using x by (elim conjE)
  show "\<exists>pageText. body_innerText doc = Some pageText \<and>
         cell d ''email'' = resolve_email pageText \<and>
         cell d ''category'' = resolve_category doc (cell d ''website'') pageText"
    using x by (elim conjE)
  show "map_of d ''priceRange'' = resolve_priceRange doc" using x by (elim conjE)
next
  assume "resolve_phone doc = Inl e"
  then show "extractBusinessDetails doc = Inl e" by (rule extract_propagates(1))
next
  assume "resolve_phone doc = Inr p \<and> resolve_website doc = Inl e"
  then show "extractBusinessDetails doc = Inl e" by (auto intro: extract_propagates(2))
next
  assume "resolve_phone doc = Inr p \<and> resolve_website doc = Inr w \<and> resolve_reviews doc = Inl e"
  then show "extractBusinessDetails doc = Inl e" by (auto intro: extract_propagates(3))
next
  assume "resolve_phone doc = Inr p \<and> resolve_website doc = Inr w \<and> resolve_reviews doc = Inr rv \<and>
    body_innerText doc = None"
  then show "extractBusinessDetails doc = Inl TypeError" by (auto intro: extract_propagates(4))
next
  assume "extractBusinessDetails (page_dom v) = Inl e"
  then show "detailedData (process_listing i l v ss) = detailedData ss"
    by (simp add: process_listing_data listing_record_def)
next
  assume "extractBusinessDetails (page_dom (vs i)) = Inl e"
  then show "detailedData (process_from i (l # ls) vs ss) =
        detailedData (process_from (Suc i) ls vs ss)"
    by (rule failed_extraction_skipped)
qed

lemma svg_phone: "resolve_phone svg_phone_page = Inl TypeError"
  by code_simp

lemma svg_run:
  "detailedData (process_from (Suc 0)
      [\<lparr>name = ''Bravo'', url = ''https://www.google.com/maps/place/Bravo''\<rparr>]
      svg_visits started) = [sample_record]"
  by code_simp

lemma sample_fields:
  "resolve_phone (detail_page ''Rendered name'' ''4.5'') = Inr ''N/A''"
  "resolve_website (detail_page ''Rendered name'' ''4.5'') = Inr ''N/A''"
  "resolve_reviews (detail_page ''Rendered name'' ''4.5'') = Inr ''N/A''"
  "body_innerText (detail_page ''Rendered name'' ''4.5'') \<noteq> None"
  by code_simp+

theorem field_exception_ends_extraction_witness:
  "resolve_phone svg_phone_page = Inl TypeError \<and>
   extractBusinessDetails svg_phone_page = Inl TypeError \<and>
   detailedData (process_listing 0
      \<lparr>name = ''Alpha'', url = ''https://www.google.com/maps/place/Alpha''\<rparr>
      (svg_visits 0) started) = [] \<and>
   detailedData (process_from 0
      [\<lparr>name = ''Alpha'', url = ''https://www.google.com/maps/place/Alpha''\<rparr>,
       \<lparr>name = ''Bravo'', url = ''https://www.google.com/maps/place/Bravo''\<rparr>]
      svg_visits started) = [sample_record] \<and>
   resolve_phone (detail_page ''Rendered name'' ''4.5'') = Inr ''N/A'' \<and>
   resolve_website (detail_page ''Rendered name'' ''4.5'') = Inr ''N/A'' \<and>
   resolve_reviews (detail_page ''Rendered name'' ''4.5'') = Inr ''N/A'' \<and>
   body_innerText (detail_page ''Rendered name'' ''4.5'') \<noteq> None \<and>
   (\<exists>d. extractBusinessDetails (detail_page ''Rendered name'' ''4.5'') = Inr d)"
proof -
  let ?A = "\<lparr>name = ''Alpha'', url = ''https://www.google.com/maps/place/Alpha''\<rparr>"
  let ?B = "\<lparr>name = ''Bravo'', url = ''https://www.google.com/maps/place/Bravo''\<rparr>"
  note t = field_exception_ends_extraction[where doc = svg_phone_page and e = TypeError
      and v = "svg_visits 0" and i = 0 and l = ?A and ss = started and vs = svg_visits
      and ls = "[?B]"]
  note u = field_exception_ends_extraction[where doc = "detail_page ''Rendered name'' ''4.5''"]
  have d: "page_dom (svg_visits 0) = svg_phone_page" by (simp add: svg_visits_def)
  have 1: "extractBusinessDetails svg_phone_page = Inl TypeError"
    using t svg_phone by blast
  have 2: "detailedData (process_listing 0 ?A (svg_visits 0) started) = detailedData started"
    using t 1 d by simp
  have 3: "detailedData (process_from 0 [?A, ?B] svg_visits started) =
     detailedData (process_from (Suc 0) [?B] svg_visits started)"
    using t 1 d by simp
  have 4: "\<exists>d. extractBusinessDetails (detail_page ''Rendered name'' ''4.5'') = Inr d"
    using u[THEN conjunct1] sample_fields by blast
  have s: "detailedData started = []" by (simp add: started_def no_session_def)
  show ?thesis using svg_phone 1 2 3 4 s svg_run sample_fields by simp
qed

text \<open>
  C5 as stated fails: on the page with the SVG phone link the name and the address
  resolve, the phone code throws, and the extraction throws with it instead of returning
  a record whose phone is \<open>N/A\<close>.
\<close>

theorem phone_exception_loses_record:
  "resolve_address svg_phone_page = ''N/A'' \<and>
   resolve_name svg_phone_page = Some ''Cafe'' \<and>
   resolve_phone svg_phone_page = Inl TypeError \<and>
   extractBusinessDetails svg_phone_page = Inl TypeError"
  by code_simp

section \<open>Cascades\<close>

lemma first_yield_for_break:
  "first_yield f xs k v \<Longrightarrow> for_break f xs = (Some v, take (Suc k) xs)"
proof (induction xs arbitrary: k)
  case Nil
  then show ?case by (simp add: first_yield_def)
next
  case (Cons x xs)
  show ?case
  proof (cases k)
    case 0
    then show ?thesis using Cons.prems by (simp add: first_yield_def)
  next
    case (Suc m)
    then have "first_yield f xs m v" and "f x = None"
      using Cons.prems by (simp_all add: first_yield_def)
    then show ?thesis using Cons.IH Suc by simp
  qed
qed

lemma first_yield_e_for_break:
  "first_yield_e f xs k v \<Longrightarrow> for_break_e f xs = (Inr (Some v), take (Suc k) xs)"
proof (induction xs arbitrary: k)
  case Nil
  then show ?case by (simp add: first_yield_e_def)
next
  case (Cons x xs)
  show ?case
  proof (cases k)
    case 0
    then show ?thesis using Cons.prems by (simp add: first_yield_e_def)
  next
    case (Suc m)
    then have "first_yield_e f xs m v" and "f x = Inr None"
      using Cons.prems by (simp_all add: first_yield_e_def)
    then show ?thesis using Cons.IH Suc by simp
  qed
qed

lemma for_break_none:
  "(\<forall>x \<in> set xs. f x = None) \<Longrightarrow> for_break f xs = (None, xs)"
  by (induction xs) simp_all

text \<open>
  The hours table loop is a loop of this kind over \<open>hours_table_strategy\<close>: while no row
  has been found \<open>hoursData\<close> is empty.
\<close>

lemma hours_tables_for_break:
  "hours_tables doc sels [] False = for_break (hours_table_strategy doc) sels"
  by (induction sels) (simp_all add: hours_table_strategy_def Let_def split: option.splits)

lemma category_forEach_append:
  "category_forEach w (es @ [e]) cat =
     (let text = trim (textContent e) in
      if category_ok w text then text else category_forEach w es cat)"
  by (simp add: category_forEach_def Let_def)

lemma category_forEach_filter:
  "category_forEach w es cat =
     (case filter (category_ok w) (map (\<lambda>element. trim (textContent element)) es) of
        [] \<Rightarrow> cat
      | passing \<Rightarrow> last passing)"
proof (induction es rule: rev_induct)
  case Nil
  then show ?case by (simp add: category_forEach_def)
next
  case (snoc e es)
  show ?case
    unfolding category_forEach_append using snoc
    by (auto simp: Let_def split: list.splits)
qed

lemma category_step:
  "category_forEach w (querySelectorAll doc sel) ''N/A'' =
     (case category_strategy doc w sel of Some v \<Rightarrow> v | None \<Rightarrow> ''N/A'')"
  by (simp add: category_forEach_filter category_strategy_def split: list.splits)

text \<open>The category loop is a loop of this kind over \<open>category_strategy\<close>.\<close>

lemma category_links_for_break:
  "category_links doc w sels ''N/A'' =
     (or_NA (fst (for_break (category_strategy doc w) sels)),
      snd (for_break (category_strategy doc w) sels))"
proof (induction sels)
  case Nil
  then show ?case by (simp add: or_NA_def)
next
  case (Cons sel sels)
  have n: "category_strategy doc w sel \<noteq> Some ''N/A''"
    by (simp add: category_strategy_def split: list.splits)
  show ?case
  proof (cases "category_strategy doc w sel")
    case None
    then show ?thesis using Cons by (simp add: category_step split_beta)
  next
    case (Some v)
    then have "v \<noteq> ''N/A''" using n by blast
    then show ?thesis using Some by (simp add: category_step or_NA_def)
  qed
qed

lemma rating_strategy_not_NA: "rating_strategy doc sel = Some v \<Longrightarrow> v \<noteq> ''N/A''"
proof -
  assume "rating_strategy doc sel = Some v"
  then have r: "rating_shape v" by (rule rating_strategy_shape)
  have "\<not> rating_shape ''N/A''" by (simp add: rating_shape_def is_digit_def)
  then show ?thesis using r by blast
qed

lemma first_yield_value: "first_yield f xs k v \<Longrightarrow> \<exists>x \<in> set xs. f x = Some v"
  by (auto simp: first_yield_def)

lemma first_wins_name:
  "first_yield (name_strategy doc) nameSelectors k v \<Longrightarrow>
   name_loop doc = (Some v, take (Suc k) nameSelectors) \<and> resolve_name doc = Some v"
  by (simp add: resolve_name_def name_loop_def first_yield_for_break)

lemma first_wins_address:
  "first_yield (address_strategy doc) addressSelectors k v \<Longrightarrow>
   address_loop doc = (Some v, take (Suc k) addressSelectors) \<and> resolve_address doc = v"
  by (simp add: resolve_address_def address_loop_def first_yield_for_break or_NA_def)

lemma first_wins_phone:
  "first_yield_e (phone_strategy doc) phoneSelectors k v \<Longrightarrow>
   phone_loop doc = (Inr (Some v), take (Suc k) phoneSelectors) \<and> resolve_phone doc = Inr v"
  by (simp add: resolve_phone_def phone_loop_def first_yield_e_for_break or_NA_def)

lemma first_wins_website:
  "first_yield_e (website_strategy doc) websiteSelectors k v \<Longrightarrow>
   website_loop doc = (Inr (Some v), take (Suc k) websiteSelectors) \<and>
   resolve_website doc = Inr v"
  by (simp add: resolve_website_def website_loop_def first_yield_e_for_break or_NA_def)

lemma first_wins_rating:
  assumes "first_yield (rating_strategy doc) ratingSelectors k v"
  shows "rating_field doc = (v, take (Suc k) ratingSelectors) \<and> resolve_rating doc = v"
proof -
  from first_yield_value[OF assms] obtain sel where "rating_strategy doc sel = Some v" by blast
  then have "v \<noteq> ''N/A''" by (rule rating_strategy_not_NA)
  then show ?thesis
    by (simp add: resolve_rating_def rating_field_def rating_loop_def
          first_yield_for_break[OF assms] or_NA_def)
qed

text \<open>
  The count a review container yields is never the sentinel: the capture group of the
  review pattern is set to text that starts with a digit, and nothing after the group
  changes it.
\<close>

lemma rep_iter_cap:
  "(\<And>s s'. s' \<in> set (f s) \<Longrightarrow> cap s' = cap s) \<Longrightarrow>
   s' \<in> set (rep_iter f fuel lo hi s) \<Longrightarrow> cap s' = cap s"
proof (induction fuel arbitrary: lo hi s)
  case 0
  then show ?case by (simp split: if_splits)
next
  case (Suc fuel)
  show ?case
  proof (cases "hi = Some 0")
    case True
    then show ?thesis using Suc.prems(2) by simp
  next
    case False
    from Suc.prems(2) False consider "s' = s"
      | s1 where "s1 \<in> set (f s)"
          "s' \<in> set (rep_iter f fuel (lo - 1) (map_option (\<lambda>h. h - 1) hi) s1)"
      by (auto simp: Let_def split: if_splits)
    then show ?thesis
    proof cases
      case 1
      then show ?thesis by simp
    next
      case 2
      have "cap s' = cap s1" using Suc.IH[OF Suc.prems(1) 2(2)] .
      then show ?thesis using Suc.prems(1)[OF 2(1)] by simp
    qed
  qed
qed

lemma groupless_cap:
  "groupless r \<Longrightarrow> s' \<in> set (rmatch ci r s) \<Longrightarrow> cap s' = cap s"
proof (induction r arbitrary: s s')
  case Empty
  then show ?case by simp
next
  case (Chars neg as)
  then show ?case by (auto split: list.splits if_splits)
next
  case (Seq a b)
  then show ?case by (auto dest!: Seq.IH)
next
  case (Rep lo hi r)
  show ?case
    using Rep.prems Rep.IH by (auto intro: rep_iter_cap[where f = "\<lambda>s'. rmatch ci r s'"])
next
  case (Group r)
  then show ?case by simp
next
  case Bol
  then show ?case by (simp split: if_splits)
next
  case Eol
  then show ?case by (simp split: if_splits)
qed

lemma grouped_int_digit:
  "rmatch ci grouped_int s \<noteq> [] \<Longrightarrow> \<exists>c cs. rest s = c # cs \<and> is_digit c"
proof -
  assume a: "rmatch ci grouped_int s \<noteq> []"
  have g: "grouped_int =
     Seq (Rep 1 (Some 3) digit) (seqs [star (seqs [lit '','', Rep 3 (Some 3) digit])])"
    by (simp add: grouped_int_def seqs_def)
  have "rmatch ci (Rep 1 (Some 3) digit) s \<noteq> []"
    using a unfolding g rmatch.simps(3) by (auto simp del: rmatch.simps)
  then have "rmatch ci digit s \<noteq> []"
    by (cases "rmatch ci digit s = []") (simp_all add: Let_def)
  then show ?thesis
    by (auto simp: digit_def split: list.splits if_splits)
qed

lemma reviews_before_groupless:
  "reviews_before_re =
     Seq (Group grouped_int) (seqs [star (Chars False [CSpace]), lit ''review'', opt (lit ''s'')])"
  "groupless (seqs [star (Chars False [CSpace]), lit ''review'', opt (lit ''s'')])"
  by (simp_all add: reviews_before_re_def seqs_def star_def lit_def opt_def)

lemma reviews_before_cap:
  assumes "s' \<in> set (rmatch ci reviews_before_re s)"
  shows "\<exists>k c cs. rest s = c # cs \<and> is_digit c \<and> cap s' = Some (take k (c # cs))"
proof -
  let ?R = "seqs [star (Chars False [CSpace]), lit ''review'', opt (lit ''s'')]"
  from assms obtain s1 where 1: "s1 \<in> set (rmatch ci (Group grouped_int) s)"
    and 2: "s' \<in> set (rmatch ci ?R s1)"
    unfolding reviews_before_groupless(1) by auto
  have c: "cap s' = cap s1" using reviews_before_groupless(2) 2 by (rule groupless_cap)
  from 1 obtain s0 where 0: "s0 \<in> set (rmatch ci grouped_int s)"
    and k: "cap s1 = Some (take (pos s0 - pos s) (rest s))" by auto
  from 0 have "rmatch ci grouped_int s \<noteq> []" by auto
  from grouped_int_digit[OF this] obtain d ds where "rest s = d # ds" "is_digit d" by blast
  then show ?thesis using c k by auto
qed

lemma rsearch_reviews_cap:
  "rsearch ci reviews_before_re p s = Some (m0, Some m1) \<Longrightarrow> m1 = [] \<or> is_digit (hd m1)"
proof (induction s arbitrary: p)
  case Nil
  then show ?case
  proof (cases "rmatch ci reviews_before_re \<lparr>pos = p, rest = [], cap = None\<rparr>")
    case Nil
    then show ?thesis using Nil.prems by (subst (asm) rsearch.simps) simp
  next
    case (Cons s' ss)
    then have "s' \<in> set (rmatch ci reviews_before_re \<lparr>pos = p, rest = [], cap = None\<rparr>)" by simp
    from reviews_before_cap[OF this] show ?thesis by simp
  qed
next
  case (Cons x xs)
  show ?case
  proof (cases "rmatch ci reviews_before_re \<lparr>pos = p, rest = x # xs, cap = None\<rparr>")
    case Nil
    then have "rsearch ci reviews_before_re (Suc p) xs = Some (m0, Some m1)"
      using Cons.prems by (subst (asm) rsearch.simps) simp
    then show ?thesis by (rule Cons.IH)
  next
    case (Cons s' ss)
    then have "s' \<in> set (rmatch ci reviews_before_re \<lparr>pos = p, rest = x # xs, cap = None\<rparr>)"
      by simp
    from reviews_before_cap[OF this] obtain k c cs where
      "is_digit c" "cap s' = Some (take k (c # cs))" by auto
    moreover have "cap s' = Some m1"
      using Cons Cons.prems by (subst (asm) rsearch.simps) simp
    ultimately show ?thesis by (cases k) auto
  qed
qed

lemma reviews_container_not_NA: "reviews_container c = Some v \<Longrightarrow> v \<noteq> ''N/A''"
proof -
  assume "reviews_container c = Some v"
  then obtain m0 where "js_match True reviews_before_re (textContent c) = Some (m0, Some v)"
    and "v \<noteq> []"
    by (auto simp: reviews_container_def truthy_capture_def split: option.splits if_splits)
  then have "is_digit (hd v)" using rsearch_reviews_cap[of True 0 "textContent c" m0 v]
    by (simp add: js_match_def)
  then show ?thesis by (auto simp: is_digit_def)
qed

lemma first_wins_reviews:
  assumes "first_yield reviews_container
             (querySelectorAll doc ''span.F7nice, div.F7nice, div.review-score'') k v"
  shows "reviews_loop doc =
           (Some v, take (Suc k) (querySelectorAll doc ''span.F7nice, div.F7nice, div.review-score'')) \<and>
         resolve_reviews doc = Inr v"
proof -
  from first_yield_value[OF assms] obtain c where "reviews_container c = Some v" by blast
  then have "v \<noteq> ''N/A''" by (rule reviews_container_not_NA)
  then show ?thesis
    by (simp add: resolve_reviews_def reviews_loop_def first_yield_for_break[OF assms] or_NA_def)
qed

lemma first_wins_hours_table:
  "first_yield (hours_table_strategy doc) hoursTableSelectors k v \<Longrightarrow>
   hours_field doc = (v, take (Suc k) hoursTableSelectors) \<and> resolve_hours doc = v"
  by (simp add: resolve_hours_def hours_field_def hours_tables_for_break first_yield_for_break)

lemma first_wins_hours_section:
  assumes "(\<forall>sel \<in> set hoursTableSelectors. hours_table_strategy doc sel = None) \<and>
           first_yield (hours_section doc) hoursSelectors k v"
  shows "hours_field doc = (v, hoursTableSelectors @ take (Suc k) hoursSelectors) \<and>
         resolve_hours doc = v"
proof -
  from assms have t: "\<forall>sel \<in> set hoursTableSelectors. hours_table_strategy doc sel = None"
    and y: "first_yield (hours_section doc) hoursSelectors k v" by blast+
  have "hours_tables doc hoursTableSelectors [] False = (None, hoursTableSelectors)"
    unfolding hours_tables_for_break using t by (rule for_break_none)
  then show ?thesis
    by (simp add: resolve_hours_def hours_field_def hours_section_loop_def
          first_yield_for_break[OF y] or_NA_def)
qed

lemma first_wins_price:
  "first_yield (price_strategy doc) priceSelectors k v \<Longrightarrow>
   price_loop doc = (Some v, take (Suc k) priceSelectors) \<and> resolve_priceRange doc = Some v"
  by (simp add: resolve_priceRange_def price_loop_def first_yield_for_break)

lemma first_wins_category:
  assumes "first_yield (category_strategy doc w) categorySelectors k v"
  shows "category_links doc w categorySelectors ''N/A'' = (v, take (Suc k) categorySelectors) \<and>
         resolve_category doc w t = v"
proof -
  from first_yield_value[OF assms] obtain sel where "category_strategy doc w sel = Some v"
    by blast
  then have "v \<noteq> ''N/A''" by (auto simp: category_strategy_def split: list.splits if_splits)
  then show ?thesis
    by (simp add: resolve_category_def category_links_for_break first_yield_for_break[OF assms]
          or_NA_def)
qed

text \<open>The fallbacks that follow the selector loops of rating, reviews and category.\<close>

lemma first_yield_for_first: "first_yield f xs k v \<Longrightarrow> for_first f xs = Some v"
  by (simp add: for_first_def first_yield_for_break)

lemma span_scan_wins:
  assumes "(\<forall>sel \<in> set ratingSelectors. rating_strategy doc sel = None) \<and>
           find rating_span_ok (querySelectorAll doc ''span'') = Some sp"
  shows "rating_field doc = (trim (textContent sp), ratingSelectors @ [''span'']) \<and>
         resolve_rating doc = trim (textContent sp)"
proof -
  from assms have n: "\<forall>sel \<in> set ratingSelectors. rating_strategy doc sel = None"
    and f: "find rating_span_ok (querySelectorAll doc ''span'') = Some sp" by blast+
  have "rating_loop doc = (None, ratingSelectors)"
    unfolding rating_loop_def using n by (rule for_break_none)
  then show ?thesis by (simp add: resolve_rating_def rating_field_def or_NA_def f)
qed

lemma reviews_text_wins:
  assumes "(\<forall>container \<in> set (querySelectorAll doc ''span.F7nice, div.F7nice, div.review-score'').
              reviews_container container = None) \<and>
           body_innerText doc = Some t \<and>
           first_yield truthy_capture
             [js_match True reviews_before_re t, js_match True reviews_after_re t] k v"
  shows "resolve_reviews doc = Inr v"
proof -
  from assms have n: "\<forall>container
        \<in> set (querySelectorAll doc ''span.F7nice, div.F7nice, div.review-score'').
           reviews_container container = None"
    and t: "body_innerText doc = Some t"
    and y: "first_yield truthy_capture
             [js_match True reviews_before_re t, js_match True reviews_after_re t] k v"
    by blast+
  have "reviews_loop doc =
          (None, querySelectorAll doc ''span.F7nice, div.F7nice, div.review-score'')"
    unfolding reviews_loop_def using n by (rule for_break_none)
  then show ?thesis
    using first_yield_for_first[OF y] by (simp add: resolve_reviews_def or_NA_def t)
qed

lemma category_text_wins:
  assumes "(\<forall>sel \<in> set categorySelectors. category_strategy doc w sel = None) \<and>
           first_yield truthy_capture
             [js_match True (labelled_re ''Category:'') t, js_match True (labelled_re ''Type:'') t]
             k v"
  shows "resolve_category doc w t = trim v"
proof -
  from assms have n: "\<forall>sel \<in> set categorySelectors. category_strategy doc w sel = None"
    and y: "first_yield truthy_capture
             [js_match True (labelled_re ''Category:'') t, js_match True (labelled_re ''Type:'') t]
             k v"
    by blast+
  have "for_break (category_strategy doc w) categorySelectors = (None, categorySelectors)"
    using n by (rule for_break_none)
  then have "category_links doc w categorySelectors ''N/A'' = (''N/A'', categorySelectors)"
    by (simp add: category_links_for_break or_NA_def)
  then show ?thesis
    using first_yield_for_first[OF y] by (simp add: resolve_category_def)
qed

lemma attributes_all_selectors:
  "attributes_loop doc (attribute_ok n a p w c) attributeSelectors [] =
     (concat (map (attribute_strategy doc n a p w c) attributeSelectors), attributeSelectors)"
  by (simp add: attributes_loop_eq attribute_strategy_def[abs_def])

text \<open>
  C7, as the code has it. The loops are taken as they are embedded above, each with the
  log of what it has queried.

  For name, address, phone, website, rating, reviews, hours and priceRange: when strategy
  number \<open>k\<close> is the first, in order, that yields, the loop has run its body on the
  strategies up to \<open>k\<close> and on none after it, and the field resolves to the value of
  strategy \<open>k\<close>. For rating a strategy yields only a text that \<open>/^\d(\.\d)?$/\<close>
  accepts, and when one yields the span scan is not run either. For reviews the strategies
  are the review containers, of which one yields when the review pattern captures a count
  in it. For hours the strategies are the three
  table selectors, of which one yields when its table has a row with a day and hours, and
  then neither a later table selector nor a section selector is queried; when no table
  selector yields, all three have been queried and the section selectors follow in the
  same way.

  For category the strategies are the selectors: a selector yields the text of the last of
  its elements that pass the filter, unless that text is \<open>N/A\<close>, in which case the loop
  goes on as if the selector had yielded nothing. The first selector that yields gives the
  category and no selector after it is queried.

  When no selector strategy yields, the fallback of the field gives the value in the same
  way: for rating the first \<open>span\<close>, in document order, whose trimmed text is a number
  from 0 to 5 of that shape; for reviews and for category the first of the field's two
  patterns that captures a non-empty text in the page text (trimmed, for category).

  The attributes are no cascade: all four selectors are queried whatever the earlier ones
  yield, and the passing texts of all of them are concatenated.
\<close>

theorem cascades_first_wins:
  "(\<forall>k v. first_yield (name_strategy doc) nameSelectors k v \<longrightarrow>
      name_loop doc = (Some v, take (Suc k) nameSelectors) \<and> resolve_name doc = Some v) \<and>
   (\<forall>k v. first_yield (address_strategy doc) addressSelectors k v \<longrightarrow>
      address_loop doc = (Some v, take (Suc k) addressSelectors) \<and> resolve_address doc = v) \<and>
   (\<forall>k v. first_yield_e (phone_strategy doc) phoneSelectors k v \<longrightarrow>
      phone_loop doc = (Inr (Some v), take (Suc k) phoneSelectors) \<and>
      resolve_phone doc = Inr v) \<and>
   (\<forall>k v. first_yield_e (website_strategy doc) websiteSelectors k v \<longrightarrow>
      website_loop doc = (Inr (Some v), take (Suc k) websiteSelectors) \<and>
      resolve_website doc = Inr v) \<and>
   (\<forall>k v. first_yield (rating_strategy doc) ratingSelectors k v \<longrightarrow>
      rating_field doc = (v, take (Suc k) ratingSelectors) \<and> resolve_rating doc = v) \<and>
   (\<forall>k v. first_yield reviews_container
             (querySelectorAll doc ''span.F7nice, div.F7nice, div.review-score'') k v \<longrightarrow>
      reviews_loop doc =
        (Some v, take (Suc k) (querySelectorAll doc ''span.F7nice, div.F7nice, div.review-score'')) \<and>
      resolve_reviews doc = Inr v) \<and>
   (\<forall>k v. first_yield (hours_table_strategy doc) hoursTableSelectors k v \<longrightarrow>
      hours_field doc = (v, take (Suc k) hoursTableSelectors) \<and> resolve_hours doc = v) \<and>
   (\<forall>k v. (\<forall>sel \<in> set hoursTableSelectors. hours_table_strategy doc sel = None) \<and>
           first_yield (hours_section doc) hoursSelectors k v \<longrightarrow>
      hours_field doc = (v, hoursTableSelectors @ take (Suc k) hoursSelectors) \<and>
      resolve_hours doc = v) \<and>
   (\<forall>k v. first_yield (price_strategy doc) priceSelectors k v \<longrightarrow>
      price_loop doc = (Some v, take (Suc k) priceSelectors) \<and>
      resolve_priceRange doc = Some v) \<and>
   (\<forall>k v. first_yield (category_strategy doc w) categorySelectors k v \<longrightarrow>
      category_links doc w categorySelectors ''N/A'' = (v, take (Suc k) categorySelectors) \<and>
      resolve_category doc w t = v) \<and>
   (\<forall>sp. (\<forall>sel \<in> set ratingSelectors. rating_strategy doc sel = None) \<and>
          find rating_span_ok (querySelectorAll doc ''span'') = Some sp \<longrightarrow>
      rating_field doc = (trim (textContent sp), ratingSelectors @ [''span'']) \<and>
      resolve_rating doc = trim (textContent sp)) \<and>
   (\<forall>k v. (\<forall>container \<in> set (querySelectorAll doc ''span.F7nice, div.F7nice, div.review-score'').
             reviews_container container = None) \<and>
          body_innerText doc = Some t \<and>
          first_yield truthy_capture
            [js_match True reviews_before_re t, js_match True reviews_after_re t] k v \<longrightarrow>
      resolve_reviews doc = Inr v) \<and>
   (\<forall>k v. (\<forall>sel \<in> set categorySelectors. category_strategy doc w sel = None) \<and>
          first_yield truthy_capture
            [js_match True (labelled_re ''Category:'') t, js_match True (labelled_re ''Type:'') t]
            k v \<longrightarrow>
      resolve_category doc w t = trim v) \<and>
   attributes_loop doc (attribute_ok n a p w c) attributeSelectors [] =
     (concat (map (attribute_strategy doc n a p w c) attributeSelectors), attributeSelectors)"
proof (intro conjI allI)
  fix k v
  show "first_yield (name_strategy doc) nameSelectors k v \<longrightarrow>
      name_loop doc = (Some v, take (Suc k) nameSelectors) \<and> resolve_name doc = Some v"
    by (rule impI) (rule first_wins_name)
  show "first_yield (address_strategy doc) addressSelectors k v \<longrightarrow>
      address_loop doc = (Some v, take (Suc k) addressSelectors) \<and> resolve_address doc = v"
    by (rule impI) (rule first_wins_address)
  show "first_yield_e (phone_strategy doc) phoneSelectors k v \<longrightarrow>
      phone_loop doc = (Inr (Some v), take (Suc k) phoneSelectors) \<and>
      resolve_phone doc = Inr v"
    by (rule impI) (rule first_wins_phone)
  show "first_yield_e (website_strategy doc) websiteSelectors k v \<longrightarrow>
      website_loop doc = (Inr (Some v), take (Suc k) websiteSelectors) \<and>
      resolve_website doc = Inr v"
    by (rule impI) (rule first_wins_website)
  show "first_yield (rating_strategy doc) ratingSelectors k v \<longrightarrow>
      rating_field doc = (v, take (Suc k) ratingSelectors) \<and> resolve_rating doc = v"
    by (rule impI) (rule first_wins_rating)
  show "first_yield reviews_container
             (querySelectorAll doc ''span.F7nice, div.F7nice, div.review-score'') k v \<longrightarrow>
      reviews_loop doc =
        (Some v, take (Suc k) (querySelectorAll doc ''span.F7nice, div.F7nice, div.review-score'')) \<and>
      resolve_reviews doc = Inr v"
    by (rule impI) (rule first_wins_reviews)
  show "first_yield (hours_table_strategy doc) hoursTableSelectors k v \<longrightarrow>
      hours_field doc = (v, take (Suc k) hoursTableSelectors) \<and> resolve_hours doc = v"
    by (rule impI) (rule first_wins_hours_table)
  show "(\<forall>sel \<in> set hoursTableSelectors. hours_table_strategy doc sel = None) \<and>
           first_yield (hours_section doc) hoursSelectors k v \<longrightarrow>
      hours_field doc = (v, hoursTableSelectors @ take (Suc k) hoursSelectors) \<and>
      resolve_hours doc = v"
    by (rule impI) (rule first_wins_hours_section)
  show "first_yield (price_strategy doc) priceSelectors k v \<longrightarrow>
      price_loop doc = (Some v, take (Suc k) priceSelectors) \<and>
      resolve_priceRange doc = Some v"
    by (rule impI) (rule first_wins_price)
  show "first_yield (category_strategy doc w) categorySelectors k v \<longrightarrow>
      category_links doc w categorySelectors ''N/A'' = (v, take (Suc k) categorySelectors) \<and>
      resolve_category doc w t = v"
    by (rule impI) (rule first_wins_category)
  show "(\<forall>container \<in> set (querySelectorAll doc ''span.F7nice, div.F7nice, div.review-score'').
             reviews_container container = None) \<and>
          body_innerText doc = Some t \<and>
          first_yield truthy_capture
            [js_match True reviews_before_re t, js_match True reviews_after_re t] k v \<longrightarrow>
      resolve_reviews doc = Inr v"
    by (rule impI) (rule reviews_text_wins)
  show "(\<forall>sel \<in> set categorySelectors. category_strategy doc w sel = None) \<and>
          first_yield truthy_capture
            [js_match True (labelled_re ''Category:'') t, js_match True (labelled_re ''Type:'') t]
            k v \<longrightarrow>
      resolve_category doc w t = trim v"
    by (rule impI) (rule category_text_wins)
next
  fix sp
  show "(\<forall>sel \<in> set ratingSelectors. rating_strategy doc sel = None) \<and>
          find rating_span_ok (querySelectorAll doc ''span'') = Some sp \<longrightarrow>
      rating_field doc = (trim (textContent sp), ratingSelectors @ [''span'']) \<and>
      resolve_rating doc = trim (textContent sp)"
    by (rule impI) (rule span_scan_wins)
next
  show "attributes_loop doc (attribute_ok n a p w c) attributeSelectors [] =
     (concat (map (attribute_strategy doc n a p w c) attributeSelectors), attributeSelectors)"
    by (rule attributes_all_selectors)
qed

lemma cascade_page_yields:
  "first_yield (name_strategy cascade_page) nameSelectors 2 ''Cafe Uno''"
  "first_yield (address_strategy cascade_page) addressSelectors 1 ''1 Main St''"
  "first_yield_e (phone_strategy cascade_page) phoneSelectors 4 ''+15550100''"
  "first_yield_e (website_strategy cascade_page) websiteSelectors 1 ''https://cafe.example/''"
  "first_yield (rating_strategy cascade_page) ratingSelectors 3 ''4.5''"
  "first_yield reviews_container
     (querySelectorAll cascade_page ''span.F7nice, div.F7nice, div.review-score'') 1 ''120''"
  "first_yield (hours_table_strategy cascade_page) hoursTableSelectors 1 ''Monday: 9-5''"
  "first_yield (price_strategy cascade_page) priceSelectors 1 ''$$''"
  "first_yield (category_strategy cascade_page ''https://cafe.example/'') categorySelectors 2
     ''Cafe''"
  by code_simp+

lemma section_page_yields:
  "\<forall>sel \<in> set hoursTableSelectors. hours_table_strategy detail_hours_page sel = None"
  "first_yield (hours_section detail_hours_page) hoursSelectors 2 ''9-5''"
  "map (hours_table_strategy detail_hours_page) hoursTableSelectors = [None, None, None]"
  by code_simp+

lemma fallback_yields:
  "\<forall>sel \<in> set ratingSelectors.
     rating_strategy (detail_page ''Rendered name'' ''4.5'') sel = None"
  "find rating_span_ok (querySelectorAll (detail_page ''Rendered name'' ''4.5'') ''span'') =
     Some (text_el ''4.5'')"
  "\<forall>container \<in> set (querySelectorAll text_only_page
       ''span.F7nice, div.F7nice, div.review-score''). reviews_container container = None"
  "body_innerText text_only_page =
     Some (join [CHR 0x0A] [''Reviews: 88'', ''Type: Bakery, open now''])"
  "first_yield truthy_capture
     [js_match True reviews_before_re (join [CHR 0x0A] [''Reviews: 88'', ''Type: Bakery, open now'']),
      js_match True reviews_after_re (join [CHR 0x0A] [''Reviews: 88'', ''Type: Bakery, open now''])]
     1 ''88''"
  "\<forall>sel \<in> set categorySelectors. category_strategy text_only_page ''N/A'' sel = None"
  "first_yield truthy_capture
     [js_match True (labelled_re ''Category:'')
        (join [CHR 0x0A] [''Reviews: 88'', ''Type: Bakery, open now'']),
      js_match True (labelled_re ''Type:'')
        (join [CHR 0x0A] [''Reviews: 88'', ''Type: Bakery, open now''])]
     1 ''Bakery''"
  "trim ''Bakery'' = ''Bakery''" "trim (textContent (text_el ''4.5'')) = ''4.5''"
  by code_simp+

lemma sentinel_page_yields:
  "category_strategy category_sentinel_page ''https://cafe.example/'' ''a.CsEnBe'' = None"
  "first_yield (category_strategy category_sentinel_page ''https://cafe.example/'')
     categorySelectors 2 ''Bar''"
  by code_simp+

theorem cascades_first_wins_witness:
  "first_yield (name_strategy cascade_page) nameSelectors 2 ''Cafe Uno'' \<and>
   name_loop cascade_page = (Some ''Cafe Uno'', take (Suc 2) nameSelectors) \<and>
   resolve_name cascade_page = Some ''Cafe Uno'' \<and>
   first_yield (address_strategy cascade_page) addressSelectors 1 ''1 Main St'' \<and>
   resolve_address cascade_page = ''1 Main St'' \<and>
   first_yield_e (phone_strategy cascade_page) phoneSelectors 4 ''+15550100'' \<and>
   resolve_phone cascade_page = Inr ''+15550100'' \<and>
   first_yield_e (website_strategy cascade_page) websiteSelectors 1 ''https://cafe.example/'' \<and>
   resolve_website cascade_page = Inr ''https://cafe.example/'' \<and>
   first_yield (rating_strategy cascade_page) ratingSelectors 3 ''4.5'' \<and>
   rating_field cascade_page = (''4.5'', take (Suc 3) ratingSelectors) \<and>
   resolve_rating cascade_page = ''4.5'' \<and>
   first_yield reviews_container
     (querySelectorAll cascade_page ''span.F7nice, div.F7nice, div.review-score'') 1 ''120'' \<and>
   reviews_loop cascade_page =
     (Some ''120'',
      take (Suc 1)
        (querySelectorAll cascade_page ''span.F7nice, div.F7nice, div.review-score'')) \<and>
   resolve_reviews cascade_page = Inr ''120'' \<and>
   first_yield (hours_table_strategy cascade_page) hoursTableSelectors 1 ''Monday: 9-5'' \<and>
   hours_field cascade_page = (''Monday: 9-5'', take (Suc 1) hoursTableSelectors) \<and>
   resolve_hours cascade_page = ''Monday: 9-5'' \<and>
   map (hours_table_strategy detail_hours_page) hoursTableSelectors = [None, None, None] \<and>
   first_yield (hours_section detail_hours_page) hoursSelectors 2 ''9-5'' \<and>
   hours_field detail_hours_page = (''9-5'', hoursTableSelectors @ take (Suc 2) hoursSelectors) \<and>
   resolve_hours detail_hours_page = ''9-5'' \<and>
   first_yield (price_strategy cascade_page) priceSelectors 1 ''$$'' \<and>
   resolve_priceRange cascade_page = Some ''$$'' \<and>
   first_yield (category_strategy cascade_page ''https://cafe.example/'') categorySelectors 2
     ''Cafe'' \<and>
   resolve_category cascade_page ''https://cafe.example/'' ''Cafe Uno'' = ''Cafe'' \<and>
   category_strategy category_sentinel_page ''https://cafe.example/'' ''a.CsEnBe'' = None \<and>
   first_yield (category_strategy category_sentinel_page ''https://cafe.example/'')
     categorySelectors 2 ''Bar'' \<and>
   category_links category_sentinel_page ''https://cafe.example/'' categorySelectors ''N/A'' =
     (''Bar'', take (Suc 2) categorySelectors) \<and>
   resolve_category category_sentinel_page ''https://cafe.example/'' ''Cafe'' = ''Bar'' \<and>
   find rating_span_ok (querySelectorAll (detail_page ''Rendered name'' ''4.5'') ''span'') =
     Some (text_el ''4.5'') \<and>
   rating_field (detail_page ''Rendered name'' ''4.5'') = (''4.5'', ratingSelectors @ [''span'']) \<and>
   resolve_rating (detail_page ''Rendered name'' ''4.5'') = ''4.5'' \<and>
   body_innerText text_only_page =
     Some (join [CHR 0x0A] [''Reviews: 88'', ''Type: Bakery, open now'']) \<and>
   resolve_reviews text_only_page = Inr ''88'' \<and>
   resolve_category text_only_page ''N/A''
     (join [CHR 0x0A] [''Reviews: 88'', ''Type: Bakery, open now'']) = ''Bakery''"
proof -
  note c = cascades_first_wins[where doc = cascade_page and w = "''https://cafe.example/''"
      and t = "''Cafe Uno''"]
  note s = cascades_first_wins[where doc = detail_hours_page]
  note g = cascades_first_wins[where doc = category_sentinel_page
      and w = "''https://cafe.example/''"
      and t = "''Cafe''"]
  note y = cascade_page_yields
  note c1 = c[THEN conjunct1, rule_format, OF y(1)]
  note c2 = c[THEN conjunct2, THEN conjunct1, rule_format, OF y(2)]
  note c3 = c[THEN conjunct2, THEN conjunct2, THEN conjunct1, rule_format, OF y(3)]
  note c4 = c[THEN conjunct2, THEN conjunct2, THEN conjunct2, THEN conjunct1, rule_format,
      OF y(4)]
  note c5 = c[THEN conjunct2, THEN conjunct2, THEN conjunct2, THEN conjunct2, THEN conjunct1,
      rule_format, OF y(5)]
  note c6 = c[THEN conjunct2, THEN conjunct2, THEN conjunct2, THEN conjunct2, THEN conjunct2,
      THEN conjunct1, rule_format, OF y(6)]
  note c7 = c[THEN conjunct2, THEN conjunct2, THEN conjunct2, THEN conjunct2, THEN conjunct2,
      THEN conjunct2, THEN conjunct1, rule_format, OF y(7)]
  have sp: "(\<forall>sel \<in> set hoursTableSelectors. hours_table_strategy detail_hours_page sel = None) \<and>
     first_yield (hours_section detail_hours_page) hoursSelectors 2 ''9-5''"
    using section_page_yields by blast
  note s8 = s[THEN conjunct2, THEN conjunct2, THEN conjunct2, THEN conjunct2, THEN conjunct2,
      THEN conjunct2, THEN conjunct2, THEN conjunct1, rule_format, OF sp]
  note c9 = c[THEN conjunct2, THEN conjunct2, THEN conjunct2, THEN conjunct2, THEN conjunct2,
      THEN conjunct2, THEN conjunct2, THEN conjunct2, THEN conjunct1, rule_format, OF y(8)]
  note c10 = c[THEN conjunct2, THEN conjunct2, THEN conjunct2, THEN conjunct2, THEN conjunct2,
      THEN conjunct2, THEN conjunct2, THEN conjunct2, THEN conjunct2, THEN conjunct1,
      rule_format, OF y(9)]
  note g10 = g[THEN conjunct2, THEN conjunct2, THEN conjunct2, THEN conjunct2, THEN conjunct2,
      THEN conjunct2, THEN conjunct2, THEN conjunct2, THEN conjunct2, THEN conjunct1,
      rule_format, OF sentinel_page_yields(2)]
  let ?t = "join [CHR 0x0A] [''Reviews: 88'', ''Type: Bakery, open now'']"
  note r = cascades_first_wins[where doc = "detail_page ''Rendered name'' ''4.5''"]
  note x = cascades_first_wins[where doc = text_only_page and w = "''N/A''" and t = ?t]
  have h11: "(\<forall>sel \<in> set ratingSelectors.
        rating_strategy (detail_page ''Rendered name'' ''4.5'') sel = None) \<and>
     find rating_span_ok (querySelectorAll (detail_page ''Rendered name'' ''4.5'') ''span'') =
       Some (text_el ''4.5'')"
    using fallback_yields(1,2) by blast
  note r11 = r[THEN conjunct2, THEN conjunct2, THEN conjunct2, THEN conjunct2, THEN conjunct2,
      THEN conjunct2, THEN conjunct2, THEN conjunct2, THEN conjunct2, THEN conjunct2,
      THEN conjunct1, rule_format, OF h11]
  have h12: "(\<forall>container \<in> set (querySelectorAll text_only_page
         ''span.F7nice, div.F7nice, div.review-score''). reviews_container container = None) \<and>
     body_innerText text_only_page = Some ?t \<and>
     first_yield truthy_capture
       [js_match True reviews_before_re ?t, js_match True reviews_after_re ?t] 1 ''88''"
    using fallback_yields(3,4,5) by blast
  note x12 = x[THEN conjunct2, THEN conjunct2, THEN conjunct2, THEN conjunct2, THEN conjunct2,
      THEN conjunct2, THEN conjunct2, THEN conjunct2, THEN conjunct2, THEN conjunct2,
      THEN conjunct2, THEN conjunct1, rule_format, OF h12]
  have h13: "(\<forall>sel \<in> set categorySelectors. category_strategy text_only_page ''N/A'' sel = None) \<and>
     first_yield truthy_capture
       [js_match True (labelled_re ''Category:'') ?t, js_match True (labelled_re ''Type:'') ?t]
       1 ''Bakery''"
    using fallback_yields(6,7) by blast
  note x13 = x[THEN conjunct2, THEN conjunct2, THEN conjunct2, THEN conjunct2, THEN conjunct2,
      THEN conjunct2, THEN conjunct2, THEN conjunct2, THEN conjunct2, THEN conjunct2,
      THEN conjunct2, THEN conjunct2, THEN conjunct1, rule_format, OF h13]
  have a: "first_yield (name_strategy cascade_page) nameSelectors 2 ''Cafe Uno'' \<and>
     name_loop cascade_page = (Some ''Cafe Uno'', take (Suc 2) nameSelectors) \<and>
     resolve_name cascade_page = Some ''Cafe Uno'' \<and>
     first_yield (address_strategy cascade_page) addressSelectors 1 ''1 Main St'' \<and>
     resolve_address cascade_page = ''1 Main St'' \<and>
     first_yield_e (phone_strategy cascade_page) phoneSelectors 4 ''+15550100'' \<and>
     resolve_phone cascade_page = Inr ''+15550100'' \<and>
     first_yield_e (website_strategy cascade_page) websiteSelectors 1 ''https://cafe.example/'' \<and>
     resolve_website cascade_page = Inr ''https://cafe.example/''"
    using y c1 c2 c3 c4 by simp
  have b: "first_yield (rating_strategy cascade_page) ratingSelectors 3 ''4.5'' \<and>
     rating_field cascade_page = (''4.5'', take (Suc 3) ratingSelectors) \<and>
     resolve_rating cascade_page = ''4.5'' \<and>
     first_yield reviews_container
       (querySelectorAll cascade_page ''span.F7nice, div.F7nice, div.review-score'') 1 ''120'' \<and>
     reviews_loop cascade_page =
       (Some ''120'',
        take (Suc 1)
          (querySelectorAll cascade_page ''span.F7nice, div.F7nice, div.review-score'')) \<and>
     resolve_reviews cascade_page = Inr ''120'' \<and>
     first_yield (hours_table_strategy cascade_page) hoursTableSelectors 1 ''Monday: 9-5'' \<and>
     hours_field cascade_page = (''Monday: 9-5'', take (Suc 1) hoursTableSelectors) \<and>
     resolve_hours cascade_page = ''Monday: 9-5''"
    using y c5 c6 c7 by simp
  have d: "map (hours_table_strategy detail_hours_page) hoursTableSelectors = [None, None, None] \<and>
     first_yield (hours_section detail_hours_page) hoursSelectors 2 ''9-5'' \<and>
     hours_field detail_hours_page = (''9-5'', hoursTableSelectors @ take (Suc 2) hoursSelectors) \<and>
     resolve_hours detail_hours_page = ''9-5'' \<and>
     first_yield (price_strategy cascade_page) priceSelectors 1 ''$$'' \<and>
     resolve_priceRange cascade_page = Some ''$$'' \<and>
     first_yield (category_strategy cascade_page ''https://cafe.example/'') categorySelectors 2
       ''Cafe'' \<and>
     resolve_category cascade_page ''https://cafe.example/'' ''Cafe Uno'' = ''Cafe''"
    using y section_page_yields s8 c9 c10 by simp
  have e: "category_strategy category_sentinel_page ''https://cafe.example/'' ''a.CsEnBe'' = None \<and>
     first_yield (category_strategy category_sentinel_page ''https://cafe.example/'')
       categorySelectors 2 ''Bar'' \<and>
     category_links category_sentinel_page ''https://cafe.example/'' categorySelectors ''N/A'' =
       (''Bar'', take (Suc 2) categorySelectors) \<and>
     resolve_category category_sentinel_page ''https://cafe.example/'' ''Cafe'' = ''Bar''"
    using sentinel_page_yields g10 by simp
  have f: "find rating_span_ok (querySelectorAll (detail_page ''Rendered name'' ''4.5'') ''span'') =
       Some (text_el ''4.5'') \<and>
     rating_field (detail_page ''Rendered name'' ''4.5'') = (''4.5'', ratingSelectors @ [''span'']) \<and>
     resolve_rating (detail_page ''Rendered name'' ''4.5'') = ''4.5'' \<and>
     body_innerText text_only_page = Some ?t \<and>
     resolve_reviews text_only_page = Inr ''88'' \<and>
     resolve_category text_only_page ''N/A'' ?t = ''Bakery''"
    using fallback_yields(2,4,8,9) r11 x12 x13 by simp
  from a b d e f show ?thesis by (intro conjI) (elim conjE, assumption)+
qed

text \<open>
  C7 as stated fails for the attributes: the second attribute selector yields \<open>Wi-Fi\<close>,
  the loop goes on to query the third and the fourth, and the resolved value holds the
  texts of the second and the third.
\<close>

theorem attributes_merge_all_selectors:
  "attribute_strategy two_attributes_page None ''N/A'' ''N/A'' ''N/A'' ''N/A''
     ''.ggc0ld .Io6YTe'' = [''Wi-Fi''] \<and>
   attributes_loop two_attributes_page (attribute_ok None ''N/A'' ''N/A'' ''N/A'' ''N/A'')
     attributeSelectors [] =
     ([''Wi-Fi'', ''Patio''],
      [''.RcCsl .AeaXub .Io6YTe span'', ''.ggc0ld .Io6YTe'', ''.q5X0Ue'', ''div.PODJx'']) \<and>
   extractBusinessDetails two_attributes_page =
     Inr [(''address'', ''N/A''), (''phone'', ''N/A''), (''website'', ''N/A''),
          (''rating'', ''N/A''), (''reviews'', ''N/A''), (''hours'', ''N/A''),
          (''email'', ''N/A''), (''category'', ''N/A''), (''attributes'', ''Wi-Fi, Patio'')]"
  by code_simp

end
